theory Spec2Isabelle
  imports Main "HOL-Library.Sublist"
begin

section \<open>Python strings\<close>

text \<open>
  A Python \<open>str\<close> is a sequence of Unicode code points and \<open>len\<close> counts code points, so a
  string is modelled as a list of code points (integers, as \<open>ord\<close> returns them). The keyword tables of
  \<open>backend/main.py\<close> are written with the code points of their characters in hexadecimal.
\<close>

type_synonym ustring = "int list"

definition ascii :: "string \<Rightarrow> ustring" where
  "ascii s = map of_char s"

text \<open>\<open>s.startswith(p)\<close>.\<close>

fun startswith :: "ustring \<Rightarrow> ustring \<Rightarrow> bool" where
  "startswith s [] = True"
| "startswith [] (p # ps) = False"
| "startswith (c # cs) (p # ps) = (c = p \<and> startswith cs ps)"

text \<open>\<open>sub in s\<close>: substring containment.\<close>

fun str_in :: "ustring \<Rightarrow> ustring \<Rightarrow> bool" where
  "str_in sub [] = (sub = [])"
| "str_in sub (c # cs) = (startswith (c # cs) sub \<or> str_in sub cs)"

text \<open>\<open>any(w in s for w in ws)\<close>.\<close>

definition any_in :: "ustring list \<Rightarrow> ustring \<Rightarrow> bool" where
  "any_in ws s = list_ex (\<lambda>w. str_in w s) ws"

text \<open>
  \<open>str.isspace\<close> for one code point: the characters that \<open>str.strip()\<close> removes.
\<close>

definition is_space :: "int \<Rightarrow> bool" where
  "is_space c = ((0x09 \<le> c \<and> c \<le> 0x0D) \<or> (0x1C \<le> c \<and> c \<le> 0x20) \<or> c = 0x85 \<or> c = 0xA0
     \<or> c = 0x1680 \<or> (0x2000 \<le> c \<and> c \<le> 0x200A) \<or> c = 0x2028 \<or> c = 0x2029 \<or> c = 0x202F
     \<or> c = 0x205F \<or> c = 0x3000)"

text \<open>\<open>s.strip()\<close>.\<close>

definition strip :: "ustring \<Rightarrow> ustring" where
  "strip s = rev (dropWhile is_space (rev (dropWhile is_space s)))"

text \<open>
  \<open>s.split('\n\n')\<close>: the pieces between the non-overlapping occurrences of two line feeds,
  found from left to right.
\<close>

fun cons_first :: "int \<Rightarrow> ustring list \<Rightarrow> ustring list" where
  "cons_first c [] = [[c]]"
| "cons_first c (piece # pieces) = (c # piece) # pieces"

fun split_nn :: "ustring \<Rightarrow> ustring list" where
  "split_nn (a # b # cs) =
     (if a = 0x0A \<and> b = 0x0A then [] # split_nn cs
      else cons_first a (split_nn (b # cs)))"
| "split_nn cs = [cs]"

definition nn :: ustring where
  "nn = [0x0A, 0x0A]"

text \<open>The exceptions that the modelled functions raise.\<close>

datatype py_exception =
  ValueError
| UnicodeEncodeError
| HTTPException nat ustring
| OtherException ustring

section \<open>Text type classifier\<close>

definition narrative_keywords :: "ustring list" where
  "narrative_keywords = [[0x6545, 0x4E8B], [0x60C5, 0x8282], [0x4EBA, 0x7269], [0x5BF9, 0x8BDD],
     [0x573A, 0x666F], [0x65F6, 0x95F4], [0x5730, 0x70B9], [0x53D1, 0x751F], [0x7ECF, 0x5386],
     [0x9047, 0x5230]]"

definition argumentative_keywords :: "ustring list" where
  "argumentative_keywords = [[0x89C2, 0x70B9], [0x8BBA, 0x8BC1], [0x8BA4, 0x4E3A], [0x56E0, 0x4E3A],
     [0x6240, 0x4EE5], [0x7136, 0x800C], [0x4F46, 0x662F], [0x9996, 0x5148], [0x5176, 0x6B21],
     [0x603B, 0x4E4B]]"

definition descriptive_keywords :: "ustring list" where
  "descriptive_keywords = [[0x4ECB, 0x7ECD], [0x8BF4, 0x660E], [0x7279, 0x70B9], [0x529F, 0x80FD],
     [0x65B9, 0x6CD5], [0x6B65, 0x9AA4], [0x539F, 0x7406], [0x7ED3, 0x6784], [0x7EC4, 0x6210]]"

text \<open>\<open>sum(1 for keyword in keywords if keyword in text)\<close>.\<close>

definition keyword_score :: "ustring list \<Rightarrow> ustring \<Rightarrow> nat" where
  "keyword_score keywords text = length (filter (\<lambda>keyword. str_in keyword text) keywords)"

definition narrative :: ustring where
  "narrative = ascii ''narrative''"

definition argumentative :: ustring where
  "argumentative = ascii ''argumentative''"

definition descriptive :: ustring where
  "descriptive = ascii ''descriptive''"

definition detect_text_type :: "ustring \<Rightarrow> ustring" where
  "detect_text_type text =
     (let narrative_score = keyword_score narrative_keywords text;
          argumentative_score = keyword_score argumentative_keywords text;
          descriptive_score = keyword_score descriptive_keywords text
      in if narrative_score \<ge> argumentative_score \<and> narrative_score \<ge> descriptive_score
         then narrative
         else if argumentative_score \<ge> descriptive_score then argumentative
         else descriptive)"

section \<open>Segmenter\<close>

definition scene_markers :: "ustring list" where
  "scene_markers = [[0x7A81, 0x7136], [0x63A5, 0x7740], [0x7136, 0x540E], [0x540E, 0x6765],
     [0x6700, 0x540E], [0x7EC8, 0x4E8E], [0x6B64, 0x65F6], [0x8FD9, 0x65F6], [0x5F53, 0x65F6],
     [0x90A3, 0x5929], [0x7B2C, 0x4E8C, 0x5929]]"

definition argument_markers :: "ustring list" where
  "argument_markers = [[0x9996, 0x5148], [0x5176, 0x6B21], [0x518D, 0x6B21], [0x6700, 0x540E],
     [0x53E6, 0x5916], [0x6B64, 0x5916], [0x7136, 0x800C], [0x4F46, 0x662F], [0x56E0, 0x6B64],
     [0x6240, 0x4EE5]]"

definition dimension_markers :: "ustring list" where
  "dimension_markers = [[0x5916, 0x89C2], [0x529F, 0x80FD], [0x7279, 0x70B9], [0x4F18, 0x52BF],
     [0x65B9, 0x6CD5], [0x6B65, 0x9AA4], [0x539F, 0x7406], [0x7ED3, 0x6784], [0x7528, 0x9014],
     [0x6548, 0x679C]]"

text \<open>
  The state of a segmentation loop is the pair of the list \<open>segments\<close> and the string
  \<open>current_segment\<close>.
\<close>

type_synonym seg_state = "ustring list \<times> ustring"

text \<open>\<open>if current_segment.strip(): segments.append(current_segment.strip())\<close>.\<close>

definition append_if_nonblank :: "ustring list \<Rightarrow> ustring \<Rightarrow> ustring list" where
  "append_if_nonblank segments current_segment =
     (if strip current_segment \<noteq> [] then segments @ [strip current_segment] else segments)"

text \<open>\<open>current_segment += "\n\n" + para if current_segment else para\<close>.\<close>

definition join_para :: "ustring \<Rightarrow> ustring \<Rightarrow> ustring" where
  "join_para current_segment para =
     (if current_segment \<noteq> [] then current_segment @ nn @ para else current_segment @ para)"

text \<open>
  The inner loop of the narrative branch: the first marker that occurs in the paragraph while
  the current segment is longer than 500 characters emits the segment and leaves the loop.
\<close>

fun scene_marker_loop :: "ustring list \<Rightarrow> ustring \<Rightarrow> seg_state \<Rightarrow> seg_state" where
  "scene_marker_loop [] para st = st"
| "scene_marker_loop (marker # markers) para (segments, current_segment) =
     (if str_in marker para \<and> length current_segment > 500
      then (segments @ [strip current_segment], [])
      else scene_marker_loop markers para (segments, current_segment))"

text \<open>One iteration of \<open>for para in paragraphs\<close> in the narrative branch.\<close>

definition narrative_step :: "seg_state \<Rightarrow> ustring \<Rightarrow> seg_state" where
  "narrative_step st para =
     (case st of (segments, current_segment) \<Rightarrow>
        scene_marker_loop scene_markers para
          (if length current_segment + length para > 1200
           then (append_if_nonblank segments current_segment, para)
           else (segments, join_para current_segment para)))"

text \<open>
  One iteration of the loop of the argumentative and of the descriptive branch, which differ
  in the marker list and in the maximal length (1500 and 1200).
\<close>

definition marker_step :: "ustring list \<Rightarrow> nat \<Rightarrow> seg_state \<Rightarrow> ustring \<Rightarrow> seg_state" where
  "marker_step markers max_len st para =
     (case st of (segments, current_segment) \<Rightarrow>
        (case (if any_in markers para \<and> length current_segment > 600
               then (append_if_nonblank segments current_segment, para)
               else (segments, join_para current_segment para))
         of (segments1, current1) \<Rightarrow>
           if length current1 > max_len then (segments1 @ [strip current1], [])
           else (segments1, current1)))"

text \<open>The loop over the paragraphs followed by the emission of the last segment.\<close>

definition run_paragraphs :: "(seg_state \<Rightarrow> ustring \<Rightarrow> seg_state) \<Rightarrow> ustring \<Rightarrow> ustring list" where
  "run_paragraphs step text =
     (case foldl step ([], []) (split_nn text) of
        (segments, current_segment) \<Rightarrow> append_if_nonblank segments current_segment)"

definition primary_segments :: "ustring \<Rightarrow> ustring \<Rightarrow> ustring list" where
  "primary_segments text text_type =
     (if text_type = narrative then run_paragraphs narrative_step text
      else if text_type = argumentative
      then run_paragraphs (marker_step argument_markers 1500) text
      else run_paragraphs (marker_step dimension_markers 1200) text)"

text \<open>
  The slices \<open>text[i:i+segment_length]\<close> for \<open>i in range(0, text_length, segment_length)\<close>,
  for a positive step.
\<close>

definition slices :: "nat \<Rightarrow> ustring \<Rightarrow> ustring list" where
  "slices segment_length text =
     map (\<lambda>k. take segment_length (drop (k * segment_length) text))
       [0 ..< (length text + segment_length - 1) div segment_length]"

text \<open>
  The fallback that splits by length. \<open>range\<close> raises \<open>ValueError\<close> when its step is zero.
\<close>

definition length_split :: "ustring \<Rightarrow> py_exception + ustring list" where
  "length_split text =
     (let text_length = length text;
          target_segments = min 5 (max 3 (text_length div 800));
          segment_length = text_length div target_segments
      in if segment_length = 0 then Inl ValueError
         else Inr (filter (\<lambda>s. s \<noteq> []) (map strip (slices segment_length text))))"

text \<open>The list \<open>segments\<close> before the final \<open>segments[:6]\<close>.\<close>

definition segments_before_cut :: "ustring \<Rightarrow> ustring \<Rightarrow> py_exception + ustring list" where
  "segments_before_cut text text_type =
     (let segments = primary_segments text text_type
      in if length segments < 2 \<or> length segments > 8 then length_split text
         else Inr segments)"

text \<open>The non-whitespace characters of a string, in order.\<close>

definition nonws :: "ustring \<Rightarrow> ustring" where
  "nonws s = filter (\<lambda>c. \<not> is_space c) s"

definition smart_segment_text :: "ustring \<Rightarrow> ustring \<Rightarrow> py_exception + ustring list" where
  "smart_segment_text text text_type =
     (case segments_before_cut text text_type of
        Inl e \<Rightarrow> Inl e
      | Inr segments \<Rightarrow> Inr (take 6 segments))"

text \<open>
  The non-whitespace content of a loop state: that of the emitted segments followed by that of
  the current segment.
\<close>

definition seg_content :: "seg_state \<Rightarrow> ustring" where
  "seg_content st = nonws (concat (fst st)) @ nonws (snd st)"

text \<open>A string is trimmed when \<open>strip\<close> leaves it unchanged.\<close>

definition trimmed :: "ustring \<Rightarrow> bool" where
  "trimmed s = (strip s = s)"

text \<open>A text of eight copies of one paragraph, separated by blank lines.\<close>

definition eight_paragraphs :: "ustring \<Rightarrow> ustring" where
  "eight_paragraphs p = p @ nn @ p @ nn @ p @ nn @ p @ nn @ p @ nn @ p @ nn @ p @ nn @ p"

section \<open>Prompt composer\<close>

text \<open>\<open>sep.join(parts)\<close>.\<close>

fun join_sep :: "ustring \<Rightarrow> ustring list \<Rightarrow> ustring" where
  "join_sep sep [] = []"
| "join_sep sep [x] = x"
| "join_sep sep (x # y # ys) = x @ sep @ join_sep sep (y # ys)"

text \<open>The full-width comma, the separator of most joins.\<close>

definition comma :: ustring where
  "comma = [0xFF0C]"

text \<open>
  \<open>re.split(r'[...]', text)\<close> for a character class: the pieces between the occurrences of
  the characters of the class.
\<close>

fun split_chars :: "int list \<Rightarrow> ustring \<Rightarrow> ustring list" where
  "split_chars ds [] = [[]]"
| "split_chars ds (c # cs) =
     (if List.member ds c then [] # split_chars ds cs else cons_first c (split_chars ds cs))"

text \<open>
  The class of sentence ends: ideographic full stop, full-width exclamation mark and full-width
  question mark.
\<close>

definition sentence_ends :: "int list" where
  "sentence_ends = [0x3002, 0xFF01, 0xFF1F]"

text \<open>
  The first match of \<open>re.findall\<close> for a run of 2 to 6 characters of the range U+4E00 to
  U+9FAF: at the leftmost position where at
  least two characters of the range follow each other, the longest run of at most six of them.
\<close>

definition is_cjk :: "int \<Rightarrow> bool" where
  "is_cjk c = (0x4E00 \<le> c \<and> c \<le> 0x9FAF)"

fun first_cjk_run :: "ustring \<Rightarrow> ustring option" where
  "first_cjk_run [] = None"
| "first_cjk_run (c # cs) =
     (if length (takeWhile is_cjk (c # cs)) \<ge> 2 then Some (take 6 (takeWhile is_cjk (c # cs)))
      else first_cjk_run cs)"

text \<open>
  \<open>re.search(r'.*[...].*', s)\<close> succeeds exactly when a character of the class occurs in
  \<open>s\<close>.
\<close>

definition has_char_of :: "int list \<Rightarrow> ustring \<Rightarrow> bool" where
  "has_char_of cls s = list_ex (\<lambda>c. List.member cls c) s"

text \<open>The dictionary \<open>core_info\<close> with its nested \<open>core_elements\<close>.\<close>

record core_info =
  main_theme :: ustring
  key_scenes :: "ustring list"
  characters :: "ustring list"
  objects :: "ustring list"
  locations :: "ustring list"
  emotions :: "ustring list"
  actions :: "ustring list"
  time_of_day :: ustring
  atmosphere :: ustring
  content_focus :: ustring
  specific_details :: "ustring list"
  visual_elements :: "ustring list"

definition emotion_words :: "ustring list" where
  "emotion_words = [[0x5FEB, 0x4E50], [0x6109, 0x60A6], [0x6E29, 0x6696], [0x8212, 0x9002],
     [0x5B81, 0x9759], [0x6FC0, 0x52A8], [0x611F, 0x52A8], [0x7F8E, 0x597D], [0x5E78, 0x798F],
     [0x6EE1, 0x8DB3]]"

definition atmosphere_words :: "ustring list" where
  "atmosphere_words = [[0x6E29, 0x99A8], [0x6E05, 0x65B0], [0x81EA, 0x7136],
     [0x73B0, 0x4EE3], [0x65F6, 0x5C1A], [0x7B80, 0x7EA6], [0x4F18, 0x96C5], [0x6D3B, 0x529B],
     [0x5B81, 0x9759], [0x660E, 0x4EAE], [0x67D4, 0x548C]]"

definition visual_objects :: "ustring list" where
  "visual_objects = [[0x4E66], [0x5496, 0x5561], [0x82B1], [0x690D, 0x7269],
     [0x7535, 0x8111], [0x624B, 0x673A], [0x7B14, 0x8BB0, 0x672C], [0x676F, 0x5B50],
     [0x7A97, 0x6237], [0x684C, 0x5B50], [0x6905, 0x5B50], [0x706F], [0x76F8, 0x673A]]"

definition scene_keywords :: "ustring list" where
  "scene_keywords = [[0x5BA4, 0x5185], [0x6237, 0x5916], [0x529E, 0x516C, 0x5BA4],
     [0x5496, 0x5561, 0x5385], [0x5BB6, 0x91CC], [0x516C, 0x56ED], [0x8857, 0x9053],
     [0x6559, 0x5BA4], [0x56FE, 0x4E66, 0x9986]]"

text \<open>The character classes of the three \<open>descriptive_patterns\<close>.\<close>

definition descriptive_classes :: "int list list" where
  "descriptive_classes = [[0x770B, 0x5230, 0x542C, 0x5230, 0x611F, 0x53D7, 0x5230],
     [0x7F8E, 0x4E3D, 0x6F02, 0x4EAE, 0x6E29, 0x6696, 0x8212, 0x9002],
     [0x9633, 0x5149, 0x5149, 0x7EBF, 0x8272, 0x5F69, 0x989C, 0x8272]]"

text \<open>
  The stripped pieces between sentence ends whose length is at least \<open>lo\<close> and, when a
  bound is given, at most \<open>hi\<close>.
\<close>

definition sentences_between :: "nat \<Rightarrow> nat option \<Rightarrow> ustring \<Rightarrow> ustring list" where
  "sentences_between lo hi text =
     filter (\<lambda>s. lo \<le> length s \<and> (case hi of None \<Rightarrow> True | Some h \<Rightarrow> length s \<le> h))
       (map strip (split_chars sentence_ends text))"

text \<open>The atmosphere: the first atmosphere word of the text, else inferred from the content.\<close>

definition find_atmosphere :: "ustring \<Rightarrow> ustring" where
  "find_atmosphere text =
     (case List.find (\<lambda>word. str_in word text) atmosphere_words of
        Some word \<Rightarrow> word
      | None \<Rightarrow>
          if any_in [[0x5B66, 0x4E60], [0x5DE5, 0x4F5C],
             [0x529E, 0x516C]] text then [0x7B80, 0x7EA6]
          else if any_in [[0x81EA, 0x7136], [0x6237, 0x5916],
             [0x98CE, 0x666F]] text then [0x6E05, 0x65B0]
          else if any_in [[0x5BB6], [0x6E29, 0x6696], [0x8212, 0x9002]] text then [0x6E29, 0x99A8]
          else [0x81EA, 0x7136])"

definition extract_article_core_info :: "ustring \<Rightarrow> core_info" where
  "extract_article_core_info text =
     (let sentences = sentences_between 6 None text
      in \<lparr> main_theme =
             (case sentences of [] \<Rightarrow> []
              | first_sentence # _ \<Rightarrow>
                  (case first_cjk_run first_sentence of None \<Rightarrow> [] | Some kw \<Rightarrow> kw)),
           key_scenes =
             take 2 (filter (\<lambda>sentence. list_ex (\<lambda>cls. has_char_of cls sentence) descriptive_classes
                                \<and> length sentence \<le> 40) sentences),
           characters = [],
           objects = filter (\<lambda>obj. str_in obj text) visual_objects,
           locations = filter (\<lambda>scene. str_in scene text) scene_keywords,
           emotions = filter (\<lambda>word. str_in word text) emotion_words,
           actions = [],
           time_of_day = [],
           atmosphere = find_atmosphere text,
           content_focus =
             join_sep comma
               (take 2 (map (take 25) (filter (\<lambda>sentence. length sentence \<ge> 10) (take 3 sentences)))),
           specific_details = [],
           visual_elements = [] \<rparr>)"

text \<open>The dictionary returned by \<open>_build_visual_elements\<close>.\<close>

record visual =
  main_subject :: ustring
  scene_description :: ustring
  style_elements :: ustring
  technical_specs :: ustring

definition build_visual_elements :: "core_info \<Rightarrow> ustring \<Rightarrow> visual" where
  "build_visual_elements ci text_type =
     (let scene_parts =
            take 2 (visual_elements ci)
            @ (if atmosphere ci \<noteq> [] then [atmosphere ci @ [0x6C1B, 0x56F4]] else [])
            @ (case emotions ci of [] \<Rightarrow> [] | emotion # _ \<Rightarrow> [emotion @ [0x611F]]);
          style_parts =
            (if atmosphere ci \<noteq> [] then [atmosphere ci] else [])
            @ (case emotions ci of [] \<Rightarrow> [] | emotion # _ \<Rightarrow> [emotion])
      in \<lparr> main_subject =
             (case specific_details ci of
                first_detail # _ \<Rightarrow> first_detail
              | [] \<Rightarrow> if content_focus ci \<noteq> [] then take 20 (content_focus ci)
                      else main_theme ci @ [0x573A, 0x666F]),
           scene_description =
             (if scene_parts \<noteq> [] then join_sep comma scene_parts else [0x6E29, 0x99A8, 0x751F, 0x6D3B, 0x573A, 0x666F]),
           style_elements =
             (if style_parts \<noteq> [] then join_sep comma style_parts else [0x6E29, 0x99A8, 0x81EA, 0x7136]),
           technical_specs = [0x9AD8, 0x6E05, 0x6444, 0x5F71, 0xFF0C, 0x4E13, 0x4E1A, 0x6784, 0x56FE, 0xFF0C, 0x81EA, 0x7136, 0x5149, 0x7EBF] \<rparr>)"

text \<open>
  The five keys of \<open>STYLE_TEMPLATES\<close>, which are the only values that
  \<open>_determine_unified_style\<close> returns, and the entries of the dictionary.
\<close>

datatype style = WarmHealing | FreshNatural | ModernMinimal | LiteraryRetro | YouthfulEnergetic

definition style_key :: "style \<Rightarrow> ustring" where
  "style_key st =
     (case st of WarmHealing \<Rightarrow> [0x6E29, 0x99A8, 0x6CBB, 0x6108] | FreshNatural \<Rightarrow> [0x6E05, 0x65B0, 0x81EA, 0x7136]
      | ModernMinimal \<Rightarrow> [0x73B0, 0x4EE3, 0x7B80, 0x7EA6] | LiteraryRetro \<Rightarrow> [0x6587, 0x827A, 0x590D, 0x53E4]
      | YouthfulEnergetic \<Rightarrow> [0x6D3B, 0x529B, 0x9752, 0x6625])"

record style_template =
  base_style :: ustring
  color_palette :: ustring
  lighting :: ustring
  composition :: ustring
  texture :: ustring
  mood :: ustring

definition STYLE_TEMPLATES :: "style \<Rightarrow> style_template" where
  "STYLE_TEMPLATES st =
     (case st of
        WarmHealing \<Rightarrow>
          \<lparr> base_style = [0x6E29, 0x99A8, 0x6CBB, 0x6108, 0x98CE, 0x683C],
            color_palette = [0x6696, 0x8272, 0x8C03, 0xFF0C, 0x7C73, 0x8272, 0xFF0C, 0x5976, 0x8336, 0x8272, 0xFF0C, 0x6D45, 0x7C89, 0x8272],
            lighting = [0x67D4, 0x548C, 0x81EA, 0x7136, 0x5149, 0xFF0C, 0x6E29, 0x6696, 0x5149, 0x7EBF],
            composition = [0x5C45, 0x4E2D, 0x6784, 0x56FE, 0xFF0C, 0x6E29, 0x99A8, 0x6C1B, 0x56F4],
            texture = [0x67D4, 0x548C, 0x8D28, 0x611F, 0xFF0C, 0x6E29, 0x6DA6, 0x6750, 0x8D28],
            mood = [0x6E29, 0x99A8, 0x8212, 0x9002, 0xFF0C, 0x6CBB, 0x6108, 0x611F] \<rparr>
      | FreshNatural \<Rightarrow>
          \<lparr> base_style = [0x6E05, 0x65B0, 0x81EA, 0x7136, 0x98CE, 0x683C],
            color_palette = [0x6E05, 0x65B0, 0x8272, 0x8C03, 0xFF0C, 0x7EFF, 0x8272, 0xFF0C, 0x767D, 0x8272, 0xFF0C, 0x6D45, 0x84DD, 0x8272],
            lighting = [0x660E, 0x4EAE, 0x81EA, 0x7136, 0x5149, 0xFF0C, 0x6E05, 0x6668, 0x9633, 0x5149],
            composition = [0x7B80, 0x6D01, 0x6784, 0x56FE, 0xFF0C, 0x81EA, 0x7136, 0x5E03, 0x5C40],
            texture = [0x6E05, 0x723D, 0x8D28, 0x611F, 0xFF0C, 0x81EA, 0x7136, 0x6750, 0x8D28],
            mood = [0x6E05, 0x65B0, 0x8212, 0x9002, 0xFF0C, 0x81EA, 0x7136, 0x611F] \<rparr>
      | ModernMinimal \<Rightarrow>
          \<lparr> base_style = [0x73B0, 0x4EE3, 0x7B80, 0x7EA6, 0x98CE, 0x683C],
            color_palette = [0x7B80, 0x7EA6, 0x8272, 0x8C03, 0xFF0C, 0x9ED1, 0x767D, 0x7070, 0xFF0C, 0x9AD8, 0x7EA7, 0x7070],
            lighting = [0x5747, 0x5300, 0x5149, 0x7EBF, 0xFF0C, 0x73B0, 0x4EE3, 0x611F, 0x7167, 0x660E],
            composition = [0x51E0, 0x4F55, 0x6784, 0x56FE, 0xFF0C, 0x7B80, 0x6D01, 0x5E03, 0x5C40],
            texture = [0x5149, 0x6ED1, 0x8D28, 0x611F, 0xFF0C, 0x73B0, 0x4EE3, 0x6750, 0x8D28],
            mood = [0x7B80, 0x7EA6, 0x5927, 0x6C14, 0xFF0C, 0x73B0, 0x4EE3, 0x611F] \<rparr>
      | LiteraryRetro \<Rightarrow>
          \<lparr> base_style = [0x6587, 0x827A, 0x590D, 0x53E4, 0x98CE, 0x683C],
            color_palette = [0x590D, 0x53E4, 0x8272, 0x8C03, 0xFF0C, 0x68D5, 0x8272, 0xFF0C, 0x6DF1, 0x7EFF, 0xFF0C, 0x6697, 0x7EA2],
            lighting = [0x67D4, 0x548C, 0x4FA7, 0x5149, 0xFF0C, 0x590D, 0x53E4, 0x6C1B, 0x56F4],
            composition = [0x7ECF, 0x5178, 0x6784, 0x56FE, 0xFF0C, 0x6587, 0x827A, 0x5E03, 0x5C40],
            texture = [0x590D, 0x53E4, 0x8D28, 0x611F, 0xFF0C, 0x6000, 0x65E7, 0x6750, 0x8D28],
            mood = [0x6587, 0x827A, 0x6C14, 0x606F, 0xFF0C, 0x590D, 0x53E4, 0x611F] \<rparr>
      | YouthfulEnergetic \<Rightarrow>
          \<lparr> base_style = [0x6D3B, 0x529B, 0x9752, 0x6625, 0x98CE, 0x683C],
            color_palette = [0x660E, 0x4EAE, 0x8272, 0x8C03, 0xFF0C, 0x6A59, 0x8272, 0xFF0C, 0x9EC4, 0x8272, 0xFF0C, 0x7C89, 0x8272],
            lighting = [0x660E, 0x4EAE, 0x5149, 0x7EBF, 0xFF0C, 0x6D3B, 0x529B, 0x7167, 0x660E],
            composition = [0x52A8, 0x611F, 0x6784, 0x56FE, 0xFF0C, 0x6D3B, 0x8DC3, 0x5E03, 0x5C40],
            texture = [0x5149, 0x6CFD, 0x8D28, 0x611F, 0xFF0C, 0x6D3B, 0x529B, 0x6750, 0x8D28],
            mood = [0x9752, 0x6625, 0x6D3B, 0x529B, 0xFF0C, 0x52A8, 0x611F, 0x5341, 0x8DB3] \<rparr>)"

text \<open>The default value of \<open>style_prompt\<close>.\<close>

definition default_style_prompt :: ustring where
  "default_style_prompt = [0x73B0, 0x4EE3, 0x7B80, 0x7EA6, 0x98CE, 0x683C]"

definition determine_unified_style :: "core_info \<Rightarrow> ustring \<Rightarrow> ustring \<Rightarrow> style" where
  "determine_unified_style ci text_type style_prompt =
     (if style_prompt \<noteq> [] \<and> style_prompt \<noteq> default_style_prompt
      then (if str_in [0x6E29, 0x99A8] style_prompt \<or> str_in [0x6CBB, 0x6108] style_prompt then WarmHealing
            else if str_in [0x6E05, 0x65B0] style_prompt \<or> str_in [0x81EA, 0x7136] style_prompt then FreshNatural
            else if str_in [0x6587, 0x827A] style_prompt \<or> str_in [0x590D, 0x53E4] style_prompt then LiteraryRetro
            else if str_in [0x6D3B, 0x529B] style_prompt \<or> str_in [0x9752, 0x6625] style_prompt
            then YouthfulEnergetic
            else ModernMinimal)
      else if str_in [0x6E29, 0x99A8] (atmosphere ci) \<or> str_in [0x6E29, 0x6696] (atmosphere ci) then WarmHealing
      else if str_in [0x6E05, 0x65B0] (atmosphere ci) \<or> str_in [0x81EA, 0x7136] (atmosphere ci) then FreshNatural
      else if emotions ci \<noteq> []
              \<and> (List.member (emotions ci) [0x5FEB, 0x4E50] \<or> List.member (emotions ci) [0x6109, 0x60A6])
      then YouthfulEnergetic
      else if str_in [0x6587, 0x827A] (atmosphere ci) \<or> str_in [0x6000, 0x65E7] (atmosphere ci) then LiteraryRetro
      else ModernMinimal)"

definition build_style_positioning :: "core_info \<Rightarrow> ustring \<Rightarrow> ustring \<Rightarrow> ustring" where
  "build_style_positioning ci text_type style_prompt =
     (let template = STYLE_TEMPLATES (determine_unified_style ci text_type style_prompt)
      in join_sep comma [base_style template, mood template])"

definition descriptive_words :: "ustring list" where
  "descriptive_words = [[0x7684], [0x5728], [0x50CF], [0x5982], [0x7F8E], [0x5149], [0x8272],
     [0x6E29], [0x67D4]]"

definition build_core_content :: "core_info \<Rightarrow> ustring \<Rightarrow> ustring" where
  "build_core_content ci text =
     (let sentences = sentences_between 15 (Some 40) text;
          content_parts0 =
            (case List.find (\<lambda>sentence. any_in descriptive_words sentence) (take 3 sentences) of
               Some descriptive_sentence \<Rightarrow> [descriptive_sentence]
             | None \<Rightarrow> []);
          content_parts1 =
            (if main_theme ci \<noteq> []
             then (case content_parts0 of
                     [] \<Rightarrow> [main_theme ci]
                   | first_part # _ \<Rightarrow>
                       if str_in (main_theme ci) first_part then content_parts0
                       else content_parts0 @ [main_theme ci])
             else content_parts0);
          content_parts2 = (if content_parts1 = [] then [[0x6E29, 0x99A8, 0x751F, 0x6D3B, 0x573A, 0x666F]] else content_parts1)
      in join_sep comma (take 2 content_parts2))"

definition build_visual_description :: "visual \<Rightarrow> core_info \<Rightarrow> ustring" where
  "build_visual_description vis ci =
     (let template = STYLE_TEMPLATES (determine_unified_style ci [] []);
          visual_parts =
            (if main_subject vis \<noteq> [] \<and> length (main_subject vis) \<le> 20 then [main_subject vis]
             else [])
            @ (if scene_description vis \<noteq> [] \<and> length (scene_description vis) \<le> 15
               then [scene_description vis] else [])
            @ [color_palette template, lighting template, composition template];
          visual_parts1 =
            (if length visual_parts < 3
             then visual_parts @ [color_palette template, lighting template]
             else visual_parts)
      in join_sep comma (take 4 visual_parts1))"

definition build_layout_requirements :: ustring where
  "build_layout_requirements = [0x7AD6, 0x7248, 0x6784, 0x56FE, 0x39, 0x3A, 0x31, 0x36, 0xFF0C, 0x5C0F, 0x7EA2, 0x4E66, 0x98CE, 0x683C, 0x6392, 0x7248, 0xFF0C, 0x6E05, 0x6670, 0x6613, 0x8BFB, 0xFF0C, 0x89C6, 0x89C9, 0x5C42, 0x6B21, 0x5206, 0x660E]"

definition build_detail_supplements :: "core_info \<Rightarrow> ustring \<Rightarrow> ustring" where
  "build_detail_supplements ci text_type =
     (let template = STYLE_TEMPLATES (determine_unified_style ci text_type [])
      in join_sep comma
           [[0x9AD8, 0x6E05, 0x6444, 0x5F71], [0x4E13, 0x4E1A, 0x6784, 0x56FE], texture template,
            if text_type = [0x53D9, 0x4E8B, 0x6587] then [0x60C5, 0x611F, 0x8868, 0x8FBE]
            else if text_type = [0x8BF4, 0x660E, 0x6587] then [0x7B80, 0x6D01, 0x660E, 0x4E86]
            else [0x89C6, 0x89C9, 0x7F8E, 0x611F]])"

text \<open>
  \<open>_truncate_text\<close>: the indices \<open>range(max_length - 1, max_length // 2, -1)\<close> are searched
  downwards for one of the three punctuation marks; they are within the text, which is longer
  than \<open>max_length\<close>.
\<close>

definition cut_marks :: "int list" where
  "cut_marks = [0xFF0C, 0x3002, 0x3001]"

definition truncate_text :: "ustring \<Rightarrow> nat \<Rightarrow> ustring" where
  "truncate_text text max_length =
     (if length text \<le> max_length then text
      else (case List.find (\<lambda>i. List.member cut_marks (text ! i))
                   (rev [max_length div 2 + 1 ..< max_length]) of
              Some i \<Rightarrow> take i text
            | None \<Rightarrow> take max_length text))"

text \<open>The five section labels and the separator of the sections.\<close>

definition label_style :: ustring where
  "label_style = [0x3010, 0x98CE, 0x683C, 0x5B9A, 0x4F4D, 0x3011]"

definition label_core :: ustring where
  "label_core = [0x3010, 0x6838, 0x5FC3, 0x5185, 0x5BB9, 0x3011]"

definition label_visual :: ustring where
  "label_visual = [0x3010, 0x89C6, 0x89C9, 0x5143, 0x7D20, 0x3011]"

definition label_layout :: ustring where
  "label_layout = [0x3010, 0x6392, 0x7248, 0x8981, 0x6C42, 0x3011]"

definition label_detail :: ustring where
  "label_detail = [0x3010, 0x7EC6, 0x8282, 0x8865, 0x5145, 0x3011]"

definition semicolon :: ustring where
  "semicolon = [0xFF1B]"

text \<open>The five labelled sections joined by the full-width semicolon.\<close>

definition prompt_of_sections ::
  "ustring \<Rightarrow> ustring \<Rightarrow> ustring \<Rightarrow> ustring \<Rightarrow> ustring \<Rightarrow> ustring" where
  "prompt_of_sections s1 s2 s3 s4 s5 =
     join_sep semicolon
       [label_style @ s1, label_core @ s2, label_visual @ s3, label_layout @ s4,
        label_detail @ s5]"

text \<open>
  The second half of \<open>_generate_xiaohongshu_prompt\<close>, from the replacement of blank sections
  to the result, as a function of the five sections built in the first half.
\<close>

definition compose_prompt ::
  "ustring \<Rightarrow> ustring \<Rightarrow> ustring \<Rightarrow> ustring \<Rightarrow> ustring \<Rightarrow> ustring" where
  "compose_prompt style_positioning0 core_content0 visual_desc0 layout_requirements
      detail_supplements =
     (let style_positioning =
            (if strip style_positioning0 = [] then [0x6E05, 0x65B0, 0x81EA, 0x7136, 0x98CE, 0x683C] else style_positioning0);
          core_content = (if strip core_content0 = [] then [0x6E29, 0x99A8, 0x6545, 0x4E8B, 0x573A, 0x666F] else core_content0);
          visual_desc = (if strip visual_desc0 = [] then [0x67D4, 0x548C, 0x5149, 0x7EBF, 0xFF0C, 0x6E29, 0x6696, 0x8272, 0x8C03] else visual_desc0);
          full_prompt =
            prompt_of_sections (strip style_positioning) (strip core_content) (strip visual_desc)
              (strip layout_requirements) (strip detail_supplements)
      in if length full_prompt > 300
         then prompt_of_sections (truncate_text style_positioning 15)
                (truncate_text core_content 50) (truncate_text visual_desc 60)
                (truncate_text layout_requirements 30) (truncate_text detail_supplements 25)
         else full_prompt)"

text \<open>
  \<open>print(s)\<close> writes \<open>s\<close> to the standard output, which encodes it in UTF-8 with the strict
  error handler: a surrogate code point (U+D800 to U+DFFF) has no encoding and the call raises
  \<open>UnicodeEncodeError\<close>.
\<close>

definition is_surrogate :: "int \<Rightarrow> bool" where
  "is_surrogate c = (0xD800 \<le> c \<and> c \<le> 0xDFFF)"

definition encodable :: "ustring \<Rightarrow> bool" where
  "encodable s = (\<not> list_ex is_surrogate s)"

definition py_print :: "ustring \<Rightarrow> py_exception + unit" where
  "py_print s = (if encodable s then Inr () else Inl UnicodeEncodeError)"

text \<open>
  \<open>_generate_xiaohongshu_prompt\<close>: the first \<open>print\<close> shows the first 50 characters of the
  text, the second one the prompt; the prompt is returned when both succeed.
\<close>

definition generate_xiaohongshu_prompt ::
  "ustring \<Rightarrow> ustring \<Rightarrow> ustring \<Rightarrow> py_exception + ustring" where
  "generate_xiaohongshu_prompt text style_prompt text_type =
     (case py_print ([0x6B63, 0x5728, 0x4E3A, 0x6587, 0x672C, 0x751F, 0x6210, 0x63D0, 0x793A, 0x8BCD, 0x3A, 0x20] @ take 50 text @ ascii ''...'') of
        Inl e \<Rightarrow> Inl e
      | Inr _ \<Rightarrow>
          (let ci = extract_article_core_info text;
               vis = build_visual_elements ci text_type;
               full_prompt =
                 compose_prompt (build_style_positioning ci text_type style_prompt)
                   (build_core_content ci text) (build_visual_description vis ci)
                   build_layout_requirements (build_detail_supplements ci text_type)
           in case py_print ([0x751F, 0x6210, 0x7684, 0x56FE, 0x7247, 0x63D0, 0x793A, 0x8BCD, 0x3A, 0x20] @ full_prompt) of
                Inl e \<Rightarrow> Inl e
              | Inr _ \<Rightarrow> Inr full_prompt))"

section \<open>The endpoint POST /api/analyze-text\<close>

text \<open>
  The request model \<open>TextAnalysisRequest\<close> (fields \<open>text\<close>, \<open>style_prompt\<close> and
  \<open>max_segments\<close>, the two optional ones \<open>None\<close> or a value) and the response model
  \<open>TextAnalysisResponse\<close>, over any type of segments.
\<close>

record text_analysis_request =
  request_text :: ustring
  request_style_prompt :: "ustring option"
  request_max_segments :: "int option"

record 'seg text_analysis_response =
  response_segments :: "'seg list"
  total_count :: nat
  estimated_time :: nat

text \<open>\<open>xs[:k]\<close> for an integer \<open>k\<close>: a negative \<open>k\<close> counts from the end.\<close>

definition slice_to :: "'a list \<Rightarrow> int \<Rightarrow> 'a list" where
  "slice_to xs k = (if 0 \<le> k then take (nat k) xs else take (length xs - nat (- k)) xs)"

text \<open>
  The body of the \<open>try\<close> block of \<open>analyze_text\<close>. The analysis service
  \<open>analyze_text_with_doubao\<close> is a parameter: it reads the text and the style, acts on the
  world \<open>'w\<close> (the model service, the standard output) and returns segments or raises.
\<close>

definition analyze_text_body ::
  "(ustring \<Rightarrow> ustring \<Rightarrow> 'w \<Rightarrow> (py_exception + 'seg list) \<times> 'w) \<Rightarrow> text_analysis_request \<Rightarrow> 'w
     \<Rightarrow> (py_exception + 'seg text_analysis_response) \<times> 'w" where
  "analyze_text_body analyze_text_with_doubao request w =
     (if length (strip (request_text request)) = 0
      then (Inl (HTTPException 400 [0x6587, 0x672C, 0x5185, 0x5BB9, 0x4E0D, 0x80FD, 0x4E3A, 0x7A7A]), w)
      else if length (request_text request) > 10000
      then (Inl (HTTPException 400 [0x6587, 0x672C, 0x957F, 0x5EA6, 0x4E0D, 0x80FD, 0x8D85, 0x8FC7, 0x31, 0x30, 0x30, 0x30, 0x30, 0x5B57]), w)
      else (case analyze_text_with_doubao (request_text request)
                   (case request_style_prompt request of
                      None \<Rightarrow> [0x73B0, 0x4EE3, 0x7B80, 0x7EA6, 0x98CE, 0x683C]
                    | Some s \<Rightarrow> if s = [] then [0x73B0, 0x4EE3, 0x7B80, 0x7EA6, 0x98CE, 0x683C] else s) w of
              (Inl e, w') \<Rightarrow> (Inl e, w')
            | (Inr segments, w') \<Rightarrow>
                (let segments1 =
                       (case request_max_segments request of
                          None \<Rightarrow> segments
                        | Some k \<Rightarrow>
                            if k \<noteq> 0 \<and> int (length segments) > k then slice_to segments k
                            else segments)
                 in (Inr \<lparr> response_segments = segments1, total_count = length segments1,
                           estimated_time = length segments1 * 30 \<rparr>, w'))))"

text \<open>
  \<open>analyze_text\<close>: every exception of the body, the two \<open>HTTPException\<close> of the validation
  included, is caught by \<open>except Exception as e\<close> and replaced by an \<open>HTTPException\<close> with
  status code 500. \<open>str(e)\<close> is a parameter.
\<close>

definition analyze_text ::
  "(ustring \<Rightarrow> ustring \<Rightarrow> 'w \<Rightarrow> (py_exception + 'seg list) \<times> 'w) \<Rightarrow> (py_exception \<Rightarrow> ustring)
     \<Rightarrow> text_analysis_request \<Rightarrow> 'w \<Rightarrow> (py_exception + 'seg text_analysis_response) \<times> 'w" where
  "analyze_text analyze_text_with_doubao exception_str request w =
     (case analyze_text_body analyze_text_with_doubao request w of
        (Inl e, w') \<Rightarrow> (Inl (HTTPException 500 ([0x6587, 0x672C, 0x5206, 0x6790, 0x5931, 0x8D25, 0x3A, 0x20] @ exception_str e)), w')
      | (Inr response, w') \<Rightarrow> (Inr response, w'))"

text \<open>
  The status code of the reply: 200 for a returned response, and for a raised
  \<open>HTTPException\<close> its status code.
\<close>

definition status_code_of :: "py_exception + 'a \<Rightarrow> nat" where
  "status_code_of result =
     (case result of Inr _ \<Rightarrow> 200 | Inl (HTTPException code _) \<Rightarrow> code | Inl _ \<Rightarrow> 500)"

section \<open>Batch image generation\<close>

text \<open>\<open>str(k)\<close> for an integer \<open>k\<close>: its decimal digits, after a minus sign when it is negative.\<close>

function digits :: "nat \<Rightarrow> ustring" where
  "digits n = (if n < 10 then [0x30 + int n] else digits (n div 10) @ [0x30 + int (n mod 10)])"
  by pat_completeness auto

termination
  by (relation "measure id") auto

declare digits.simps [simp del]

definition str_int :: "int \<Rightarrow> ustring" where
  "str_int k = (if k < 0 then 0x2D # digits (nat (- k)) else digits (nat k))"

text \<open>
  The models \<open>TextSegment\<close> (its field \<open>id\<close> is \<open>ident\<close> here) and \<open>GeneratedImage\<close>.
\<close>

record text_segment =
  ident :: int
  content :: ustring
  summary :: ustring
  image_prompt :: ustring

record generated_image =
  segment_id :: int
  image_url :: ustring
  thumbnail_url :: ustring
  status :: ustring

text \<open>
  A value that a service hands back where a URL is expected: a \<open>str\<close>, or a value of another
  type (such as \<open>None\<close>), which the \<open>str\<close> fields of \<open>GeneratedImage\<close> do not accept: the
  constructor raises a validation error.
\<close>

datatype py_value = Str ustring | NotStr

definition GeneratedImage ::
  "int \<Rightarrow> py_value \<Rightarrow> py_value \<Rightarrow> ustring \<Rightarrow> py_exception + generated_image" where
  "GeneratedImage sid url thumbnail st =
     (case (url, thumbnail) of
        (Str u, Str t) \<Rightarrow>
          Inr \<lparr> segment_id = sid, image_url = u, thumbnail_url = t, status = st \<rparr>
      | _ \<Rightarrow> Inl (OtherException (ascii ''ValidationError'')))"

text \<open>
  The response of \<open>client.images.generate\<close>, as far as the code looks at it: the attributes
  \<open>data\<close> and \<open>images\<close> (\<open>None\<close> here when the attribute is missing or is \<open>None\<close>, else a
  list), whose items are objects with or without an attribute \<open>url\<close>, or strings.
\<close>

datatype image_item = Item "py_value option" | StrItem ustring

record api_response =
  data :: "image_item list option"
  images :: "image_item list option"

text \<open>
  What the function calls: the client (\<open>None\<close> when \<open>client\<close> is not set), the image
  generator, the image composer, the demo image matcher, and \<open>str\<close> of an exception and of a
  response. The services act on a world \<open>'w\<close> and return a value or raise.
\<close>

record 'w services =
  sv_client :: "(ustring \<Rightarrow> 'w \<Rightarrow> (py_exception + api_response) \<times> 'w) option"
  sv_generate_image :: "ustring \<Rightarrow> int \<Rightarrow> 'w \<Rightarrow> (py_exception + py_value) \<times> 'w"
  sv_compose_image_text :: "py_value \<Rightarrow> ustring \<Rightarrow> ustring \<Rightarrow> 'w \<Rightarrow> (py_exception + py_value) \<times> 'w"
  sv_generate_demo_image :: "ustring \<Rightarrow> int \<Rightarrow> 'w \<Rightarrow> (py_exception + py_value) \<times> 'w"
  sv_exception_str :: "py_exception \<Rightarrow> ustring"
  sv_response_str :: "api_response \<Rightarrow> ustring"

definition completed :: ustring where
  "completed = ascii ''completed''"

definition failed :: ustring where
  "failed = ascii ''failed''"

text \<open>The image with status \<open>failed\<close> and the placeholder URLs numbered \<open>segment.id + offset\<close>.\<close>

definition failed_image :: "int \<Rightarrow> int \<Rightarrow> generated_image" where
  "failed_image sid offset =
     \<lparr> segment_id = sid,
       image_url = ascii ''https://picsum.photos/600/800?random='' @ str_int (sid + offset),
       thumbnail_url = ascii ''https://picsum.photos/150/200?random='' @ str_int (sid + offset),
       status = failed \<rparr>"

text \<open>The branch \<open>if client:\<close> of the \<open>try\<close> block, for the client's \<open>images.generate\<close>.\<close>

definition image_from_client ::
  "(ustring \<Rightarrow> 'w \<Rightarrow> (py_exception + api_response) \<times> 'w) \<Rightarrow> 'w services \<Rightarrow> ustring
     \<Rightarrow> text_segment \<Rightarrow> 'w \<Rightarrow> (py_exception + generated_image) \<times> 'w" where
  "image_from_client generate sv style_prompt segment w =
     (let combined_prompt = style_prompt @ ascii '', '' @ image_prompt segment
      in case py_print ([0x751F, 0x6210, 0x56FE, 0x7247, 0x20, 0x2D, 0x20, 0x6BB5, 0x843D] @ str_int (ident segment) @ ascii '': ''
                         @ combined_prompt) of
           Inl e \<Rightarrow> (Inl e, w)
         | Inr _ \<Rightarrow>
             (case generate combined_prompt w of
                (Inl e, w1) \<Rightarrow> (Inl e, w1)
              | (Inr response, w1) \<Rightarrow>
                  (case data response of
                     Some (item # _) \<Rightarrow>
                       (case item of
                          Item (Some url) \<Rightarrow>
                            (GeneratedImage (ident segment) url url completed, w1)
                        | _ \<Rightarrow> (Inl (OtherException (ascii ''AttributeError'')), w1))
                   | _ \<Rightarrow>
                       (case images response of
                          Some (item # _) \<Rightarrow>
                            (let url = (case item of
                                          Item (Some u) \<Rightarrow> u
                                        | Item None \<Rightarrow> NotStr
                                        | StrItem s \<Rightarrow> Str s)
                             in (GeneratedImage (ident segment) url url completed, w1))
                        | _ \<Rightarrow>
                            (case py_print ([0x41, 0x50, 0x49, 0x54CD, 0x5E94, 0x683C, 0x5F0F, 0x5F02, 0x5E38, 0x3A, 0x20] @ sv_response_str sv response) of
                               Inl e \<Rightarrow> (Inl e, w1)
                             | Inr _ \<Rightarrow> (Inr (failed_image (ident segment) 100), w1))))))"

text \<open>
  The handler of the inner \<open>try\<close> block of the branch without a client: it prints the error
  and takes the image of the demo matcher, with status \<open>completed\<close>.
\<close>

definition fallback_image ::
  "'w services \<Rightarrow> ustring \<Rightarrow> text_segment \<Rightarrow> py_exception \<Rightarrow> 'w
     \<Rightarrow> (py_exception + generated_image) \<times> 'w" where
  "fallback_image sv image_prompt1 segment generation_error w =
     (case py_print ([0x56FE, 0x7247, 0x751F, 0x6210, 0x6216, 0x5408, 0x6210, 0x5931, 0x8D25, 0x20, 0x28, 0x6BB5, 0x843D, 0x20] @ str_int (ident segment) @ ascii ''): ''
                      @ sv_exception_str sv generation_error) of
        Inl e \<Rightarrow> (Inl e, w)
      | Inr _ \<Rightarrow>
          (case sv_generate_demo_image sv image_prompt1 (ident segment) w of
             (Inl e, w1) \<Rightarrow> (Inl e, w1)
           | (Inr fallback_url, w1) \<Rightarrow>
               (GeneratedImage (ident segment) fallback_url fallback_url completed, w1)))"

text \<open>
  The branch without a client. The colour chosen from \<open>colors\<close> is not used and is left out.
\<close>

definition image_without_client ::
  "'w services \<Rightarrow> ustring \<Rightarrow> text_segment \<Rightarrow> 'w \<Rightarrow> (py_exception + generated_image) \<times> 'w" where
  "image_without_client sv style_prompt segment w =
     (let image_prompt1 =
            (if image_prompt segment \<noteq> [] then image_prompt segment
             else style_prompt @ [0xFF0C] @ take 100 (content segment) @ ascii ''...'')
      in case sv_generate_image sv image_prompt1 (ident segment) w of
           (Inl e, w1) \<Rightarrow> fallback_image sv image_prompt1 segment e w1
         | (Inr original_image_url, w1) \<Rightarrow>
             (case sv_compose_image_text sv original_image_url (content segment)
                     (summary segment) w1 of
                (Inl e, w2) \<Rightarrow> fallback_image sv image_prompt1 segment e w2
              | (Inr composed_image_url, w2) \<Rightarrow>
                  (case GeneratedImage (ident segment) composed_image_url composed_image_url
                          completed of
                     Inl e \<Rightarrow> fallback_image sv image_prompt1 segment e w2
                   | Inr img \<Rightarrow> (Inr img, w2))))"

text \<open>
  One iteration of the loop: the \<open>try\<close> block and its handler \<open>except Exception as api_error\<close>,
  which prints the error and gives the image with status \<open>failed\<close>. An exception raised by the
  handler itself leaves the function.
\<close>

definition process_segment ::
  "'w services \<Rightarrow> ustring \<Rightarrow> text_segment \<Rightarrow> 'w \<Rightarrow> (py_exception + generated_image) \<times> 'w" where
  "process_segment sv style_prompt segment w =
     (case (case sv_client sv of
              Some generate \<Rightarrow> image_from_client generate sv style_prompt segment w
            | None \<Rightarrow> image_without_client sv style_prompt segment w) of
        (Inr img, w1) \<Rightarrow> (Inr img, w1)
      | (Inl api_error, w1) \<Rightarrow>
          (case py_print ([0x53, 0x65, 0x65, 0x44, 0x72, 0x65, 0x61, 0x6D, 0x20, 0x41, 0x50, 0x49, 0x8C03, 0x7528, 0x5931, 0x8D25, 0x3A, 0x20] @ sv_exception_str sv api_error) of
             Inl e \<Rightarrow> (Inl e, w1)
           | Inr _ \<Rightarrow> (Inr (failed_image (ident segment) 200), w1)))"

fun generate_images_loop ::
  "'w services \<Rightarrow> ustring \<Rightarrow> text_segment list \<Rightarrow> generated_image list \<Rightarrow> 'w
     \<Rightarrow> (py_exception + generated_image list) \<times> 'w" where
  "generate_images_loop sv style_prompt [] images_so_far w = (Inr images_so_far, w)"
| "generate_images_loop sv style_prompt (segment # rest) images_so_far w =
     (case process_segment sv style_prompt segment w of
        (Inl e, w1) \<Rightarrow> (Inl e, w1)
      | (Inr img, w1) \<Rightarrow> generate_images_loop sv style_prompt rest (images_so_far @ [img]) w1)"

definition generate_images_with_seedream ::
  "'w services \<Rightarrow> text_segment list \<Rightarrow> ustring \<Rightarrow> 'w
     \<Rightarrow> (py_exception + generated_image list) \<times> 'w" where
  "generate_images_with_seedream sv segments style_prompt w =
     generate_images_loop sv style_prompt segments [] w"

section \<open>The demo image matcher\<close>

unbundle bit_operations_syntax

subsection \<open>UTF-8 and MD5\<close>

text \<open>
  \<open>s.encode('utf-8')\<close>: one to four bytes for every code point; a surrogate code point has no
  encoding and the call raises \<open>UnicodeEncodeError\<close>.
\<close>

definition utf8_char :: "int \<Rightarrow> int list" where
  "utf8_char c =
     (if c < 0x80 then [c]
      else if c < 0x800 then [0xC0 + c div 64, 0x80 + c mod 64]
      else if c < 0x10000 then [0xE0 + c div 4096, 0x80 + c div 64 mod 64, 0x80 + c mod 64]
      else [0xF0 + c div 262144, 0x80 + c div 4096 mod 64, 0x80 + c div 64 mod 64,
            0x80 + c mod 64])"

definition encode_utf8 :: "ustring \<Rightarrow> py_exception + int list" where
  "encode_utf8 s = (if encodable s then Inr (concat (map utf8_char s)) else Inl UnicodeEncodeError)"

text \<open>
  \<open>hashlib.md5(bytes).hexdigest()\<close>: the MD5 message digest of RFC 1321 over a list of bytes,
  with 32-bit words as integers below \<open>2 ^ 32\<close>, written as 32 lower-case hexadecimal digits.
\<close>

definition w32 :: "int \<Rightarrow> int" where
  "w32 x = x mod 4294967296"

definition rotl :: "int \<Rightarrow> nat \<Rightarrow> int" where
  "rotl x s = w32 (x * 2 ^ s) + x div 2 ^ (32 - s)"

definition md5_K :: "int list" where
  "md5_K = [
    0xd76aa478, 0xe8c7b756, 0x242070db, 0xc1bdceee, 0xf57c0faf, 0x4787c62a, 0xa8304613, 0xfd469501,
    0x698098d8, 0x8b44f7af, 0xffff5bb1, 0x895cd7be, 0x6b901122, 0xfd987193, 0xa679438e, 0x49b40821,
    0xf61e2562, 0xc040b340, 0x265e5a51, 0xe9b6c7aa, 0xd62f105d, 0x02441453, 0xd8a1e681, 0xe7d3fbc8,
    0x21e1cde6, 0xc33707d6, 0xf4d50d87, 0x455a14ed, 0xa9e3e905, 0xfcefa3f8, 0x676f02d9, 0x8d2a4c8a,
    0xfffa3942, 0x8771f681, 0x6d9d6122, 0xfde5380c, 0xa4beea44, 0x4bdecfa9, 0xf6bb4b60, 0xbebfbc70,
    0x289b7ec6, 0xeaa127fa, 0xd4ef3085, 0x04881d05, 0xd9d4d039, 0xe6db99e5, 0x1fa27cf8, 0xc4ac5665,
    0xf4292244, 0x432aff97, 0xab9423a7, 0xfc93a039, 0x655b59c3, 0x8f0ccc92, 0xffeff47d, 0x85845dd1,
    0x6fa87e4f, 0xfe2ce6e0, 0xa3014314, 0x4e0811a1, 0xf7537e82, 0xbd3af235, 0x2ad7d2bb, 0xeb86d391]"

definition md5_S :: "nat list" where
  "md5_S = [7, 12, 17, 22, 7, 12, 17, 22, 7, 12, 17, 22, 7, 12, 17, 22,
            5, 9, 14, 20, 5, 9, 14, 20, 5, 9, 14, 20, 5, 9, 14, 20,
            4, 11, 16, 23, 4, 11, 16, 23, 4, 11, 16, 23, 4, 11, 16, 23,
            6, 10, 15, 21, 6, 10, 15, 21, 6, 10, 15, 21, 6, 10, 15, 21]"

definition md5_round ::
  "int list \<Rightarrow> int \<times> int \<times> int \<times> int \<Rightarrow> nat \<Rightarrow> int \<times> int \<times> int \<times> int" where
  "md5_round m st i =
     (case st of (a, b, c, d) \<Rightarrow>
        (let f = (if i < 16 then (b AND c) OR ((b XOR 0xFFFFFFFF) AND d)
                  else if i < 32 then (d AND b) OR ((d XOR 0xFFFFFFFF) AND c)
                  else if i < 48 then b XOR c XOR d
                  else c XOR (b OR (d XOR 0xFFFFFFFF)));
             g = (if i < 16 then i
                  else if i < 32 then (5 * i + 1) mod 16
                  else if i < 48 then (3 * i + 5) mod 16
                  else (7 * i) mod 16)
         in (d, w32 (b + rotl (w32 (a + f + md5_K ! i + m ! g)) (md5_S ! i)), b, c)))"

fun le_word :: "int list \<Rightarrow> int" where
  "le_word [] = 0"
| "le_word (b # bs) = b + 256 * le_word bs"

fun chunks :: "nat \<Rightarrow> nat \<Rightarrow> 'a list \<Rightarrow> 'a list list" where
  "chunks 0 n xs = []"
| "chunks (Suc k) n xs = take n xs # chunks k n (drop n xs)"

definition md5_block ::
  "int \<times> int \<times> int \<times> int \<Rightarrow> int list \<Rightarrow> int \<times> int \<times> int \<times> int" where
  "md5_block st block =
     (let m = map le_word (chunks 16 4 block)
      in case (st, foldl (md5_round m) st [0 ..< 64]) of
           ((a0, b0, c0, d0), (a, b, c, d)) \<Rightarrow>
             (w32 (a0 + a), w32 (b0 + b), w32 (c0 + c), w32 (d0 + d)))"

fun le_bytes :: "nat \<Rightarrow> int \<Rightarrow> int list" where
  "le_bytes 0 x = []"
| "le_bytes (Suc k) x = x mod 256 # le_bytes k (x div 256)"

definition md5_pad :: "int list \<Rightarrow> int list" where
  "md5_pad bs =
     bs @ [0x80] @ replicate ((55 + 64 - length bs mod 64) mod 64) 0
       @ le_bytes 8 (8 * int (length bs))"

definition md5_digest :: "int list \<Rightarrow> int list" where
  "md5_digest bs =
     (let padded = md5_pad bs
      in case foldl md5_block (0x67452301, 0xefcdab89, 0x98badcfe, 0x10325476)
                (chunks (length padded div 64) 64 padded) of
           (a, b, c, d) \<Rightarrow> le_bytes 4 a @ le_bytes 4 b @ le_bytes 4 c @ le_bytes 4 d)"

definition hex_digit :: "int \<Rightarrow> int" where
  "hex_digit x = (if x < 10 then 0x30 + x else 0x57 + x)"

definition hexdigest :: "int list \<Rightarrow> ustring" where
  "hexdigest bs = concat (map (\<lambda>b. [hex_digit (b div 16), hex_digit (b mod 16)]) bs)"

text \<open>\<open>int(s, 16)\<close> for a string of lower-case hexadecimal digits.\<close>

definition int_of_hex :: "ustring \<Rightarrow> int" where
  "int_of_hex s = foldl (\<lambda>acc c. 16 * acc + (if c \<le> 0x39 then c - 0x30 else c - 0x57)) 0 s"

subsection \<open>String methods\<close>

text \<open>\<open>s.find(sub)\<close>: the lowest index of an occurrence, or \<open>-1\<close>.\<close>

fun str_find :: "ustring \<Rightarrow> ustring \<Rightarrow> int" where
  "str_find sub [] = (if sub = [] then 0 else - 1)"
| "str_find sub (c # cs) =
     (if startswith (c # cs) sub then 0
      else (let r = str_find sub cs in if r < 0 then - 1 else r + 1))"

text \<open>\<open>s.count(sub)\<close>: the number of non-overlapping occurrences, found from left to right.\<close>

function str_count :: "ustring \<Rightarrow> ustring \<Rightarrow> nat" where
  "str_count sub s =
     (if sub = [] then length s + 1
      else if s = [] then 0
      else if startswith s sub then 1 + str_count sub (drop (length sub) s)
      else str_count sub (tl s))"
  by pat_completeness auto

termination
  by (relation "measure (\<lambda>(sub, s). length s)") auto

declare str_count.simps [simp del]

text \<open>\<open>s.split()\<close>: the non-empty pieces between whitespace characters.\<close>

fun split_on_space :: "ustring \<Rightarrow> ustring list" where
  "split_on_space [] = [[]]"
| "split_on_space (c # cs) =
     (if is_space c then [] # split_on_space cs else cons_first c (split_on_space cs))"

definition py_split :: "ustring \<Rightarrow> ustring list" where
  "py_split s = filter (\<lambda>w. w \<noteq> []) (split_on_space s)"

text \<open>The index of the first element that satisfies a test: a loop with \<open>break\<close>.\<close>

fun first_index :: "('a \<Rightarrow> bool) \<Rightarrow> 'a list \<Rightarrow> nat option" where
  "first_index P [] = None"
| "first_index P (x # xs) =
     (if P x then Some 0 else (case first_index P xs of None \<Rightarrow> None | Some i \<Rightarrow> Some (Suc i)))"

text \<open>
  \<open>' '.join(words[max(0, i - 2):min(len(words), i + 3)])\<close>: the word with index \<open>i\<close> and up
  to two words on either side.
\<close>

definition context_of :: "ustring list \<Rightarrow> nat \<Rightarrow> ustring" where
  "context_of ws i = join_sep [0x20] (drop (i - 2) (take (i + 3) ws))"

subsection \<open>The tables\<close>

text \<open>
  The dictionary \<open>enhanced_theme_mapping\<close> in the order of its keys, which is the order of
  the loop over its items.
\<close>

record theme_data =
  theme_keywords :: "ustring list"
  theme_semantic :: "ustring list"
  theme_emotions :: "ustring list"

definition enhanced_theme_mapping :: "(ustring \<times> theme_data) list" where
  "enhanced_theme_mapping = [
       (ascii ''nature_mountain'',
        \<lparr> theme_keywords =
            [[0x5C71], [0x5C71, 0x5CF0], [0x5C71, 0x8109], [0x767B, 0x5C71], [0x8FDC, 0x8DB3],
             [0x81EA, 0x7136, 0x98CE, 0x5149], [0x6237, 0x5916], [0x5F92, 0x6B65],
             [0x5C71, 0x666F], [0x9AD8, 0x5C71], [0x96EA, 0x5C71], [0x5C71, 0x9876],
             [0x5CF0, 0x5CE6], [0x5DCD, 0x5CE8], [0x58EE, 0x4E3D]],
          theme_semantic =
            [[0x96C4, 0x4F1F], [0x58EE, 0x89C2], [0x9AD8, 0x8038], [0x9669, 0x5CFB],
             [0x4E91, 0x96FE, 0x7F2D, 0x7ED5], [0x5C71, 0x5DDD], [0x5CFB, 0x5CAD],
             [0x5DC5, 0x5CF0], [0x767B, 0x9AD8], [0x4FEF, 0x77B0]],
          theme_emotions =
            [[0x9707, 0x64BC], [0x656C, 0x754F], [0x5F81, 0x670D], [0x6311, 0x6218],
             [0x575A, 0x6BC5]] \<rparr>),
       (ascii ''nature_ocean'',
        \<lparr> theme_keywords =
            [[0x6D77], [0x6D77, 0x6D0B], [0x6D77, 0x8FB9], [0x6D77, 0x6EE9], [0x6CE2, 0x6D6A],
             [0x6D77, 0x6C34], [0x6C99, 0x6EE9], [0x6D77, 0x5CB8], [0x84DD, 0x8272],
             [0x6C34, 0x9762], [0x5927, 0x6D77], [0x6D77, 0x6D6A], [0x6F6E, 0x6C50],
             [0x6D77, 0x98CE]],
          theme_semantic =
            [[0x8FBD, 0x9614], [0x6DF1, 0x9083], [0x6CE2, 0x6D9B], [0x6D6A, 0x82B1],
             [0x6D77, 0x5929, 0x4E00, 0x8272], [0x78A7, 0x6CE2], [0x6C79, 0x6D8C],
             [0x5B81, 0x9759], [0x6D77, 0x9E25], [0x5E06, 0x8239]],
          theme_emotions =
            [[0x81EA, 0x7531], [0x5B81, 0x9759], [0x6D6A, 0x6F2B], [0x601D, 0x8003],
             [0x653E, 0x677E]] \<rparr>),
       (ascii ''nature_forest'',
        \<lparr> theme_keywords =
            [[0x68EE, 0x6797], [0x6811, 0x6797], [0x7EFF, 0x8272], [0x690D, 0x7269],
             [0x53F6, 0x5B50], [0x6811, 0x6728], [0x81EA, 0x7136], [0x7EFF, 0x610F],
             [0x6E05, 0x65B0], [0x5927, 0x6811], [0x53E4, 0x6811], [0x6797, 0x95F4],
             [0x4E1B, 0x6797], [0x7EFF, 0x836B]],
          theme_semantic =
            [[0x8302, 0x5BC6], [0x5E7D, 0x9759], [0x751F, 0x673A], [0x7FE0, 0x7EFF],
             [0x9633, 0x5149, 0x900F, 0x8FC7], [0x9E1F, 0x8BED, 0x82B1, 0x9999],
             [0x5C0F, 0x5F84], [0x6E05, 0x9999], [0x6C27, 0x6C14], [0x751F, 0x6001]],
          theme_emotions =
            [[0x5E73, 0x9759], [0x6CBB, 0x6108], [0x6E05, 0x65B0], [0x751F, 0x673A],
             [0x548C, 0x8C10]] \<rparr>),
       (ascii ''nature_flower'',
        \<lparr> theme_keywords =
            [[0x82B1], [0x82B1, 0x6735], [0x6A31, 0x82B1], [0x6885, 0x82B1], [0x73AB, 0x7470],
             [0x82B1, 0x56ED], [0x82B1, 0x6D77], [0x76DB, 0x5F00], [0x82B1, 0x74E3],
             [0x82B1, 0x854A], [0x9C9C, 0x82B1], [0x82B1, 0x675F], [0x7EFD, 0x653E],
             [0x82AC, 0x82B3]],
          theme_semantic =
            [[0x5A07, 0x8273], [0x82AC, 0x82B3], [0x7EDA, 0x70C2], [0x82B1, 0x9999],
             [0x871C, 0x8702], [0x8774, 0x8776], [0x82B1, 0x671F], [0x82B1, 0x8BED],
             [0x7F8E, 0x4E3D], [0x8272, 0x5F69]],
          theme_emotions =
            [[0x7F8E, 0x597D], [0x6D6A, 0x6F2B], [0x6E29, 0x67D4], [0x7EAF, 0x771F],
             [0x7231, 0x60C5]] \<rparr>),
       (ascii ''nature_sky'',
        \<lparr> theme_keywords =
            [[0x5929, 0x7A7A], [0x4E91], [0x84DD, 0x5929], [0x767D, 0x4E91], [0x6674, 0x5929],
             [0x65E5, 0x51FA], [0x65E5, 0x843D], [0x5915, 0x9633], [0x671D, 0x971E],
             [0x665A, 0x971E], [0x5F69, 0x971E], [0x9633, 0x5149], [0x4E91, 0x6735],
             [0x5929, 0x9645]],
          theme_semantic =
            [[0x5E7F, 0x9614], [0x65E0, 0x57A0], [0x53D8, 0x5E7B], [0x5149, 0x5F71],
             [0x8272, 0x5F69], [0x4E91, 0x5377, 0x4E91, 0x8212], [0x971E, 0x5149],
             [0x91D1, 0x8F89], [0x851A, 0x84DD], [0x7EAF, 0x51C0]],
          theme_emotions =
            [[0x5E0C, 0x671B], [0x81EA, 0x7531], [0x68A6, 0x60F3], [0x5F00, 0x9614],
             [0x5411, 0x5F80]] \<rparr>),
       (ascii ''city_modern'',
        \<lparr> theme_keywords =
            [[0x57CE, 0x5E02], [0x90FD, 0x5E02], [0x73B0, 0x4EE3], [0x9AD8, 0x697C],
             [0x5EFA, 0x7B51], [0x8857, 0x9053], [0x90FD, 0x5E02, 0x98CE, 0x5149],
             [0x6469, 0x5929, 0x5927, 0x697C], [0x73B0, 0x4EE3, 0x5EFA, 0x7B51],
             [0x73BB, 0x7483, 0x5E55, 0x5899], [0x94A2, 0x7B4B, 0x6DF7, 0x51DD, 0x571F]],
          theme_semantic =
            [[0x7E41, 0x534E], [0x73B0, 0x4EE3, 0x5316], [0x79D1, 0x6280, 0x611F],
             [0x90FD, 0x5E02, 0x8282, 0x594F], [0x5546, 0x4E1A, 0x533A], ascii ''CBD'',
             [0x5929, 0x9645, 0x7EBF], [0x706F, 0x706B, 0x8F89, 0x714C],
             [0x8F66, 0x6C34, 0x9A6C, 0x9F99]],
          theme_emotions =
            [[0x6D3B, 0x529B], [0x5FD9, 0x788C], [0x73B0, 0x4EE3], [0x8FDB, 0x6B65],
             [0x7ADE, 0x4E89]] \<rparr>),
       (ascii ''city_street'',
        \<lparr> theme_keywords =
            [[0x8857, 0x9053], [0x9A6C, 0x8DEF], [0x8DEF], [0x8857, 0x666F],
             [0x57CE, 0x5E02, 0x8857, 0x9053], [0x884C, 0x4EBA], [0x4EA4, 0x901A],
             [0x7E41, 0x534E], [0x5341, 0x5B57, 0x8DEF, 0x53E3], [0x8F66, 0x6D41],
             [0x4EBA, 0x6D41], [0x5546, 0x5E97]],
          theme_semantic =
            [[0x7199, 0x7199, 0x6518, 0x6518], [0x5DDD, 0x6D41, 0x4E0D, 0x606F],
             [0x7EA2, 0x7EFF, 0x706F], [0x6591, 0x9A6C, 0x7EBF], [0x5E97, 0x94FA],
             [0x62DB, 0x724C], [0x8857, 0x5934], [0x90FD, 0x5E02, 0x751F, 0x6D3B]],
          theme_emotions =
            [[0x70ED, 0x95F9], [0x751F, 0x6D3B], [0x5FD9, 0x788C], [0x591A, 0x5F69],
             [0x771F, 0x5B9E]] \<rparr>),
       (ascii ''city_cafe'',
        \<lparr> theme_keywords =
            [[0x5496, 0x5561, 0x5385], [0x5496, 0x5561], [0x5496, 0x5561, 0x9986],
             [0x6E29, 0x6696], [0x60EC, 0x610F], [0x4F11, 0x95F2], [0x4E0B, 0x5348, 0x8336],
             [0x5496, 0x5561, 0x5E97], [0x6E29, 0x99A8], [0x62FF, 0x94C1],
             [0x5361, 0x5E03, 0x5947, 0x8BFA]],
          theme_semantic =
            [[0x6162, 0x751F, 0x6D3B], [0x6587, 0x827A], [0x5C0F, 0x8D44], [0x804A, 0x5929],
             [0x9605, 0x8BFB], [0x97F3, 0x4E50], [0x9999, 0x6C14], [0x8212, 0x9002],
             [0x653E, 0x677E]],
          theme_emotions =
            [[0x60EC, 0x610F], [0x6E29, 0x99A8], [0x653E, 0x677E], [0x4EAB, 0x53D7],
             [0x6587, 0x827A]] \<rparr>),
       (ascii ''city_night'',
        \<lparr> theme_keywords =
            [[0x591C, 0x665A], [0x591C, 0x666F], [0x706F, 0x5149], [0x9713, 0x8679],
             [0x591C, 0x8272], [0x57CE, 0x5E02, 0x591C, 0x666F], [0x7480, 0x74A8],
             [0x9713, 0x8679, 0x706F], [0x706F, 0x706B, 0x901A, 0x660E], [0x591C, 0x751F, 0x6D3B]],
          theme_semantic =
            [[0x7EDA, 0x70C2], [0x8FF7, 0x4EBA], [0x5149, 0x5F71], [0x591C, 0x5E02],
             [0x9152, 0x5427], [0x591C, 0x5E97], [0x661F, 0x5149], [0x6708, 0x5149],
             [0x706F, 0x7EA2, 0x9152, 0x7EFF]],
          theme_emotions =
            [[0x6D6A, 0x6F2B], [0x795E, 0x79D8], [0x6D3B, 0x529B], [0x9B45, 0x529B],
             [0x68A6, 0x5E7B]] \<rparr>),
       (ascii ''people_portrait'',
        \<lparr> theme_keywords =
            [[0x4EBA, 0x7269], [0x8096, 0x50CF], [0x9762, 0x90E8], [0x8868, 0x60C5],
             [0x773C, 0x795E], [0x4EBA, 0x50CF], [0x7279, 0x5199], [0x9762, 0x5BB9],
             [0x795E, 0x60C5], [0x4E94, 0x5B98], [0x8F6E, 0x5ED3]],
          theme_semantic =
            [[0x6DF1, 0x9083], [0x4E13, 0x6CE8], [0x51DD, 0x89C6], [0x5FAE, 0x8868, 0x60C5],
             [0x4E2A, 0x6027], [0x6C14, 0x8D28], [0x9B45, 0x529B], [0x7279, 0x5F81],
             [0x795E, 0x97F5]],
          theme_emotions =
            [[0x4E13, 0x6CE8], [0x6DF1, 0x6C89], [0x4E2A, 0x6027], [0x9B45, 0x529B],
             [0x771F, 0x5B9E]] \<rparr>),
       (ascii ''people_happy'',
        \<lparr> theme_keywords =
            [[0x5FEB, 0x4E50], [0x5F00, 0x5FC3], [0x7B11, 0x5BB9], [0x5FAE, 0x7B11],
             [0x6B22, 0x4E50], [0x6109, 0x5FEB], [0x9AD8, 0x5174], [0x5174, 0x594B],
             [0x559C, 0x60A6], [0x5E78, 0x798F], [0x707F, 0x70C2], [0x751C, 0x7F8E]],
          theme_semantic =
            [[0x9633, 0x5149], [0x707F, 0x70C2], [0x611F, 0x67D3, 0x529B],
             [0x6B63, 0x80FD, 0x91CF], [0x6D3B, 0x529B], [0x9752, 0x6625], [0x7EAF, 0x771F],
             [0x7F8E, 0x597D]],
          theme_emotions =
            [[0x5FEB, 0x4E50], [0x5E78, 0x798F], [0x6EE1, 0x8DB3], [0x9633, 0x5149],
             [0x79EF, 0x6781]] \<rparr>),
       (ascii ''people_sad'',
        \<lparr> theme_keywords =
            [[0x4F24, 0x5FC3], [0x96BE, 0x8FC7], [0x60B2, 0x4F24], [0x5FE7, 0x90C1],
             [0x6CAE, 0x4E27], [0x5931, 0x843D], [0x773C, 0x6CEA], [0x54ED, 0x6CE3],
             [0x5FE7, 0x4F24], [0x5B64, 0x72EC], [0x601D, 0x5FF5]],
          theme_semantic =
            [[0x5FE7, 0x90C1], [0x6DF1, 0x6C89], [0x601D, 0x8003], [0x56DE, 0x5FC6],
             [0x6000, 0x5FF5], [0x611F, 0x4F24], [0x773C, 0x6CEA], [0x5B64, 0x5355]],
          theme_emotions =
            [[0x60B2, 0x4F24], [0x5FE7, 0x90C1], [0x601D, 0x5FF5], [0x5B64, 0x72EC],
             [0x611F, 0x4F24]] \<rparr>),
       (ascii ''people_love'',
        \<lparr> theme_keywords =
            [[0x7231, 0x60C5], [0x6D6A, 0x6F2B], [0x60C5, 0x4FA3], [0x604B, 0x4EBA],
             [0x62E5, 0x62B1], [0x4EB2, 0x543B], [0x751C, 0x871C], [0x6E29, 0x99A8], [0x7231],
             [0x6D6A, 0x6F2B], [0x7EA6, 0x4F1A], [0x7275, 0x624B]],
          theme_semantic =
            [[0x751C, 0x871C], [0x6E29, 0x99A8], [0x6D6A, 0x6F2B], [0x5E78, 0x798F],
             [0x76F8, 0x4F34], [0x4F9D, 0x504E], [0x6DF1, 0x60C5], [0x7737, 0x604B]],
          theme_emotions =
            [[0x7231, 0x60C5], [0x6D6A, 0x6F2B], [0x751C, 0x871C], [0x5E78, 0x798F],
             [0x6E29, 0x6696]] \<rparr>),
       (ascii ''people_friendship'',
        \<lparr> theme_keywords =
            [[0x53CB, 0x8C0A], [0x670B, 0x53CB], [0x53CB, 0x60C5], [0x966A, 0x4F34],
             [0x4E00, 0x8D77], [0x5408, 0x5F71], [0x53CB, 0x597D], [0x805A, 0x4F1A],
             [0x4EA4, 0x8C08], [0x5206, 0x4EAB], [0x652F, 0x6301]],
          theme_semantic =
            [[0x771F, 0x8BDA], [0x966A, 0x4F34], [0x652F, 0x6301], [0x5206, 0x4EAB],
             [0x5FEB, 0x4E50], [0x4FE1, 0x4EFB], [0x7406, 0x89E3], [0x73CD, 0x8D35]],
          theme_emotions =
            [[0x53CB, 0x8C0A], [0x6E29, 0x6696], [0x652F, 0x6301], [0x5FEB, 0x4E50],
             [0x73CD, 0x8D35]] \<rparr>),
       (ascii ''people_family'',
        \<lparr> theme_keywords =
            [[0x5BB6, 0x5EAD], [0x4EB2, 0x60C5], [0x7236, 0x6BCD], [0x5B69, 0x5B50],
             [0x5BB6, 0x4EBA], [0x6E29, 0x99A8], [0x56E2, 0x805A], [0x5BB6], [0x4EB2, 0x4EBA],
             [0x5173, 0x7231], [0x5475, 0x62A4]],
          theme_semantic =
            [[0x6E29, 0x99A8], [0x548C, 0x7766], [0x5173, 0x7231], [0x5475, 0x62A4],
             [0x4F20, 0x627F], [0x8D23, 0x4EFB], [0x4F9D, 0x9760], [0x6E2F, 0x6E7E]],
          theme_emotions =
            [[0x6E29, 0x99A8], [0x5173, 0x7231], [0x5B89, 0x5168], [0x5F52, 0x5C5E],
             [0x8D23, 0x4EFB]] \<rparr>),
       (ascii ''life_home'',
        \<lparr> theme_keywords =
            [[0x5BB6], [0x5BB6, 0x5EAD], [0x623F, 0x95F4], [0x5BA2, 0x5385], [0x5367, 0x5BA4],
             [0x6E29, 0x99A8], [0x5C45, 0x5BB6], [0x751F, 0x6D3B], [0x5BB6, 0x5C45],
             [0x88C5, 0x9970], [0x8212, 0x9002]],
          theme_semantic =
            [[0x6E29, 0x99A8], [0x8212, 0x9002], [0x79C1, 0x5BC6], [0x653E, 0x677E],
             [0x5F52, 0x5C5E], [0x5B89, 0x5168], [0x4E2A, 0x4EBA, 0x7A7A, 0x95F4],
             [0x751F, 0x6D3B, 0x6C14, 0x606F]],
          theme_emotions =
            [[0x6E29, 0x99A8], [0x8212, 0x9002], [0x5B89, 0x5168], [0x653E, 0x677E],
             [0x5F52, 0x5C5E]] \<rparr>),
       (ascii ''life_work'',
        \<lparr> theme_keywords =
            [[0x5DE5, 0x4F5C], [0x529E, 0x516C], [0x7535, 0x8111], [0x4F1A, 0x8BAE],
             [0x5546, 0x52A1], [0x804C, 0x573A], [0x5B66, 0x4E60], [0x4E13, 0x6CE8],
             [0x529E, 0x516C, 0x5BA4], [0x6548, 0x7387], [0x4E13, 0x4E1A]],
          theme_semantic =
            [[0x4E13, 0x4E1A], [0x6548, 0x7387], [0x4E13, 0x6CE8], [0x8BA4, 0x771F],
             [0x8D23, 0x4EFB], [0x6210, 0x5C31], [0x6311, 0x6218], [0x56E2, 0x961F]],
          theme_emotions =
            [[0x4E13, 0x6CE8], [0x8BA4, 0x771F], [0x8D23, 0x4EFB], [0x6210, 0x5C31],
             [0x6311, 0x6218]] \<rparr>),
       (ascii ''life_travel'',
        \<lparr> theme_keywords =
            [[0x65C5, 0x884C], [0x65C5, 0x6E38], [0x5EA6, 0x5047], [0x884C, 0x674E],
             [0x673A, 0x573A], [0x9152, 0x5E97], [0x98CE, 0x666F], [0x63A2, 0x7D22],
             [0x65C5, 0x9014], [0x5192, 0x9669], [0x53D1, 0x73B0]],
          theme_semantic =
            [[0x81EA, 0x7531], [0x63A2, 0x7D22], [0x53D1, 0x73B0], [0x4F53, 0x9A8C],
             [0x5192, 0x9669], [0x653E, 0x677E], [0x5F00, 0x9614], [0x8BB0, 0x5FC6]],
          theme_emotions =
            [[0x81EA, 0x7531], [0x5174, 0x594B], [0x63A2, 0x7D22], [0x653E, 0x677E],
             [0x5F00, 0x9614]] \<rparr>),
       (ascii ''life_food'',
        \<lparr> theme_keywords =
            [[0x7F8E, 0x98DF], [0x98DF, 0x7269], [0x9910, 0x5385], [0x70F9, 0x996A],
             [0x6599, 0x7406], [0x7F8E, 0x5473], [0x9910, 0x684C], [0x54C1, 0x5C1D],
             [0x83DC, 0x80B4], [0x9999, 0x5473], [0x8272, 0x9999, 0x5473]],
          theme_semantic =
            [[0x7F8E, 0x5473], [0x9999, 0x6C14], [0x8272, 0x5F69], [0x7CBE, 0x81F4],
             [0x4EAB, 0x53D7], [0x6EE1, 0x8DB3], [0x6587, 0x5316], [0x5206, 0x4EAB]],
          theme_emotions =
            [[0x4EAB, 0x53D7], [0x6EE1, 0x8DB3], [0x5E78, 0x798F], [0x5206, 0x4EAB],
             [0x6587, 0x5316]] \<rparr>),
       (ascii ''life_reading'',
        \<lparr> theme_keywords =
            [[0x8BFB, 0x4E66], [0x9605, 0x8BFB], [0x4E66, 0x672C], [0x5B66, 0x4E60],
             [0x77E5, 0x8BC6], [0x56FE, 0x4E66], [0x6587, 0x5B57], [0x601D, 0x8003],
             [0x4E66, 0x7C4D], [0x667A, 0x6167], [0x6587, 0x5B66]],
          theme_semantic =
            [[0x5B89, 0x9759], [0x4E13, 0x6CE8], [0x601D, 0x8003], [0x667A, 0x6167],
             [0x77E5, 0x8BC6], [0x6210, 0x957F], [0x5185, 0x6DB5], [0x4FEE, 0x517B]],
          theme_emotions =
            [[0x5B81, 0x9759], [0x4E13, 0x6CE8], [0x667A, 0x6167], [0x6210, 0x957F],
             [0x5145, 0x5B9E]] \<rparr>),
       (ascii ''abstract_dream'',
        \<lparr> theme_keywords =
            [[0x68A6, 0x60F3], [0x5E0C, 0x671B], [0x672A, 0x6765], [0x7406, 0x60F3],
             [0x61A7, 0x61AC], [0x76EE, 0x6807], [0x8FFD, 0x6C42], [0x613F, 0x671B], [0x68A6],
             [0x5FD7, 0x5411], [0x62B1, 0x8D1F]],
          theme_semantic =
            [[0x8FDC, 0x5927], [0x7F8E, 0x597D], [0x8FFD, 0x6C42], [0x594B, 0x6597],
             [0x575A, 0x6301], [0x4FE1, 0x5FF5], [0x5149, 0x660E], [0x53EF, 0x80FD]],
          theme_emotions =
            [[0x5E0C, 0x671B], [0x61A7, 0x61AC], [0x6FC0, 0x52B1], [0x575A, 0x5B9A],
             [0x7F8E, 0x597D]] \<rparr>),
       (ascii ''abstract_memory'',
        \<lparr> theme_keywords =
            [[0x56DE, 0x5FC6], [0x8BB0, 0x5FC6], [0x8FC7, 0x53BB], [0x6000, 0x5FF5],
             [0x601D, 0x5FF5], [0x5F80, 0x4E8B], [0x7AE5, 0x5E74], [0x9752, 0x6625],
             [0x65F6, 0x5149], [0x5C81, 0x6708], [0x6000, 0x65E7]],
          theme_semantic =
            [[0x73CD, 0x8D35], [0x7F8E, 0x597D], [0x6000, 0x5FF5], [0x611F, 0x6168],
             [0x65F6, 0x5149], [0x9752, 0x6625], [0x7EAF, 0x771F], [0x96BE, 0x5FD8]],
          theme_emotions =
            [[0x6000, 0x5FF5], [0x611F, 0x6168], [0x73CD, 0x8D35], [0x6E29, 0x6696],
             [0x611F, 0x4F24]] \<rparr>),
       (ascii ''abstract_growth'',
        \<lparr> theme_keywords =
            [[0x6210, 0x957F], [0x8FDB, 0x6B65], [0x53D1, 0x5C55], [0x63D0, 0x5347],
             [0x6539, 0x53D8], [0x8715, 0x53D8], [0x7A81, 0x7834], [0x8FDB, 0x5316],
             [0x6210, 0x719F], [0x5B66, 0x4E60], [0x8FDB, 0x53D6]],
          theme_semantic =
            [[0x8FDB, 0x6B65], [0x63D0, 0x5347], [0x7A81, 0x7834], [0x575A, 0x6301],
             [0x52AA, 0x529B], [0x6536, 0x83B7], [0x6210, 0x5C31], [0x8715, 0x53D8]],
          theme_emotions =
            [[0x6210, 0x5C31], [0x6EE1, 0x8DB3], [0x81EA, 0x8C6A], [0x575A, 0x5B9A],
             [0x79EF, 0x6781]] \<rparr>),
       (ascii ''abstract_peace'',
        \<lparr> theme_keywords =
            [[0x5E73, 0x9759], [0x5B89, 0x9759], [0x5B81, 0x9759], [0x7965, 0x548C],
             [0x653E, 0x677E], [0x51A5, 0x60F3], [0x5185, 0x5FC3], [0x7985, 0x610F],
             [0x5B81, 0x9759], [0x9759, 0x8C27], [0x5B89, 0x8BE6]],
          theme_semantic =
            [[0x5B81, 0x9759], [0x5E73, 0x548C], [0x5B89, 0x8BE6], [0x5185, 0x5FC3],
             [0x51A5, 0x60F3], [0x7985, 0x610F], [0x8D85, 0x8131], [0x7EAF, 0x51C0]],
          theme_emotions =
            [[0x5E73, 0x9759], [0x5B89, 0x8BE6], [0x653E, 0x677E], [0x7EAF, 0x51C0],
             [0x8D85, 0x8131]] \<rparr>),
       (ascii ''abstract_emotion'',
        \<lparr> theme_keywords =
            [[0x60C5, 0x611F], [0x6E29, 0x6696], [0x611F, 0x52A8], [0x5173, 0x7231],
             [0x6E29, 0x60C5], [0x5FC3, 0x60C5], [0x611F, 0x53D7], [0x60C5, 0x7EEA],
             [0x5185, 0x5FC3], [0x5FC3, 0x7075], [0x611F, 0x89E6]],
          theme_semantic =
            [[0x6DF1, 0x523B], [0x771F, 0x631A], [0x6E29, 0x6696], [0x611F, 0x4EBA],
             [0x89E6, 0x52A8], [0x5171, 0x9E23], [0x7406, 0x89E3], [0x5305, 0x5BB9]],
          theme_emotions =
            [[0x611F, 0x52A8], [0x6E29, 0x6696], [0x771F, 0x631A], [0x6DF1, 0x523B],
             [0x5171, 0x9E23]] \<rparr>),
       (ascii ''season_spring'',
        \<lparr> theme_keywords =
            [[0x6625, 0x5929], [0x6625, 0x5B63], [0x65B0, 0x7EFF], [0x751F, 0x673A],
             [0x590D, 0x82CF], [0x5AE9, 0x82BD], [0x6625, 0x610F], [0x6E29, 0x6696],
             [0x6625, 0x65E5], [0x82B1, 0x5F00], [0x4E07, 0x7269, 0x590D, 0x82CF]],
          theme_semantic =
            [[0x751F, 0x673A], [0x5E0C, 0x671B], [0x65B0, 0x751F], [0x6D3B, 0x529B],
             [0x6E29, 0x6696], [0x7EFF, 0x610F], [0x82B1, 0x5F00], [0x590D, 0x82CF]],
          theme_emotions =
            [[0x5E0C, 0x671B], [0x6D3B, 0x529B], [0x65B0, 0x751F], [0x6E29, 0x6696],
             [0x7F8E, 0x597D]] \<rparr>),
       (ascii ''season_summer'',
        \<lparr> theme_keywords =
            [[0x590F, 0x5929], [0x590F, 0x5B63], [0x708E, 0x70ED], [0x9633, 0x5149],
             [0x6D77, 0x6EE9], [0x6E38, 0x6CF3], [0x6E05, 0x51C9], [0x6D3B, 0x529B],
             [0x590F, 0x65E5], [0x70ED, 0x60C5], [0x706B, 0x70ED]],
          theme_semantic =
            [[0x70ED, 0x60C5], [0x6D3B, 0x529B], [0x9633, 0x5149], [0x70ED, 0x70C8],
             [0x5145, 0x6EE1, 0x6D3B, 0x529B], [0x9752, 0x6625], [0x6FC0, 0x60C5],
             [0x5954, 0x653E]],
          theme_emotions =
            [[0x70ED, 0x60C5], [0x6D3B, 0x529B], [0x6FC0, 0x60C5], [0x81EA, 0x7531],
             [0x9752, 0x6625]] \<rparr>),
       (ascii ''season_autumn'',
        \<lparr> theme_keywords =
            [[0x79CB, 0x5929], [0x79CB, 0x5B63], [0x843D, 0x53F6], [0x91D1, 0x9EC4],
             [0x6536, 0x83B7], [0x67AB, 0x53F6], [0x8427, 0x745F], [0x6210, 0x719F],
             [0x91D1, 0x79CB], [0x4E30, 0x6536], [0x51C9, 0x723D]],
          theme_semantic =
            [[0x6210, 0x719F], [0x6536, 0x83B7], [0x4E30, 0x5BCC], [0x6C89, 0x6DC0],
             [0x91D1, 0x9EC4], [0x7F8E, 0x4E3D], [0x8BD7, 0x610F], [0x611F, 0x6000]],
          theme_emotions =
            [[0x6210, 0x719F], [0x6536, 0x83B7], [0x611F, 0x6000], [0x8BD7, 0x610F],
             [0x6C89, 0x9759]] \<rparr>),
       (ascii ''season_winter'',
        \<lparr> theme_keywords =
            [[0x51AC, 0x5929], [0x51AC, 0x5B63], [0x96EA], [0x5BD2, 0x51B7], [0x96EA, 0x82B1],
             [0x51B0], [0x7EAF, 0x6D01], [0x9759, 0x8C27], [0x96EA, 0x666F],
             [0x94F6, 0x88C5, 0x7D20, 0x88F9], [0x6D01, 0x767D]],
          theme_semantic =
            [[0x7EAF, 0x6D01], [0x9759, 0x8C27], [0x6D01, 0x767D], [0x5B81, 0x9759],
             [0x7D20, 0x96C5], [0x6E05, 0x51B7], [0x7F8E, 0x4E3D], [0x795E, 0x5723]],
          theme_emotions =
            [[0x7EAF, 0x6D01], [0x5B81, 0x9759], [0x6E05, 0x51B7], [0x795E, 0x5723],
             [0x7F8E, 0x4E3D]] \<rparr>),
       (ascii ''activity_sport'',
        \<lparr> theme_keywords =
            [[0x8FD0, 0x52A8], [0x5065, 0x8EAB], [0x8DD1, 0x6B65], [0x745C, 0x4F3D],
             [0x6E38, 0x6CF3], [0x953B, 0x70BC], [0x6D3B, 0x529B], [0x5065, 0x5EB7],
             [0x4F53, 0x80B2], [0x6C57, 0x6C34], [0x575A, 0x6301]],
          theme_semantic =
            [[0x6D3B, 0x529B], [0x5065, 0x5EB7], [0x575A, 0x6301], [0x6311, 0x6218],
             [0x7A81, 0x7834], [0x6C57, 0x6C34], [0x52AA, 0x529B], [0x5F3A, 0x5065]],
          theme_emotions =
            [[0x6D3B, 0x529B], [0x5065, 0x5EB7], [0x575A, 0x6301], [0x6311, 0x6218],
             [0x6210, 0x5C31]] \<rparr>),
       (ascii ''activity_art'',
        \<lparr> theme_keywords =
            [[0x827A, 0x672F], [0x7ED8, 0x753B], [0x97F3, 0x4E50], [0x521B, 0x4F5C],
             [0x8BBE, 0x8BA1], [0x7F8E, 0x672F], [0x6587, 0x827A], [0x521B, 0x610F],
             [0x827A, 0x672F], [0x7075, 0x611F], [0x7F8E, 0x611F]],
          theme_semantic =
            [[0x521B, 0x610F], [0x7F8E, 0x611F], [0x7075, 0x611F], [0x8868, 0x8FBE],
             [0x521B, 0x9020], [0x827A, 0x672F], [0x6587, 0x5316], [0x5BA1, 0x7F8E]],
          theme_emotions =
            [[0x521B, 0x610F], [0x7F8E, 0x611F], [0x8868, 0x8FBE], [0x6587, 0x827A],
             [0x7075, 0x611F]] \<rparr>),
       (ascii ''activity_relax'',
        \<lparr> theme_keywords =
            [[0x4F11, 0x606F], [0x653E, 0x677E], [0x8EBA, 0x7740], [0x7761, 0x89C9],
             [0x5B89, 0x9759], [0x8212, 0x9002], [0x60EC, 0x610F], [0x6175, 0x61D2],
             [0x4F11, 0x95F2], [0x60A0, 0x95F2], [0x4EAB, 0x53D7]],
          theme_semantic =
            [[0x8212, 0x9002], [0x60EC, 0x610F], [0x60A0, 0x95F2], [0x653E, 0x677E],
             [0x4EAB, 0x53D7], [0x6175, 0x61D2], [0x5B89, 0x9038], [0x81EA, 0x5728]],
          theme_emotions =
            [[0x653E, 0x677E], [0x8212, 0x9002], [0x60EC, 0x610F], [0x60A0, 0x95F2],
             [0x4EAB, 0x53D7]] \<rparr>),
       (ascii ''animal_cat'',
        \<lparr> theme_keywords =
            [[0x732B], [0x5C0F, 0x732B], [0x732B, 0x54AA], [0x55B5, 0x661F, 0x4EBA],
             [0x53EF, 0x7231, 0x732B], [0x5BA0, 0x7269, 0x732B], [0x732B, 0x54AA],
             [0x55B5, 0x55B5]],
          theme_semantic =
            [[0x53EF, 0x7231], [0x6E29, 0x987A], [0x4F18, 0x96C5], [0x72EC, 0x7ACB],
             [0x795E, 0x79D8], [0x7075, 0x52A8], [0x6CBB, 0x6108], [0x966A, 0x4F34]],
          theme_emotions =
            [[0x53EF, 0x7231], [0x6CBB, 0x6108], [0x6E29, 0x987A], [0x966A, 0x4F34],
             [0x6E29, 0x6696]] \<rparr>),
       (ascii ''animal_dog'',
        \<lparr> theme_keywords =
            [[0x72D7], [0x5C0F, 0x72D7], [0x72D7, 0x72D7], [0x5BA0, 0x7269, 0x72D7],
             [0x5FE0, 0x8BDA], [0x6C6A, 0x661F, 0x4EBA], [0x72AC], [0x5C0F, 0x72AC]],
          theme_semantic =
            [[0x5FE0, 0x8BDA], [0x53CB, 0x597D], [0x6D3B, 0x6CFC], [0x966A, 0x4F34],
             [0x5B88, 0x62A4], [0x53EF, 0x7231], [0x6E29, 0x6696], [0x4FE1, 0x4EFB]],
          theme_emotions =
            [[0x5FE0, 0x8BDA], [0x53CB, 0x597D], [0x966A, 0x4F34], [0x6E29, 0x6696],
             [0x4FE1, 0x4EFB]] \<rparr>),
       (ascii ''animal_bird'',
        \<lparr> theme_keywords =
            [[0x9E1F], [0x5C0F, 0x9E1F], [0x98DE, 0x9E1F], [0x9E1F, 0x513F], [0x7FC5, 0x8180],
             [0x98DE, 0x7FD4], [0x9E1F, 0x7C7B], [0x7FBD, 0x6BDB]],
          theme_semantic =
            [[0x81EA, 0x7531], [0x8F7B, 0x76C8], [0x4F18, 0x96C5], [0x98DE, 0x7FD4],
             [0x6B4C, 0x58F0], [0x7F8E, 0x4E3D], [0x7075, 0x52A8], [0x5929, 0x7A7A]],
          theme_emotions =
            [[0x81EA, 0x7531], [0x8F7B, 0x76C8], [0x4F18, 0x96C5], [0x7F8E, 0x4E3D],
             [0x7075, 0x52A8]] \<rparr>),
       (ascii ''animal_wild'',
        \<lparr> theme_keywords =
            [[0x91CE, 0x751F, 0x52A8, 0x7269], [0x5154, 0x5B50], [0x677E, 0x9F20],
             [0x8774, 0x8776], [0x6606, 0x866B], [0x52A8, 0x7269], [0x91CE, 0x751F],
             [0x81EA, 0x7136]],
          theme_semantic =
            [[0x81EA, 0x7136], [0x91CE, 0x6027], [0x751F, 0x6001], [0x548C, 0x8C10],
             [0x7F8E, 0x4E3D], [0x795E, 0x5947], [0x591A, 0x6837], [0x751F, 0x547D]],
          theme_emotions =
            [[0x81EA, 0x7136], [0x548C, 0x8C10], [0x7F8E, 0x4E3D], [0x795E, 0x5947],
             [0x751F, 0x547D]] \<rparr>)]"

text \<open>The dictionary \<open>xiaohongshu_images\<close>: five URLs for every theme.\<close>

definition xiaohongshu_images :: "(ustring \<times> ustring list) list" where
  "xiaohongshu_images = [
       (ascii ''nature_mountain'',
        [ascii ''https://images.unsplash.com/photo-1506905925346-21bda4d32df4?w=400&h=600&fit=crop'',
         ascii ''https://images.unsplash.com/photo-1464822759844-d150baec0494?w=400&h=600&fit=crop'',
         ascii ''https://images.unsplash.com/photo-1519904981063-b0cf448d479e?w=400&h=600&fit=crop'',
         ascii ''https://images.unsplash.com/photo-1551632811-561732d1e306?w=400&h=600&fit=crop'',
         ascii ''https://images.unsplash.com/photo-1506197603052-3cc9c3a201bd?w=400&h=600&fit=crop'']),
       (ascii ''nature_ocean'',
        [ascii ''https://images.unsplash.com/photo-1505142468610-359e7d316be0?w=400&h=600&fit=crop'',
         ascii ''https://images.unsplash.com/photo-1544551763-46a013bb70d5?w=400&h=600&fit=crop'',
         ascii ''https://images.unsplash.com/photo-1507525428034-b723cf961d3e?w=400&h=600&fit=crop'',
         ascii ''https://images.unsplash.com/photo-1518837695005-2083093ee35b?w=400&h=600&fit=crop'',
         ascii ''https://images.unsplash.com/photo-1439066615861-d1af74d74000?w=400&h=600&fit=crop'']),
       (ascii ''nature_forest'',
        [ascii ''https://images.unsplash.com/photo-1441974231531-c6227db76b6e?w=400&h=600&fit=crop'',
         ascii ''https://images.unsplash.com/photo-1448375240586-882707db888b?w=400&h=600&fit=crop'',
         ascii ''https://images.unsplash.com/photo-1518837695005-2083093ee35b?w=400&h=600&fit=crop'',
         ascii ''https://images.unsplash.com/photo-1506905925346-21bda4d32df4?w=400&h=600&fit=crop'',
         ascii ''https://images.unsplash.com/photo-1511593358241-7eea1f3c84e5?w=400&h=600&fit=crop'']),
       (ascii ''nature_flower'',
        [ascii ''https://images.unsplash.com/photo-1490750967868-88aa4486c946?w=400&h=600&fit=crop'',
         ascii ''https://images.unsplash.com/photo-1518895949257-7621c3c786d7?w=400&h=600&fit=crop'',
         ascii ''https://images.unsplash.com/photo-1463320726281-696a485928c7?w=400&h=600&fit=crop'',
         ascii ''https://images.unsplash.com/photo-1502082553048-f009c37129b9?w=400&h=600&fit=crop'',
         ascii ''https://images.unsplash.com/photo-1507003211169-0a1dd7228f2d?w=400&h=600&fit=crop'']),
       (ascii ''nature_sky'',
        [ascii ''https://images.unsplash.com/photo-1506905925346-21bda4d32df4?w=400&h=600&fit=crop'',
         ascii ''https://images.unsplash.com/photo-1500382017468-9049fed747ef?w=400&h=600&fit=crop'',
         ascii ''https://images.unsplash.com/photo-1519904981063-b0cf448d479e?w=400&h=600&fit=crop'',
         ascii ''https://images.unsplash.com/photo-1506197603052-3cc9c3a201bd?w=400&h=600&fit=crop'',
         ascii ''https://images.unsplash.com/photo-1464822759844-d150baec0494?w=400&h=600&fit=crop'']),
       (ascii ''city_modern'',
        [ascii ''https://images.unsplash.com/photo-1449824913935-59a10b8d2000?w=400&h=600&fit=crop'',
         ascii ''https://images.unsplash.com/photo-1486406146926-c627a92ad1ab?w=400&h=600&fit=crop'',
         ascii ''https://images.unsplash.com/photo-1477959858617-67f85cf4f1df?w=400&h=600&fit=crop'',
         ascii ''https://images.unsplash.com/photo-1514565131-fce0801e5785?w=400&h=600&fit=crop'',
         ascii ''https://images.unsplash.com/photo-1480714378408-67cf0d13bc1f?w=400&h=600&fit=crop'']),
       (ascii ''city_street'',
        [ascii ''https://images.unsplash.com/photo-1477959858617-67f85cf4f1df?w=400&h=600&fit=crop'',
         ascii ''https://images.unsplash.com/photo-1514565131-fce0801e5785?w=400&h=600&fit=crop'',
         ascii ''https://images.unsplash.com/photo-1449824913935-59a10b8d2000?w=400&h=600&fit=crop'',
         ascii ''https://images.unsplash.com/photo-1486406146926-c627a92ad1ab?w=400&h=600&fit=crop'',
         ascii ''https://images.unsplash.com/photo-1480714378408-67cf0d13bc1f?w=400&h=600&fit=crop'']),
       (ascii ''city_cafe'',
        [ascii ''https://images.unsplash.com/photo-1501339847302-ac426a4a7cbb?w=400&h=600&fit=crop'',
         ascii ''https://images.unsplash.com/photo-1554118811-1e0d58224f24?w=400&h=600&fit=crop'',
         ascii ''https://images.unsplash.com/photo-1495474472287-4d71bcdd2085?w=400&h=600&fit=crop'',
         ascii ''https://images.unsplash.com/photo-1559056199-641a0ac8b55e?w=400&h=600&fit=crop'',
         ascii ''https://images.unsplash.com/photo-1521017432531-fbd92d768814?w=400&h=600&fit=crop'']),
       (ascii ''city_night'',
        [ascii ''https://images.unsplash.com/photo-1514565131-fce0801e5785?w=400&h=600&fit=crop'',
         ascii ''https://images.unsplash.com/photo-1477959858617-67f85cf4f1df?w=400&h=600&fit=crop'',
         ascii ''https://images.unsplash.com/photo-1449824913935-59a10b8d2000?w=400&h=600&fit=crop'',
         ascii ''https://images.unsplash.com/photo-1486406146926-c627a92ad1ab?w=400&h=600&fit=crop'',
         ascii ''https://images.unsplash.com/photo-1480714378408-67cf0d13bc1f?w=400&h=600&fit=crop'']),
       (ascii ''people_portrait'',
        [ascii ''https://images.unsplash.com/photo-1494790108755-2616c6106db4?w=400&h=600&fit=crop'',
         ascii ''https://images.unsplash.com/photo-1507003211169-0a1dd7228f2d?w=400&h=600&fit=crop'',
         ascii ''https://images.unsplash.com/photo-1517841905240-472988babdf9?w=400&h=600&fit=crop'',
         ascii ''https://images.unsplash.com/photo-1500648767791-00dcc994a43e?w=400&h=600&fit=crop'',
         ascii ''https://images.unsplash.com/photo-1438761681033-6461ffad8d80?w=400&h=600&fit=crop'']),
       (ascii ''people_happy'',
        [ascii ''https://images.unsplash.com/photo-1507003211169-0a1dd7228f2d?w=400&h=600&fit=crop'',
         ascii ''https://images.unsplash.com/photo-1517841905240-472988babdf9?w=400&h=600&fit=crop'',
         ascii ''https://images.unsplash.com/photo-1500648767791-00dcc994a43e?w=400&h=600&fit=crop'',
         ascii ''https://images.unsplash.com/photo-1494790108755-2616c6106db4?w=400&h=600&fit=crop'',
         ascii ''https://images.unsplash.com/photo-1438761681033-6461ffad8d80?w=400&h=600&fit=crop'']),
       (ascii ''people_sad'',
        [ascii ''https://images.unsplash.com/photo-1494790108755-2616c6106db4?w=400&h=600&fit=crop'',
         ascii ''https://images.unsplash.com/photo-1507003211169-0a1dd7228f2d?w=400&h=600&fit=crop'',
         ascii ''https://images.unsplash.com/photo-1517841905240-472988babdf9?w=400&h=600&fit=crop'',
         ascii ''https://images.unsplash.com/photo-1500648767791-00dcc994a43e?w=400&h=600&fit=crop'',
         ascii ''https://images.unsplash.com/photo-1438761681033-6461ffad8d80?w=400&h=600&fit=crop'']),
       (ascii ''people_love'',
        [ascii ''https://images.unsplash.com/photo-1516589178581-6cd7833ae3b2?w=400&h=600&fit=crop'',
         ascii ''https://images.unsplash.com/photo-1518568814500-bf0f8d125f46?w=400&h=600&fit=crop'',
         ascii ''https://images.unsplash.com/photo-1507003211169-0a1dd7228f2d?w=400&h=600&fit=crop'',
         ascii ''https://images.unsplash.com/photo-1517841905240-472988babdf9?w=400&h=600&fit=crop'',
         ascii ''https://images.unsplash.com/photo-1500648767791-00dcc994a43e?w=400&h=600&fit=crop'']),
       (ascii ''people_friendship'',
        [ascii ''https://images.unsplash.com/photo-1529156069898-49953e39b3ac?w=400&h=600&fit=crop'',
         ascii ''https://images.unsplash.com/photo-1507003211169-0a1dd7228f2d?w=400&h=600&fit=crop'',
         ascii ''https://images.unsplash.com/photo-1517841905240-472988babdf9?w=400&h=600&fit=crop'',
         ascii ''https://images.unsplash.com/photo-1500648767791-00dcc994a43e?w=400&h=600&fit=crop'',
         ascii ''https://images.unsplash.com/photo-1494790108755-2616c6106db4?w=400&h=600&fit=crop'']),
       (ascii ''people_family'',
        [ascii ''https://images.unsplash.com/photo-1511895426328-dc8714191300?w=400&h=600&fit=crop'',
         ascii ''https://images.unsplash.com/photo-1507003211169-0a1dd7228f2d?w=400&h=600&fit=crop'',
         ascii ''https://images.unsplash.com/photo-1517841905240-472988babdf9?w=400&h=600&fit=crop'',
         ascii ''https://images.unsplash.com/photo-1500648767791-00dcc994a43e?w=400&h=600&fit=crop'',
         ascii ''https://images.unsplash.com/photo-1494790108755-2616c6106db4?w=400&h=600&fit=crop'']),
       (ascii ''life_home'',
        [ascii ''https://images.unsplash.com/photo-1586023492125-27b2c045efd7?w=400&h=600&fit=crop'',
         ascii ''https://images.unsplash.com/photo-1560448204-e02f11c3d0e2?w=400&h=600&fit=crop'',
         ascii ''https://images.unsplash.com/photo-1556909114-f6e7ad7d3136?w=400&h=600&fit=crop'',
         ascii ''https://images.unsplash.com/photo-1484154218962-a197022b5858?w=400&h=600&fit=crop'',
         ascii ''https://images.unsplash.com/photo-1493809842364-78817add7ffb?w=400&h=600&fit=crop'']),
       (ascii ''life_work'',
        [ascii ''https://images.unsplash.com/photo-1497032628192-86f99bcd76bc?w=400&h=600&fit=crop'',
         ascii ''https://images.unsplash.com/photo-1486312338219-ce68d2c6f44d?w=400&h=600&fit=crop'',
         ascii ''https://images.unsplash.com/photo-1507003211169-0a1dd7228f2d?w=400&h=600&fit=crop'',
         ascii ''https://images.unsplash.com/photo-1517841905240-472988babdf9?w=400&h=600&fit=crop'',
         ascii ''https://images.unsplash.com/photo-1500648767791-00dcc994a43e?w=400&h=600&fit=crop'']),
       (ascii ''life_travel'',
        [ascii ''https://images.unsplash.com/photo-1488646953014-85cb44e25828?w=400&h=600&fit=crop'',
         ascii ''https://images.unsplash.com/photo-1506905925346-21bda4d32df4?w=400&h=600&fit=crop'',
         ascii ''https://images.unsplash.com/photo-1464822759844-d150baec0494?w=400&h=600&fit=crop'',
         ascii ''https://images.unsplash.com/photo-1519904981063-b0cf448d479e?w=400&h=600&fit=crop'',
         ascii ''https://images.unsplash.com/photo-1551632811-561732d1e306?w=400&h=600&fit=crop'']),
       (ascii ''life_food'',
        [ascii ''https://images.unsplash.com/photo-1504674900247-0877df9cc836?w=400&h=600&fit=crop'',
         ascii ''https://images.unsplash.com/photo-1565299624946-b28f40a0ca4b?w=400&h=600&fit=crop'',
         ascii ''https://images.unsplash.com/photo-1567620905732-2d1ec7ab7445?w=400&h=600&fit=crop'',
         ascii ''https://images.unsplash.com/photo-1540189549336-e6e99c3679fe?w=400&h=600&fit=crop'',
         ascii ''https://images.unsplash.com/photo-1551782450-a2132b4ba21d?w=400&h=600&fit=crop'']),
       (ascii ''life_reading'',
        [ascii ''https://images.unsplash.com/photo-1481627834876-b7833e8f5570?w=400&h=600&fit=crop'',
         ascii ''https://images.unsplash.com/photo-1507003211169-0a1dd7228f2d?w=400&h=600&fit=crop'',
         ascii ''https://images.unsplash.com/photo-1517841905240-472988babdf9?w=400&h=600&fit=crop'',
         ascii ''https://images.unsplash.com/photo-1500648767791-00dcc994a43e?w=400&h=600&fit=crop'',
         ascii ''https://images.unsplash.com/photo-1494790108755-2616c6106db4?w=400&h=600&fit=crop'']),
       (ascii ''abstract_dream'',
        [ascii ''https://images.unsplash.com/photo-1506905925346-21bda4d32df4?w=400&h=600&fit=crop'',
         ascii ''https://images.unsplash.com/photo-1500382017468-9049fed747ef?w=400&h=600&fit=crop'',
         ascii ''https://images.unsplash.com/photo-1519904981063-b0cf448d479e?w=400&h=600&fit=crop'',
         ascii ''https://images.unsplash.com/photo-1506197603052-3cc9c3a201bd?w=400&h=600&fit=crop'',
         ascii ''https://images.unsplash.com/photo-1464822759844-d150baec0494?w=400&h=600&fit=crop'']),
       (ascii ''abstract_memory'',
        [ascii ''https://images.unsplash.com/photo-1507003211169-0a1dd7228f2d?w=400&h=600&fit=crop'',
         ascii ''https://images.unsplash.com/photo-1517841905240-472988babdf9?w=400&h=600&fit=crop'',
         ascii ''https://images.unsplash.com/photo-1500648767791-00dcc994a43e?w=400&h=600&fit=crop'',
         ascii ''https://images.unsplash.com/photo-1494790108755-2616c6106db4?w=400&h=600&fit=crop'',
         ascii ''https://images.unsplash.com/photo-1438761681033-6461ffad8d80?w=400&h=600&fit=crop'']),
       (ascii ''abstract_growth'',
        [ascii ''https://images.unsplash.com/photo-1490750967868-88aa4486c946?w=400&h=600&fit=crop'',
         ascii ''https://images.unsplash.com/photo-1518895949257-7621c3c786d7?w=400&h=600&fit=crop'',
         ascii ''https://images.unsplash.com/photo-1463320726281-696a485928c7?w=400&h=600&fit=crop'',
         ascii ''https://images.unsplash.com/photo-1502082553048-f009c37129b9?w=400&h=600&fit=crop'',
         ascii ''https://images.unsplash.com/photo-1507003211169-0a1dd7228f2d?w=400&h=600&fit=crop'']),
       (ascii ''abstract_peace'',
        [ascii ''https://images.unsplash.com/photo-1506905925346-21bda4d32df4?w=400&h=600&fit=crop'',
         ascii ''https://images.unsplash.com/photo-1500382017468-9049fed747ef?w=400&h=600&fit=crop'',
         ascii ''https://images.unsplash.com/photo-1519904981063-b0cf448d479e?w=400&h=600&fit=crop'',
         ascii ''https://images.unsplash.com/photo-1506197603052-3cc9c3a201bd?w=400&h=600&fit=crop'',
         ascii ''https://images.unsplash.com/photo-1464822759844-d150baec0494?w=400&h=600&fit=crop'']),
       (ascii ''abstract_emotion'',
        [ascii ''https://images.unsplash.com/photo-1507003211169-0a1dd7228f2d?w=400&h=600&fit=crop'',
         ascii ''https://images.unsplash.com/photo-1517841905240-472988babdf9?w=400&h=600&fit=crop'',
         ascii ''https://images.unsplash.com/photo-1500648767791-00dcc994a43e?w=400&h=600&fit=crop'',
         ascii ''https://images.unsplash.com/photo-1494790108755-2616c6106db4?w=400&h=600&fit=crop'',
         ascii ''https://images.unsplash.com/photo-1438761681033-6461ffad8d80?w=400&h=600&fit=crop'']),
       (ascii ''season_spring'',
        [ascii ''https://images.unsplash.com/photo-1490750967868-88aa4486c946?w=400&h=600&fit=crop'',
         ascii ''https://images.unsplash.com/photo-1518895949257-7621c3c786d7?w=400&h=600&fit=crop'',
         ascii ''https://images.unsplash.com/photo-1463320726281-696a485928c7?w=400&h=600&fit=crop'',
         ascii ''https://images.unsplash.com/photo-1502082553048-f009c37129b9?w=400&h=600&fit=crop'',
         ascii ''https://images.unsplash.com/photo-1507003211169-0a1dd7228f2d?w=400&h=600&fit=crop'']),
       (ascii ''season_summer'',
        [ascii ''https://images.unsplash.com/photo-1505142468610-359e7d316be0?w=400&h=600&fit=crop'',
         ascii ''https://images.unsplash.com/photo-1544551763-46a013bb70d5?w=400&h=600&fit=crop'',
         ascii ''https://images.unsplash.com/photo-1507525428034-b723cf961d3e?w=400&h=600&fit=crop'',
         ascii ''https://images.unsplash.com/photo-1518837695005-2083093ee35b?w=400&h=600&fit=crop'',
         ascii ''https://images.unsplash.com/photo-1439066615861-d1af74d74000?w=400&h=600&fit=crop'']),
       (ascii ''season_autumn'',
        [ascii ''https://images.unsplash.com/photo-1441974231531-c6227db76b6e?w=400&h=600&fit=crop'',
         ascii ''https://images.unsplash.com/photo-1448375240586-882707db888b?w=400&h=600&fit=crop'',
         ascii ''https://images.unsplash.com/photo-1518837695005-2083093ee35b?w=400&h=600&fit=crop'',
         ascii ''https://images.unsplash.com/photo-1506905925346-21bda4d32df4?w=400&h=600&fit=crop'',
         ascii ''https://images.unsplash.com/photo-1511593358241-7eea1f3c84e5?w=400&h=600&fit=crop'']),
       (ascii ''season_winter'',
        [ascii ''https://images.unsplash.com/photo-1578662996442-48f60103fc96?w=400&h=600&fit=crop'',
         ascii ''https://images.unsplash.com/photo-1547036967-23d11aacaee0?w=400&h=600&fit=crop'',
         ascii ''https://images.unsplash.com/photo-1483664852095-d6cc6870702d?w=400&h=600&fit=crop'',
         ascii ''https://images.unsplash.com/photo-1506905925346-21bda4d32df4?w=400&h=600&fit=crop'',
         ascii ''https://images.unsplash.com/photo-1464822759844-d150baec0494?w=400&h=600&fit=crop'']),
       (ascii ''activity_sport'',
        [ascii ''https://images.unsplash.com/photo-1571019613454-1cb2f99b2d8b?w=400&h=600&fit=crop'',
         ascii ''https://images.unsplash.com/photo-1544367567-0f2fcb009e0b?w=400&h=600&fit=crop'',
         ascii ''https://images.unsplash.com/photo-1507003211169-0a1dd7228f2d?w=400&h=600&fit=crop'',
         ascii ''https://images.unsplash.com/photo-1517841905240-472988babdf9?w=400&h=600&fit=crop'',
         ascii ''https://images.unsplash.com/photo-1500648767791-00dcc994a43e?w=400&h=600&fit=crop'']),
       (ascii ''activity_art'',
        [ascii ''https://images.unsplash.com/photo-1513475382585-d06e58bcb0e0?w=400&h=600&fit=crop'',
         ascii ''https://images.unsplash.com/photo-1507003211169-0a1dd7228f2d?w=400&h=600&fit=crop'',
         ascii ''https://images.unsplash.com/photo-1517841905240-472988babdf9?w=400&h=600&fit=crop'',
         ascii ''https://images.unsplash.com/photo-1500648767791-00dcc994a43e?w=400&h=600&fit=crop'',
         ascii ''https://images.unsplash.com/photo-1494790108755-2616c6106db4?w=400&h=600&fit=crop'']),
       (ascii ''activity_relax'',
        [ascii ''https://images.unsplash.com/photo-1586023492125-27b2c045efd7?w=400&h=600&fit=crop'',
         ascii ''https://images.unsplash.com/photo-1560448204-e02f11c3d0e2?w=400&h=600&fit=crop'',
         ascii ''https://images.unsplash.com/photo-1556909114-f6e7ad7d3136?w=400&h=600&fit=crop'',
         ascii ''https://images.unsplash.com/photo-1484154218962-a197022b5858?w=400&h=600&fit=crop'',
         ascii ''https://images.unsplash.com/photo-1493809842364-78817add7ffb?w=400&h=600&fit=crop'']),
       (ascii ''animal_cat'',
        [ascii ''https://images.unsplash.com/photo-1514888286974-6c03e2ca1dba?w=400&h=600&fit=crop'',
         ascii ''https://images.unsplash.com/photo-1533738363-b7f9aef128ce?w=400&h=600&fit=crop'',
         ascii ''https://images.unsplash.com/photo-1574158622682-e40e69881006?w=400&h=600&fit=crop'',
         ascii ''https://images.unsplash.com/photo-1592194996308-7b43878e84a6?w=400&h=600&fit=crop'',
         ascii ''https://images.unsplash.com/photo-1518791841217-8f162f1e1131?w=400&h=600&fit=crop'']),
       (ascii ''animal_dog'',
        [ascii ''https://images.unsplash.com/photo-1552053831-71594a27632d?w=400&h=600&fit=crop'',
         ascii ''https://images.unsplash.com/photo-1587300003388-59208cc962cb?w=400&h=600&fit=crop'',
         ascii ''https://images.unsplash.com/photo-1518717758536-85ae29035b6d?w=400&h=600&fit=crop'',
         ascii ''https://images.unsplash.com/photo-1583337130417-3346a1be7dee?w=400&h=600&fit=crop'',
         ascii ''https://images.unsplash.com/photo-1561037404-61cd46aa615b?w=400&h=600&fit=crop'']),
       (ascii ''animal_bird'',
        [ascii ''https://images.unsplash.com/photo-1444464666168-49d633b86797?w=400&h=600&fit=crop'',
         ascii ''https://images.unsplash.com/photo-1520637836862-4d197d17c55a?w=400&h=600&fit=crop'',
         ascii ''https://images.unsplash.com/photo-1506905925346-21bda4d32df4?w=400&h=600&fit=crop'',
         ascii ''https://images.unsplash.com/photo-1464822759844-d150baec0494?w=400&h=600&fit=crop'',
         ascii ''https://images.unsplash.com/photo-1519904981063-b0cf448d479e?w=400&h=600&fit=crop'']),
       (ascii ''animal_wild'',
        [ascii ''https://images.unsplash.com/photo-1474511320723-9a56873867b5?w=400&h=600&fit=crop'',
         ascii ''https://images.unsplash.com/photo-1558618666-fcd25c85cd64?w=400&h=600&fit=crop'',
         ascii ''https://images.unsplash.com/photo-1506905925346-21bda4d32df4?w=400&h=600&fit=crop'',
         ascii ''https://images.unsplash.com/photo-1464822759844-d150baec0494?w=400&h=600&fit=crop'',
         ascii ''https://images.unsplash.com/photo-1519904981063-b0cf448d479e?w=400&h=600&fit=crop''])]"

text \<open>The tables of \<open>_analyze_ai_description\<close>.\<close>

definition analysis_scene_keywords :: "(ustring \<times> ustring list) list" where
  "analysis_scene_keywords = [
       (ascii ''nature_mountain'',
        [[0x5C71], [0x5C71, 0x5CF0], [0x5C71, 0x8109], [0x9AD8, 0x5C71], [0x96EA, 0x5C71],
         [0x5CF0, 0x5CE6], [0x767B, 0x5C71], [0x5F92, 0x6B65]]),
       (ascii ''nature_ocean'',
        [[0x6D77], [0x6D77, 0x6D0B], [0x6D77, 0x6EE9], [0x6D77, 0x5CB8], [0x6CE2, 0x6D6A],
         [0x6D77, 0x6C34], [0x6C99, 0x6EE9], [0x6D77, 0x8FB9]]),
       (ascii ''nature_forest'',
        [[0x68EE, 0x6797], [0x6811, 0x6797], [0x6811, 0x6728], [0x7EFF, 0x8272],
         [0x53F6, 0x5B50], [0x690D, 0x7269], [0x81EA, 0x7136]]),
       (ascii ''nature_flower'',
        [[0x82B1], [0x82B1, 0x6735], [0x82B1, 0x56ED], [0x9C9C, 0x82B1], [0x82B1, 0x74E3],
         [0x76DB, 0x5F00], [0x7EFD, 0x653E]]),
       (ascii ''nature_sky'',
        [[0x5929, 0x7A7A], [0x4E91], [0x4E91, 0x6735], [0x84DD, 0x5929], [0x767D, 0x4E91],
         [0x6674, 0x7A7A], [0x5929, 0x9645]]),
       (ascii ''city_modern'',
        [[0x57CE, 0x5E02], [0x5EFA, 0x7B51], [0x9AD8, 0x697C], [0x73B0, 0x4EE3],
         [0x90FD, 0x5E02], [0x6469, 0x5929, 0x5927, 0x697C]]),
       (ascii ''city_street'',
        [[0x8857, 0x9053], [0x9A6C, 0x8DEF], [0x8857, 0x666F], [0x5546, 0x5E97],
         [0x884C, 0x4EBA], [0x8F66, 0x8F86]]),
       (ascii ''lifestyle_food'',
        [[0x98DF, 0x7269], [0x7F8E, 0x98DF], [0x9910, 0x5385], [0x83DC, 0x54C1],
         [0x6599, 0x7406], [0x70F9, 0x996A]]),
       (ascii ''lifestyle_travel'',
        [[0x65C5, 0x884C], [0x65C5, 0x6E38], [0x666F, 0x70B9], [0x5EA6, 0x5047],
         [0x63A2, 0x7D22], [0x5192, 0x9669]]),
       (ascii ''lifestyle_fashion'',
        [[0x65F6, 0x5C1A], [0x670D, 0x88C5], [0x7A7F, 0x642D], [0x98CE, 0x683C],
         [0x6F6E, 0x6D41], [0x642D, 0x914D]]),
       (ascii ''animal_pet'',
        [[0x5BA0, 0x7269], [0x732B], [0x72D7], [0x52A8, 0x7269], [0x53EF, 0x7231],
         [0x6BDB, 0x8338, 0x8338]]),
       (ascii ''animal_bird'',
        [[0x9E1F], [0x5C0F, 0x9E1F], [0x98DE, 0x9E1F], [0x7FC5, 0x8180], [0x98DE, 0x7FD4],
         [0x7FBD, 0x6BDB]]),
       (ascii ''animal_wild'',
        [[0x91CE, 0x751F, 0x52A8, 0x7269], [0x5154, 0x5B50], [0x677E, 0x9F20], [0x8774, 0x8776],
         [0x6606, 0x866B], [0x91CE, 0x751F]])]"

definition analysis_emotion_keywords :: "(ustring \<times> ustring list) list" where
  "analysis_emotion_keywords = [
       ([0x6E29, 0x6696],
        [[0x6E29, 0x6696], [0x6E29, 0x99A8], [0x8212, 0x9002], [0x67D4, 0x548C], [0x4EB2, 0x5207]]),
       ([0x5B81, 0x9759],
        [[0x5B81, 0x9759], [0x5B89, 0x9759], [0x5E73, 0x9759], [0x7965, 0x548C], [0x9759, 0x8C27]]),
       ([0x6D3B, 0x529B],
        [[0x6D3B, 0x529B], [0x751F, 0x673A], [0x5145, 0x6EE1], [0x6D3B, 0x8DC3], [0x52A8, 0x611F]]),
       ([0x6D6A, 0x6F2B],
        [[0x6D6A, 0x6F2B], [0x552F, 0x7F8E], [0x68A6, 0x5E7B], [0x7F8E, 0x4E3D], [0x4F18, 0x96C5]]),
       ([0x795E, 0x79D8],
        [[0x795E, 0x79D8], [0x6DF1, 0x9083], [0x6726, 0x80E7], [0x5E7D, 0x6DF1], [0x9690, 0x79D8]]),
       ([0x58EE, 0x89C2],
        [[0x58EE, 0x89C2], [0x96C4, 0x4F1F], [0x58EE, 0x4E3D], [0x9707, 0x64BC], [0x5B8F, 0x4F1F]])]"

definition element_keywords :: "ustring list" where
  "element_keywords =
    [[0x989C, 0x8272], [0x5149, 0x7EBF], [0x9634, 0x5F71], [0x7EB9, 0x7406], [0x5F62, 0x72B6],
      [0x7EBF, 0x6761], [0x6784, 0x56FE], [0x900F, 0x89C6], [0x5BF9, 0x6BD4], [0x660E, 0x6697]]"

subsection \<open>Analysis of the description\<close>

text \<open>
  \<open>_analyze_ai_description\<close>: the first scene type and the first emotion, in the order of the
  tables, one of whose keywords occurs in the text, and the element keywords that occur.
\<close>

record analysis =
  an_scene_type :: ustring
  an_dominant_emotion :: ustring
  an_visual_elements :: "ustring list"

definition analyze_ai_description :: "ustring \<Rightarrow> analysis" where
  "analyze_ai_description prompt_text =
     \<lparr> an_scene_type =
         (case List.find (\<lambda>(scene_type, kws). any_in kws prompt_text) analysis_scene_keywords of
            Some (scene_type, _) \<Rightarrow> scene_type
          | None \<Rightarrow> (ascii ''general'')),
       an_dominant_emotion =
         (case List.find (\<lambda>(emotion, kws). any_in kws prompt_text) analysis_emotion_keywords of
            Some (emotion, _) \<Rightarrow> emotion
          | None \<Rightarrow> (ascii ''neutral'')),
       an_visual_elements = filter (\<lambda>element. str_in element prompt_text) element_keywords \<rparr>"

text \<open>\<open>_get_emotion_context\<close>.\<close>

definition get_emotion_context :: "ustring \<Rightarrow> ustring \<Rightarrow> ustring" where
  "get_emotion_context prompt_text emotion =
     (case first_index (\<lambda>word. str_in emotion word) (py_split prompt_text) of
        Some i \<Rightarrow> context_of (py_split prompt_text) i
      | None \<Rightarrow> [])"

text \<open>\<open>_get_intelligent_default_theme\<close>.\<close>

definition get_intelligent_default_theme :: "ustring \<Rightarrow> ustring" where
  "get_intelligent_default_theme prompt_text =
     (if any_in [[0x81EA, 0x7136], [0x98CE, 0x666F], [0x6237, 0x5916], [0x5929, 0x7A7A], [0x4E91]] prompt_text then (ascii ''nature_sky'')
      else if any_in [[0x57CE, 0x5E02], [0x5EFA, 0x7B51], [0x73B0, 0x4EE3], [0x90FD, 0x5E02]] prompt_text then (ascii ''city_modern'')
      else if any_in [[0x52A8, 0x7269], [0x5BA0, 0x7269], [0x53EF, 0x7231]] prompt_text then (ascii ''animal_pet'')
      else if any_in [[0x98DF, 0x7269], [0x7F8E, 0x98DF], [0x6599, 0x7406]] prompt_text then (ascii ''lifestyle_food'')
      else (ascii ''nature_sky''))"

subsection \<open>The four scores of a theme\<close>

text \<open>
  The keyword score of a theme (\<open>keyword_score\<close> in the source): 3 for a keyword that occurs, 1 more when its first occurrence starts in
  the first 30 percent of the text, and 1 more for each further occurrence, at most 2. The test
  \<open>position < len(prompt_text) * 0.3\<close> compares an integer with a floating point product; it
  holds exactly when \<open>10 * position < 3 * len(prompt_text)\<close>.
\<close>

definition theme_keyword_score :: "ustring \<Rightarrow> ustring list \<Rightarrow> nat" where
  "theme_keyword_score prompt_text kws =
     sum_list (map (\<lambda>keyword.
        if str_in keyword prompt_text
        then 3 + (if 10 * str_find keyword prompt_text < 3 * int (length prompt_text) then 1 else 0)
               + min (str_count keyword prompt_text - 1) 2
        else 0) kws)"

text \<open>
  The semantic score: 2 for a semantic word that occurs, and 1 more when one of the first five
  keywords of the theme occurs around the first word of the text that holds it.
\<close>

definition semantic_score :: "ustring \<Rightarrow> theme_data \<Rightarrow> nat" where
  "semantic_score prompt_text theme_data =
     sum_list (map (\<lambda>semantic_word.
        if str_in semantic_word prompt_text
        then 2 + (case first_index (\<lambda>word. str_in semantic_word word) (py_split prompt_text) of
                    None \<Rightarrow> 0
                  | Some word_index \<Rightarrow>
                      if list_ex (\<lambda>related_word.
                                    str_in related_word
                                      (context_of (py_split prompt_text) word_index))
                           (take 5 (theme_keywords theme_data))
                      then 1 else 0)
        else 0) (theme_semantic theme_data))"

text \<open>The emotion score: 2 for an emotion that occurs, and 1 more when it has a context.\<close>

definition emotion_score :: "ustring \<Rightarrow> ustring list \<Rightarrow> nat" where
  "emotion_score prompt_text emos =
     sum_list (map (\<lambda>emotion.
        if str_in emotion prompt_text
        then 2 + (if get_emotion_context prompt_text emotion \<noteq> [] then 1 else 0)
        else 0) emos)"

text \<open>
  The analysis score: 3 when a part of the scene type occurs in the name of the theme, 2 when
  the dominant emotion is an emotion of the theme, 1 for every visual element that is a keyword
  or a semantic word of the theme.
\<close>

definition ai_analysis_score :: "ustring \<Rightarrow> theme_data \<Rightarrow> analysis \<Rightarrow> nat" where
  "ai_analysis_score theme theme_data an =
     (if list_ex (\<lambda>scene_word. str_in scene_word theme) (split_chars [0x5F] (an_scene_type an))
      then 3 else 0)
     + (if List.member (theme_emotions theme_data) (an_dominant_emotion an) then 2 else 0)
     + length (filter (\<lambda>element. List.member (theme_keywords theme_data) element
                                 \<or> List.member (theme_semantic theme_data) element)
                 (an_visual_elements an))"

subsection \<open>Selection of the theme and of the image\<close>

text \<open>
  The dictionary \<open>theme_scores\<close> in the order of its keys. The total score
  \<open>keyword_score * 0.4 + semantic_score * 0.3 + emotion_score * 0.2 + ai_analysis_score * 0.1\<close>
  is a floating point number; the weighting is the parameter \<open>weighted\<close>, into any linear
  order.
\<close>

definition theme_scores ::
  "(nat \<Rightarrow> nat \<Rightarrow> nat \<Rightarrow> nat \<Rightarrow> 'score) \<Rightarrow> ustring \<Rightarrow> analysis \<Rightarrow> (ustring \<times> 'score) list" where
  "theme_scores weighted prompt_text an =
     map (\<lambda>(theme, theme_data).
            (theme, weighted (theme_keyword_score prompt_text (theme_keywords theme_data))
                      (semantic_score prompt_text theme_data)
                      (emotion_score prompt_text (theme_emotions theme_data))
                      (ai_analysis_score theme theme_data an)))
       enhanced_theme_mapping"

text \<open>\<open>max(items, key=lambda x: x[1])\<close>: the first item with the greatest score.\<close>

fun max_by_score :: "ustring \<times> 'score::linorder \<Rightarrow> (ustring \<times> 'score) list \<Rightarrow> ustring \<times> 'score" where
  "max_by_score best [] = best"
| "max_by_score best (x # xs) = max_by_score (if snd x > snd best then x else best) xs"

text \<open>
  The selected theme: \<open>if theme_scores:\<close> takes the best item of a dictionary that is not
  empty, else the default rules decide.
\<close>

definition selected_theme ::
  "(nat \<Rightarrow> nat \<Rightarrow> nat \<Rightarrow> nat \<Rightarrow> 'score::linorder) \<Rightarrow> ustring \<Rightarrow> ustring" where
  "selected_theme weighted prompt_text =
     (case theme_scores weighted prompt_text (analyze_ai_description prompt_text) of
        first_item # items \<Rightarrow> fst (max_by_score first_item items)
      | [] \<Rightarrow> get_intelligent_default_theme prompt_text)"

text \<open>The images of the selected theme, those of \<open>nature_sky\<close> for a theme without images.\<close>

definition theme_images :: "ustring \<Rightarrow> ustring list" where
  "theme_images theme =
     (case map_of xiaohongshu_images theme of
        Some imgs \<Rightarrow> imgs
      | None \<Rightarrow> (case map_of xiaohongshu_images (ascii ''nature_sky'') of
                   Some imgs \<Rightarrow> imgs
                 | None \<Rightarrow> []))"

text \<open>
  \<open>_generate_demo_image\<close>. \<open>str.lower\<close> is the parameter \<open>lower\<close>. The first two and the last
  two \<open>print\<close> calls are modelled; the three in between show the analysis, the scores and the
  selected theme, which are made of words of the tables, names of themes and numbers, and
  succeed.
\<close>

definition generate_demo_image ::
  "(ustring \<Rightarrow> ustring) \<Rightarrow> (nat \<Rightarrow> nat \<Rightarrow> nat \<Rightarrow> nat \<Rightarrow> 'score::linorder) \<Rightarrow> ustring \<Rightarrow> int
     \<Rightarrow> py_exception + ustring" where
  "generate_demo_image lower weighted prompt seg_id =
     (case py_print ([0x0A] @ [0x3D, 0x3D, 0x3D, 0x20, 0x667A, 0x80FD, 0x56FE, 0x7247, 0x5339, 0x914D, 0x5206, 0x6790, 0x20, 0x6BB5, 0x843D] @ str_int seg_id @ (ascii '' ==='')) of
        Inl e \<Rightarrow> Inl e
      | Inr _ \<Rightarrow>
     (case py_print ([0x41, 0x49, 0x751F, 0x6210, 0x7684, 0x56FE, 0x7247, 0x63D0, 0x793A, 0x8BCD, 0x3A, 0x20] @ prompt) of
        Inl e \<Rightarrow> Inl e
      | Inr _ \<Rightarrow>
          (let imgs = theme_images (selected_theme weighted (lower prompt))
           in case encode_utf8 (prompt @ [0x5F] @ str_int seg_id) of
                Inl e \<Rightarrow> Inl e
              | Inr hash_input \<Rightarrow>
                  if imgs = [] then Inl (OtherException (ascii ''ZeroDivisionError''))
                  else (let hash_value = int_of_hex (hexdigest (md5_digest hash_input));
                            image_index = hash_value mod int (length imgs);
                            selected_image = imgs ! nat image_index
                        in case py_print ([0x9009, 0x62E9, 0x56FE, 0x7247, 0x3A, 0x20] @ selected_image @ [0x20, 0x28, 0x7D22, 0x5F15, 0x3A, 0x20]
                                           @ str_int image_index @ ascii '')'') of
                             Inl e \<Rightarrow> Inl e
                           | Inr _ \<Rightarrow>
                               (case py_print [0x3D, 0x3D, 0x3D, 0x20, 0x56FE, 0x7247, 0x5339, 0x914D, 0x5B8C, 0x6210, 0x20, 0x3D, 0x3D, 0x3D] of
                                  Inl e \<Rightarrow> Inl e
                                | Inr _ \<Rightarrow> Inr selected_image)))))"

section \<open>String and segmentation lemmas\<close>

lemma filter_dropWhile_neg: "filter (\<lambda>c. \<not> P c) (dropWhile P s) = filter (\<lambda>c. \<not> P c) s"
  by (induction s) auto

lemma nonws_strip: "nonws (strip s) = nonws s"
  by (simp add: nonws_def strip_def filter_dropWhile_neg flip: rev_filter)

lemma nonws_append: "nonws (a @ b) = nonws a @ nonws b"
  by (simp add: nonws_def)

lemma nonws_nn: "nonws nn = []"
  by (simp add: nonws_def nn_def is_space_def)

lemma strip_eq_Nil_iff: "strip s = [] \<longleftrightarrow> nonws s = []"
proof
  assume "strip s = []" then show "nonws s = []" using nonws_strip[of s] by (simp add: nonws_def)
next
  assume "nonws s = []"
  then have "\<forall>c \<in> set s. is_space c" by (simp add: nonws_def filter_empty_conv)
  then have "dropWhile is_space s = []" by (simp only: dropWhile_eq_Nil_conv)
  then show "strip s = []" by (simp only: strip_def rev.simps dropWhile.simps)
qed

lemma strip_ends:
  "strip s = [] \<or> (\<not> is_space (hd (strip s)) \<and> \<not> is_space (last (strip s)))"
proof (cases "strip s = []")
  case True then show ?thesis by simp
next
  case False
  let ?d = "dropWhile is_space s"
  let ?e = "dropWhile is_space (rev ?d)"
  from False have e: "?e \<noteq> []" by (simp add: strip_def)
  then have "\<not> is_space (hd ?e)" by (rule hd_dropWhile)
  then have l: "\<not> is_space (last (strip s))" using e by (simp add: strip_def last_rev)
  have d: "?d \<noteq> []"
  proof
    assume "?d = []"
    then have "?e = []" by (simp only: rev.simps dropWhile.simps)
    with e show False by (simp only: not_True_eq_False)
  qed
  then have hd: "\<not> is_space (hd ?d)" by (rule hd_dropWhile)
  have "rev (takeWhile is_space (rev ?d) @ ?e) = rev (rev ?d)"
    by (simp only: takeWhile_dropWhile_id)
  then have "?d = rev ?e @ rev (takeWhile is_space (rev ?d))"
    by (simp only: rev_rev_ident rev_append)
  then have "hd ?d = hd (rev ?e @ rev (takeWhile is_space (rev ?d)))"
    by (rule arg_cong)
  also have "\<dots> = hd (rev ?e)" using e by (simp only: hd_append2 rev_is_Nil_conv not_False_eq_True)
  finally have "hd (rev ?e) = hd ?d" by simp
  with hd l show ?thesis by (simp add: strip_def)
qed

lemma strip_id: "s \<noteq> [] \<Longrightarrow> \<not> is_space (hd s) \<Longrightarrow> \<not> is_space (last s) \<Longrightarrow> strip s = s"
proof -
  assume a: "s \<noteq> []" "\<not> is_space (hd s)" "\<not> is_space (last s)"
  then have "dropWhile is_space s = s" by (cases s) auto
  moreover have "dropWhile is_space (rev s) = rev s" using a by (cases "rev s") (auto simp: last_rev hd_rev)
  ultimately show ?thesis by (simp add: strip_def)
qed

lemma strip_idem: "strip (strip s) = strip s"
proof (cases "strip s = []")
  case True
  have "strip [] = []" by (simp add: strip_def)
  with True show ?thesis by (simp only:)
next
  case False
  with strip_ends[of s] have "\<not> is_space (hd (strip s))" "\<not> is_space (last (strip s))" by blast+
  with False show ?thesis by (rule strip_id)
qed

lemma concat_cons_first: "concat (cons_first c ps) = c # concat ps"
  by (cases ps) auto

lemma is_space_lf: "is_space 0x0A"
  by (simp add: is_space_def)

lemma nonws_Cons: "nonws (c # s) = (if is_space c then nonws s else c # nonws s)"
  by (simp add: nonws_def)

lemma nonws_Nil: "nonws [] = []"
  by (simp add: nonws_def)

lemma concat_split_nn_nonws: "nonws (concat (split_nn s)) = nonws s"
  by (induction s rule: split_nn.induct)
     (simp_all add: concat_cons_first nonws_Cons nonws_Nil is_space_lf)

lemma split_nn_single: "\<not> str_in nn s \<Longrightarrow> split_nn s = [s]"
  by (induction s rule: split_nn.induct) (auto simp: nn_def)

lemma content_append_if_nonblank:
  "nonws (concat (append_if_nonblank segs cur)) = nonws (concat segs) @ nonws cur"
proof (cases "strip cur = []")
  case True
  then have "nonws cur = []" by (simp only: strip_eq_Nil_iff)
  with True show ?thesis by (simp add: append_if_nonblank_def)
next
  case False
  then show ?thesis by (simp add: append_if_nonblank_def nonws_append nonws_strip)
qed

lemma nonws_join_para: "nonws (join_para cur p) = nonws cur @ nonws p"
  by (simp add: join_para_def nonws_append nonws_nn nonws_Nil)

lemma content_scene_marker_loop:
  "seg_content (scene_marker_loop markers para st) = seg_content st"
proof (induction markers)
  case Nil
  show ?case by simp
next
  case (Cons m ms)
  obtain segs cur where st: "st = (segs, cur)" by (cases st)
  show ?case using Cons
    by (simp add: st seg_content_def nonws_append nonws_strip nonws_Nil)
qed

lemma content_narrative_step:
  "seg_content (narrative_step st p) = seg_content st @ nonws p"
proof -
  obtain segs cur where st: "st = (segs, cur)" by (cases st)
  show ?thesis
    by (simp add: st narrative_step_def content_scene_marker_loop)
       (simp add: seg_content_def content_append_if_nonblank nonws_join_para)
qed

lemma content_marker_step:
  "seg_content (marker_step markers max_len st p) = seg_content st @ nonws p"
proof -
  obtain segs cur where st: "st = (segs, cur)" by (cases st)
  show ?thesis
    by (simp add: st marker_step_def seg_content_def content_append_if_nonblank
        nonws_join_para nonws_append nonws_strip nonws_Nil)
qed

lemma content_foldl:
  assumes "\<And>st p. seg_content (step st p) = seg_content st @ nonws p"
  shows "seg_content (foldl step st ps) = seg_content st @ nonws (concat ps)"
  by (induction ps arbitrary: st) (simp_all add: assms nonws_append nonws_Nil)

lemma content_run_paragraphs:
  assumes "\<And>st p. seg_content (step st p) = seg_content st @ nonws p"
  shows "nonws (concat (run_paragraphs step text)) = nonws text"
proof -
  obtain segs cur where f: "foldl step ([], []) (split_nn text) = (segs, cur)"
    by (cases "foldl step ([], []) (split_nn text)")
  have "seg_content (segs, cur) = seg_content ([], []) @ nonws (concat (split_nn text))"
    using content_foldl[of step "([], [])" "split_nn text", OF assms] f by simp
  then have "nonws (concat segs) @ nonws cur = nonws text"
    by (simp add: seg_content_def nonws_Nil concat_split_nn_nonws)
  then show ?thesis
    by (simp add: run_paragraphs_def f content_append_if_nonblank)
qed

lemma content_primary_segments:
  "nonws (concat (primary_segments text text_type)) = nonws text"
  by (simp add: primary_segments_def content_run_paragraphs content_narrative_step
      content_marker_step)

lemma trimmed_strip: "trimmed (strip s)"
  by (simp add: trimmed_def strip_idem)

lemma trimmed_append_if_nonblank:
  "list_all trimmed segs \<Longrightarrow> list_all trimmed (append_if_nonblank segs cur)"
  by (simp add: append_if_nonblank_def trimmed_strip)

lemma trimmed_scene_marker_loop:
  "list_all trimmed (fst st) \<Longrightarrow> list_all trimmed (fst (scene_marker_loop markers para st))"
proof (induction markers)
  case Nil
  then show ?case by simp
next
  case (Cons m ms)
  obtain segs cur where st: "st = (segs, cur)" by (cases st)
  show ?case using Cons by (simp add: st trimmed_strip)
qed

lemma trimmed_narrative_step:
  "list_all trimmed (fst st) \<Longrightarrow> list_all trimmed (fst (narrative_step st p))"
proof -
  assume a: "list_all trimmed (fst st)"
  obtain segs cur where st: "st = (segs, cur)" by (cases st)
  show ?thesis using a
    by (simp add: st narrative_step_def trimmed_scene_marker_loop trimmed_append_if_nonblank)
qed

lemma trimmed_marker_step:
  "list_all trimmed (fst st) \<Longrightarrow> list_all trimmed (fst (marker_step markers max_len st p))"
proof -
  assume a: "list_all trimmed (fst st)"
  obtain segs cur where st: "st = (segs, cur)" by (cases st)
  show ?thesis using a
    by (simp add: st marker_step_def trimmed_append_if_nonblank trimmed_strip)
qed

lemma invariant_foldl:
  assumes "\<And>st p. P (fst st) \<Longrightarrow> P (fst (step st p))" and "P (fst st)"
  shows "P (fst (foldl step st ps))"
  using assms(2) by (induction ps arbitrary: st) (simp_all add: assms(1))

lemma trimmed_run_paragraphs:
  assumes "\<And>st p. list_all trimmed (fst st) \<Longrightarrow> list_all trimmed (fst (step st p))"
  shows "list_all trimmed (run_paragraphs step text)"
proof -
  have "list_all trimmed (fst (foldl step ([], []) (split_nn text)))"
    by (rule invariant_foldl[where P = "list_all trimmed"]) (simp_all add: assms)
  then show ?thesis
    by (auto simp: run_paragraphs_def trimmed_append_if_nonblank split: prod.splits)
qed

lemma trimmed_primary_segments: "list_all trimmed (primary_segments text text_type)"
  by (simp add: primary_segments_def trimmed_run_paragraphs trimmed_narrative_step
      trimmed_marker_step)

lemma take_add_append: "take (i + j) xs = take i xs @ take j (drop i xs)"
  by (simp add: take_add)

lemma concat_slices_upto:
  "concat (map (\<lambda>k. take q (drop (k * q) text)) [0 ..< m]) = take (m * q) text"
proof (induction m)
  case 0
  show ?case by simp
next
  case (Suc m)
  have "take (m * q + q) text = take (m * q) text @ take q (drop (m * q) text)"
    by (rule take_add_append)
  with Suc show ?case by (simp add: add.commute)
qed

lemma ceil_div_covers: "0 < q \<Longrightarrow> (n::nat) \<le> (n + q - 1) div q * q"
proof -
  assume q: "0 < q"
  have "(n + q - 1) div q * q + (n + q - 1) mod q = n + q - 1" by simp
  moreover have "(n + q - 1) mod q < q" using q by simp
  ultimately show ?thesis by linarith
qed

lemma concat_slices: "0 < q \<Longrightarrow> concat (slices q text) = text"
  using ceil_div_covers[of q "length text"] by (simp add: slices_def concat_slices_upto)

lemma nonws_concat_map_strip: "nonws (concat (map strip xs)) = nonws (concat xs)"
  by (induction xs) (simp_all add: nonws_append nonws_strip)

lemma concat_filter_nonempty: "concat (filter (\<lambda>s. s \<noteq> []) xs) = concat xs"
  by (induction xs) simp_all

lemma content_length_split: "length_split text = Inr r \<Longrightarrow> nonws (concat r) = nonws text"
  by (auto simp: length_split_def Let_def concat_filter_nonempty nonws_concat_map_strip
      concat_slices split: if_splits)

lemma trimmed_length_split: "length_split text = Inr r \<Longrightarrow> list_all trimmed r"
  by (auto simp: length_split_def Let_def list_all_iff trimmed_strip split: if_splits)

lemma nonempty_length_split: "length_split text = Inr r \<Longrightarrow> [] \<notin> set r"
  by (auto simp: length_split_def Let_def split: if_splits)

lemma length_split_returns:
  assumes "3 \<le> length text"
  shows "\<exists>r. length_split text = Inr r"
proof -
  let ?n = "length text"
  let ?t = "min 5 (max 3 (?n div 800))"
  have "?t \<le> ?n"
  proof (cases "?n div 800 \<le> 3")
    case True
    then show ?thesis using assms by simp
  next
    case False
    then have "4 * 800 \<le> ?n" by linarith
    then show ?thesis by simp
  qed
  moreover have "0 < ?t" by simp
  ultimately have "0 < ?n div ?t" by (simp add: div_greater_zero_iff)
  then show ?thesis by (simp add: length_split_def Let_def)
qed

lemma startswith_set: "startswith s p \<Longrightarrow> set p \<subseteq> set s"
  by (induction s p rule: startswith.induct) auto

lemma str_in_set: "str_in m p \<Longrightarrow> set m \<subseteq> set p"
proof (induction p)
  case Nil
  then show ?case by simp
next
  case (Cons c cs)
  then show ?case using startswith_set[of "c # cs" m] by auto
qed

lemma nonws_eq_Nil_iff: "nonws s = [] \<longleftrightarrow> (\<forall>c \<in> set s. is_space c)"
  by (simp add: nonws_def filter_empty_conv)

lemma scene_markers_nonspace: "\<forall>m \<in> set scene_markers. \<exists>c \<in> set m. \<not> is_space c"
  by (simp add: scene_markers_def is_space_def)

lemma scene_marker_in_nonblank:
  assumes "m \<in> set scene_markers" and "str_in m para"
  shows "strip (pre @ para) \<noteq> []"
proof -
  from assms(1) scene_markers_nonspace obtain c where c: "c \<in> set m" "\<not> is_space c" by blast
  with str_in_set[OF assms(2)] have "c \<in> set (pre @ para)" by auto
  with c(2) have "nonws (pre @ para) \<noteq> []" unfolding nonws_eq_Nil_iff by blast
  then show ?thesis by (simp only: strip_eq_Nil_iff not_False_eq_True)
qed

lemma nonempty_scene_marker_loop:
  assumes "[] \<notin> set segs" and "\<forall>m \<in> set markers. str_in m para \<longrightarrow> strip cur \<noteq> []"
  shows "[] \<notin> set (fst (scene_marker_loop markers para (segs, cur)))"
  using assms by (induction markers) auto

lemma nonempty_append_if_nonblank:
  "[] \<notin> set segs \<Longrightarrow> [] \<notin> set (append_if_nonblank segs cur)"
  by (auto simp: append_if_nonblank_def)

lemma nonempty_narrative_step:
  assumes "[] \<notin> set (fst st)"
  shows "[] \<notin> set (fst (narrative_step st p))"
proof -
  obtain segs cur where st: "st = (segs, cur)" by (cases st)
  have j: "\<exists>pre. join_para cur p = pre @ p" by (auto simp: join_para_def)
  have a: "\<forall>m \<in> set scene_markers. str_in m p \<longrightarrow> strip p \<noteq> []"
    using scene_marker_in_nonblank[of _ p "[]"] by simp
  have b: "\<forall>m \<in> set scene_markers. str_in m p \<longrightarrow> strip (join_para cur p) \<noteq> []"
    using scene_marker_in_nonblank[of _ p] j by metis
  show ?thesis using assms a b
    by (simp add: st narrative_step_def nonempty_scene_marker_loop nonempty_append_if_nonblank)
qed

lemma nonempty_run_narrative: "[] \<notin> set (run_paragraphs narrative_step text)"
proof -
  have "[] \<notin> set (fst (foldl narrative_step ([], []) (split_nn text)))"
    by (rule invariant_foldl[where P = "\<lambda>segs. [] \<notin> set segs"])
       (simp_all add: nonempty_narrative_step)
  moreover obtain segs cur where "foldl narrative_step ([], []) (split_nn text) = (segs, cur)"
    by (cases "foldl narrative_step ([], []) (split_nn text)")
  ultimately show ?thesis
    by (simp add: run_paragraphs_def nonempty_append_if_nonblank)
qed

lemma prefix_nonws_concat_take: "prefix (nonws (concat (take k xs))) (nonws (concat xs))"
proof -
  have "nonws (concat xs) = nonws (concat (take k xs)) @ nonws (concat (drop k xs))"
    by (metis append_take_drop_id concat_append nonws_append)
  then show ?thesis by (simp add: prefix_def)
qed

lemma before_cut_cases:
  "segments_before_cut text tt = length_split text \<or>
   (segments_before_cut text tt = Inr (primary_segments text tt) \<and>
    2 \<le> length (primary_segments text tt))"
  by (auto simp: segments_before_cut_def Let_def)

lemma before_cut_properties:
  assumes "3 \<le> length text" and "nonws text \<noteq> []"
  shows "\<exists>all. segments_before_cut text tt = Inr all \<and> all \<noteq> [] \<and> list_all trimmed all
      \<and> nonws (concat all) = nonws text \<and> (tt = narrative \<longrightarrow> [] \<notin> set all)"
proof -
  from before_cut_cases[of "text" tt] show ?thesis
  proof
    assume f: "segments_before_cut text tt = length_split text"
    from length_split_returns[OF assms(1)] obtain r where r: "length_split text = Inr r" ..
    have c: "nonws (concat r) = nonws text" using r by (rule content_length_split)
    with assms(2) have "r \<noteq> []" by (auto simp: nonws_Nil)
    with f r c trimmed_length_split[OF r] nonempty_length_split[OF r] show ?thesis by simp
  next
    assume p: "segments_before_cut text tt = Inr (primary_segments text tt) \<and>
      2 \<le> length (primary_segments text tt)"
    then have "primary_segments text tt \<noteq> []" by auto
    moreover have "tt = narrative \<longrightarrow> [] \<notin> set (primary_segments text tt)"
      by (simp add: primary_segments_def nonempty_run_narrative)
    ultimately show ?thesis
      using p trimmed_primary_segments[of "text" tt] content_primary_segments[of "text" tt] by simp
  qed
qed

section \<open>The steps of the segmentation loops\<close>

text \<open>The inner marker loop of the narrative branch emits at most once.\<close>

lemma scene_marker_loop_eq:
  "scene_marker_loop markers para (segs, cur) =
     (if any_in markers para \<and> length cur > 500 then (segs @ [strip cur], []) else (segs, cur))"
  by (induction markers) (auto simp: any_in_def)

lemma narrative_step_eq:
  "narrative_step (segs, cur) para =
     (if length cur + length para > 1200
      then (if any_in scene_markers para \<and> length para > 500
            then (append_if_nonblank segs cur @ [strip para], [])
            else (append_if_nonblank segs cur, para))
      else (if any_in scene_markers para \<and> length (join_para cur para) > 500
            then (segs @ [strip (join_para cur para)], [])
            else (segs, join_para cur para)))"
  by (simp add: narrative_step_def scene_marker_loop_eq)

lemma marker_step_eq:
  "marker_step markers max_len (segs, cur) para =
     (if any_in markers para \<and> length cur > 600
      then (if length para > max_len
            then (append_if_nonblank segs cur @ [strip para], [])
            else (append_if_nonblank segs cur, para))
      else (if length (join_para cur para) > max_len
            then (segs @ [strip (join_para cur para)], [])
            else (segs, join_para cur para)))"
  by (simp add: marker_step_def)

section \<open>Segmenting paragraphs of one repeated character\<close>

lemma split_nn_no_lf: "0x0A \<notin> set p \<Longrightarrow> split_nn p = [p]"
  by (induction p rule: split_nn.induct) auto

lemma split_nn_append_nn: "0x0A \<notin> set p \<Longrightarrow> split_nn (p @ nn @ rest) = p # split_nn rest"
proof (induction p)
  case Nil
  show ?case by (simp add: nn_def)
next
  case (Cons a p)
  then have a: "a \<noteq> 0x0A" and ih: "split_nn (p @ nn @ rest) = p # split_nn rest" by auto
  show ?case
  proof (cases p)
    case Nil
    then show ?thesis using a by (simp add: nn_def)
  next
    case (Cons b q)
    then show ?thesis using a ih by simp
  qed
qed

lemma scene_marker_loop_absent:
  "\<forall>m \<in> set markers. \<not> str_in m para \<Longrightarrow> scene_marker_loop markers para st = st"
proof (induction markers)
  case Nil
  show ?case by simp
next
  case (Cons m ms)
  obtain segs cur where st: "st = (segs, cur)" by (cases st)
  from Cons show ?case by (simp add: st)
qed

lemma str_in_replicate: "str_in m (replicate n c) \<Longrightarrow> set m \<subseteq> {c}"
  using str_in_set[of m "replicate n c"] by auto

lemma strip_replicate: "\<not> is_space c \<Longrightarrow> strip (replicate n c) = replicate n c"
proof (cases n)
  case 0
  then show ?thesis by (simp add: strip_def)
next
  case (Suc k)
  assume c: "\<not> is_space c"
  have "replicate n c \<noteq> []" "hd (replicate n c) = c" "last (replicate n c) = c"
    using Suc by (simp_all add: hd_replicate last_replicate)
  with c show ?thesis by (simp add: strip_id)
qed

lemma strip_replicate_space: "is_space c \<Longrightarrow> strip (replicate n c) = []"
  by (simp add: strip_eq_Nil_iff nonws_eq_Nil_iff)

lemma no_scene_marker_in_a: "\<forall>m \<in> set scene_markers. \<not> str_in m (replicate n 0x61)"
proof
  fix m assume m: "m \<in> set scene_markers"
  show "\<not> str_in m (replicate n 0x61)"
  proof
    assume "str_in m (replicate n 0x61)"
    then have "set m \<subseteq> {0x61}" by (rule str_in_replicate)
    with m show False by (auto simp: scene_markers_def)
  qed
qed

lemma narrative_step_first:
  assumes "length p = 700" and "\<forall>m \<in> set scene_markers. \<not> str_in m p"
  shows "narrative_step (segs, []) p = (segs, p)"
  using assms by (simp add: narrative_step_def join_para_def scene_marker_loop_absent)

lemma narrative_step_next:
  assumes "length p = 700" and "\<forall>m \<in> set scene_markers. \<not> str_in m p" and "strip p = p"
  shows "narrative_step (segs, p) p = (segs @ [p], p)"
proof -
  from assms(1) have "p \<noteq> []" by auto
  with assms show ?thesis
    by (simp add: narrative_step_def append_if_nonblank_def scene_marker_loop_absent)
qed

lemma split_eight:
  "0x0A \<notin> set p \<Longrightarrow>
   split_nn (p @ nn @ p @ nn @ p @ nn @ p @ nn @ p @ nn @ p @ nn @ p @ nn @ p)
     = [p, p, p, p, p, p, p, p]"
  by (simp add: split_nn_append_nn split_nn_no_lf)

lemma primary_eight:
  assumes "length p = 700" and "\<forall>m \<in> set scene_markers. \<not> str_in m p" and "strip p = p"
    and "0x0A \<notin> set p"
  shows "primary_segments (p @ nn @ p @ nn @ p @ nn @ p @ nn @ p @ nn @ p @ nn @ p @ nn @ p)
     narrative = [p, p, p, p, p, p, p, p]"
proof -
  from assms(1) have "p \<noteq> []" by auto
  then show ?thesis
    by (simp add: primary_segments_def run_paragraphs_def split_eight[OF assms(4)]
        narrative_step_first[OF assms(1,2)] narrative_step_next[OF assms(1,2,3)]
        append_if_nonblank_def assms(3))
qed

lemma nonws_replicate: "\<not> is_space c \<Longrightarrow> nonws (replicate n c) = replicate n c"
  by (induction n) (simp_all add: nonws_Nil nonws_Cons)

lemma no_dimension_marker_in_spaces:
  "\<not> any_in dimension_markers (replicate n 0x20)"
proof -
  have "\<forall>m \<in> set dimension_markers. \<not> str_in m (replicate n 0x20)"
  proof
    fix m assume m: "m \<in> set dimension_markers"
    show "\<not> str_in m (replicate n 0x20)"
    proof
      assume "str_in m (replicate n 0x20)"
      then have "set m \<subseteq> {0x20}" by (rule str_in_replicate)
      with m show False by (auto simp: dimension_markers_def)
    qed
  qed
  then show ?thesis by (simp add: any_in_def list_ex_iff)
qed

lemma tags_distinct:
  "narrative \<noteq> argumentative" "narrative \<noteq> descriptive" "argumentative \<noteq> descriptive"
  "argumentative \<noteq> narrative" "descriptive \<noteq> narrative" "descriptive \<noteq> argumentative"
  by (simp_all add: narrative_def argumentative_def descriptive_def ascii_def)

lemma segment_eight_a:
  "smart_segment_text (eight_paragraphs (replicate 700 0x61)) narrative
     = Inr [replicate 700 0x61, replicate 700 0x61, replicate 700 0x61, replicate 700 0x61,
            replicate 700 0x61, replicate 700 0x61]"
proof -
  have "primary_segments (eight_paragraphs (replicate 700 0x61)) narrative
     = [replicate 700 0x61, replicate 700 0x61, replicate 700 0x61, replicate 700 0x61,
        replicate 700 0x61, replicate 700 0x61, replicate 700 0x61, replicate 700 0x61]"
    unfolding eight_paragraphs_def
    by (rule primary_eight) (simp_all add: no_scene_marker_in_a strip_replicate is_space_def)
  then show ?thesis
    by (simp add: smart_segment_text_def segments_before_cut_def)
qed

lemma content_eight_a:
  "length (eight_paragraphs (replicate 700 (0x61::int))) = 5614
   \<and> length (nonws (eight_paragraphs (replicate 700 0x61))) = 5600
   \<and> length (nonws (concat [replicate 700 0x61, replicate 700 0x61, replicate 700 0x61,
        replicate 700 0x61, replicate 700 0x61, replicate 700 (0x61::int)])) = 4200"
proof -
  have "nonws (replicate 700 (0x61::int)) = replicate 700 0x61"
    by (rule nonws_replicate) (simp add: is_space_def)
  then have "length (nonws (eight_paragraphs (replicate 700 0x61))) = 5600"
    and "length (nonws (concat [replicate 700 0x61, replicate 700 0x61, replicate 700 0x61,
        replicate 700 0x61, replicate 700 0x61, replicate 700 (0x61::int)])) = 4200"
    by (simp_all add: eight_paragraphs_def nonws_append nonws_nn nonws_Nil)
  moreover have "length (eight_paragraphs (replicate 700 (0x61::int))) = 5614"
    by (simp add: eight_paragraphs_def nn_def)
  ultimately show ?thesis by simp
qed

lemma segment_blank_paragraph:
  "smart_segment_text (replicate 1201 0x20 @ nn @ [0x61, 0x62, 0x63]) descriptive
     = Inr [[], [0x61, 0x62, 0x63]]"
proof -
  have d: "descriptive \<noteq> narrative" "descriptive \<noteq> argumentative" by (rule tags_distinct)+
  have sp: "split_nn (replicate 1201 0x20 @ nn @ [0x61, 0x62, 0x63])
      = [replicate 1201 0x20, [0x61, 0x62, 0x63]]"
    by (simp add: split_nn_append_nn)
  have b: "strip (replicate 1201 0x20) = []"
    by (rule strip_replicate_space) (simp add: is_space_def)
  have s1: "marker_step dimension_markers 1200 ([], []) (replicate 1201 0x20) = ([[]], [])"
    by (simp add: marker_step_eq no_dimension_marker_in_spaces join_para_def b)
  have n: "\<not> any_in dimension_markers [0x61, 0x62, 0x63]"
    by (simp add: any_in_def dimension_markers_def)
  have s2: "marker_step dimension_markers 1200 ([[]], []) [0x61, 0x62, 0x63]
      = ([[]], [0x61, 0x62, 0x63])"
    by (simp add: marker_step_eq n join_para_def)
  have t: "strip [0x61, 0x62, 0x63] = [0x61, 0x62, 0x63]" by (simp add: strip_def is_space_def)
  have "primary_segments (replicate 1201 0x20 @ nn @ [0x61, 0x62, 0x63]) descriptive
      = [[], [0x61, 0x62, 0x63]]"
    by (simp add: primary_segments_def d run_paragraphs_def sp s1 s2 append_if_nonblank_def t)
  then show ?thesis
    by (simp add: smart_segment_text_def segments_before_cut_def)
qed

section \<open>C1: the chunks returned by the Segmenter\<close>

text \<open>
  C1 states that for every non-empty text of 1 to 10,000 characters and every type tag
  \<open>_smart_segment_text\<close> returns normally with 1 to 6 chunks, each non-empty after trimming,
  whose trimmed concatenation holds every non-whitespace character of the input exactly once
  and in order. The function does not do that for every such text: a text of one or two
  characters makes the step of \<open>range\<close> zero, so that \<open>range\<close> raises; a text of white space
  only yields no chunk; eight paragraphs of 700 characters give eight chunks, of which
  \<open>segments[:6]\<close> drops the last two; and in the descriptive (and argumentative) branch a
  paragraph of more than 1200 (1500) white-space characters is emitted as an empty chunk.
\<close>

theorem segmenter_chunks_counterexample:
  "smart_segment_text [0x61] narrative = Inl ValueError
   \<and> smart_segment_text [0x20, 0x20, 0x20] narrative = Inr []
   \<and> length (eight_paragraphs (replicate 700 (0x61::int))) = 5614
   \<and> smart_segment_text (eight_paragraphs (replicate 700 0x61)) narrative
     = Inr [replicate 700 0x61, replicate 700 0x61, replicate 700 0x61, replicate 700 0x61,
            replicate 700 0x61, replicate 700 0x61]
   \<and> length (nonws (eight_paragraphs (replicate 700 0x61))) = 5600
   \<and> length (nonws (concat [replicate 700 0x61, replicate 700 0x61, replicate 700 0x61,
        replicate 700 0x61, replicate 700 0x61, replicate 700 (0x61::int)])) = 4200
   \<and> smart_segment_text (replicate 1201 0x20 @ nn @ [0x61, 0x62, 0x63]) descriptive
     = Inr [[], [0x61, 0x62, 0x63]]"
proof -
  have 1: "smart_segment_text [0x61] narrative = Inl ValueError" by code_simp
  have 2: "smart_segment_text [0x20, 0x20, 0x20] narrative = Inr []" by code_simp
  from 1 2 segment_eight_a content_eight_a segment_blank_paragraph show ?thesis by blast
qed

text \<open>
  C1 as amended: for every text of at least 3 characters (so also for 3 to 10,000) that holds
  a non-whitespace character, and every type tag, the Segmenter returns normally with 1 to 6
  chunks, each of them trimmed; the non-whitespace characters of the chunks, in order, are a
  prefix of those of the input, and all of them when at most 6 chunks were produced before
  the final cut \<open>segments[:6]\<close>; and for the narrative tag no chunk is empty.
\<close>

theorem segmenter_chunks:
  assumes "3 \<le> length text" and "nonws text \<noteq> []"
  shows "\<exists>all chunks. segments_before_cut text tt = Inr all
      \<and> smart_segment_text text tt = Inr chunks
      \<and> 1 \<le> length chunks \<and> length chunks \<le> 6
      \<and> list_all trimmed chunks
      \<and> prefix (nonws (concat chunks)) (nonws text)
      \<and> (length all \<le> 6 \<longrightarrow> nonws (concat chunks) = nonws text)
      \<and> (tt = narrative \<longrightarrow> [] \<notin> set chunks)"
proof -
  from before_cut_properties[OF assms, of tt] obtain all where
    a: "segments_before_cut text tt = Inr all" "all \<noteq> []" "list_all trimmed all"
       "nonws (concat all) = nonws text" "tt = narrative \<longrightarrow> [] \<notin> set all"
    by blast
  let ?chunks = "take 6 all"
  have 1: "smart_segment_text text tt = Inr ?chunks" by (simp add: smart_segment_text_def a(1))
  have 2: "1 \<le> length ?chunks" using a(2) by (cases all) simp_all
  have 3: "list_all trimmed ?chunks" using a(3) by (auto simp: list_all_iff dest: in_set_takeD)
  have 4: "prefix (nonws (concat ?chunks)) (nonws text)"
    using prefix_nonws_concat_take[of 6 all] a(4) by simp
  have 5: "length all \<le> 6 \<longrightarrow> nonws (concat ?chunks) = nonws text" using a(4) by simp
  have 6: "tt = narrative \<longrightarrow> [] \<notin> set ?chunks" using a(5) by (auto dest: in_set_takeD)
  from a(1) 1 2 3 4 5 6 show ?thesis by auto
qed

theorem segmenter_chunks_witness:
  "3 \<le> length (ascii ''Hello world'') \<and> nonws (ascii ''Hello world'') \<noteq> []
   \<and> (\<exists>all chunks. segments_before_cut (ascii ''Hello world'') narrative = Inr all
      \<and> smart_segment_text (ascii ''Hello world'') narrative = Inr chunks
      \<and> 1 \<le> length chunks \<and> length chunks \<le> 6
      \<and> list_all trimmed chunks
      \<and> prefix (nonws (concat chunks)) (nonws (ascii ''Hello world''))
      \<and> (length all \<le> 6 \<longrightarrow> nonws (concat chunks) = nonws (ascii ''Hello world''))
      \<and> (narrative = narrative \<longrightarrow> [] \<notin> set chunks))"
proof -
  have 1: "3 \<le> length (ascii ''Hello world'')" by (simp add: ascii_def)
  have 2: "nonws (ascii ''Hello world'') \<noteq> []" by (simp add: ascii_def nonws_def is_space_def)
  from segmenter_chunks[OF 1 2, of narrative] 1 2 show ?thesis by blast
qed

lemma segmenter_hello_world:
  "smart_segment_text (ascii ''Hello world'') narrative
     = Inr [ascii ''Hel'', ascii ''lo'', ascii ''wor'', ascii ''ld'']"
  by code_simp

section \<open>C2: the default of the classifier and its tie-break\<close>

text \<open>
  C2 states that a text in which no keyword of the three lists occurs is classified as
  descriptive. With all three scores 0 the first test of \<open>_detect_text_type\<close>,
  \<open>narrative_score >= argumentative_score and narrative_score >= descriptive_score\<close>, holds,
  so the result is the narrative tag.
\<close>

theorem classifier_counterexample:
  "keyword_score narrative_keywords (ascii ''hello'') = 0
   \<and> keyword_score argumentative_keywords (ascii ''hello'') = 0
   \<and> keyword_score descriptive_keywords (ascii ''hello'') = 0
   \<and> detect_text_type (ascii ''hello'') = narrative
   \<and> detect_text_type (ascii ''hello'') \<noteq> descriptive"
  by code_simp

text \<open>
  C2 as amended: a text in which no keyword of the three lists occurs is classified as
  narrative; in general the narrative tag is returned exactly when the narrative score is at
  least the other two, otherwise the argumentative tag exactly when the argumentative score is
  at least the descriptive one, otherwise the descriptive tag.
\<close>

theorem classifier_tie_break:
  fixes s :: ustring
  defines "n \<equiv> keyword_score narrative_keywords s"
    and "a \<equiv> keyword_score argumentative_keywords s"
    and "d \<equiv> keyword_score descriptive_keywords s"
  shows "((\<forall>k \<in> set (narrative_keywords @ argumentative_keywords @ descriptive_keywords).
            \<not> str_in k s) \<longrightarrow> detect_text_type s = narrative)
    \<and> (detect_text_type s = narrative \<longleftrightarrow> a \<le> n \<and> d \<le> n)
    \<and> (detect_text_type s = argumentative \<longleftrightarrow> \<not> (a \<le> n \<and> d \<le> n) \<and> d \<le> a)
    \<and> (detect_text_type s = descriptive \<longleftrightarrow> \<not> (a \<le> n \<and> d \<le> n) \<and> a < d)"
proof -
  have z: "(\<forall>k \<in> set (narrative_keywords @ argumentative_keywords @ descriptive_keywords).
            \<not> str_in k s) \<longrightarrow> n = 0 \<and> a = 0 \<and> d = 0"
    by (simp add: n_def a_def d_def keyword_score_def)
  have r: "detect_text_type s =
      (if a \<le> n \<and> d \<le> n then narrative else if d \<le> a then argumentative else descriptive)"
    by (simp add: detect_text_type_def Let_def n_def a_def d_def)
  note ne = tags_distinct
  have c1: "(\<forall>k \<in> set (narrative_keywords @ argumentative_keywords @ descriptive_keywords).
            \<not> str_in k s) \<longrightarrow> detect_text_type s = narrative"
    using z by (simp add: r)
  have c2: "detect_text_type s = narrative \<longleftrightarrow> a \<le> n \<and> d \<le> n"
    by (simp add: r ne)
  have c3: "detect_text_type s = argumentative \<longleftrightarrow> \<not> (a \<le> n \<and> d \<le> n) \<and> d \<le> a"
    by (simp add: r ne)
  have c4: "detect_text_type s = descriptive \<longleftrightarrow> \<not> (a \<le> n \<and> d \<le> n) \<and> a < d"
    by (auto simp: r ne)
  from c1 c2 c3 c4 show ?thesis by (intro conjI)
qed

theorem classifier_tie_break_witness:
  "list_all (\<lambda>k. \<not> str_in k (ascii ''hello''))
     (narrative_keywords @ argumentative_keywords @ descriptive_keywords)
   \<and> detect_text_type (ascii ''hello'') = narrative"
proof -
  have h: "\<forall>k \<in> set (narrative_keywords @ argumentative_keywords @ descriptive_keywords).
            \<not> str_in k (ascii ''hello'')"
    by (simp add: narrative_keywords_def argumentative_keywords_def descriptive_keywords_def
        ascii_def)
  from classifier_tie_break[of "ascii ''hello''"] h
  have "detect_text_type (ascii ''hello'') = narrative" by blast
  with h show ?thesis by (simp add: list_all_iff)
qed

section \<open>C8: a single paragraph of 50 characters\<close>

text \<open>
  C8 states that a single narrative paragraph of 50 characters without marker keywords gives
  exactly one chunk, the trimmed input. The primary segmentation does give that one chunk, but
  \<open>len(segments) < 2\<close> then selects the split by length, which cuts the text into slices of
  \<open>50 // 3 = 16\<close> characters.
\<close>

theorem single_short_paragraph_counterexample:
  "length (replicate 50 (0x61::int)) = 50
   \<and> \<not> str_in nn (replicate 50 0x61)
   \<and> \<not> any_in scene_markers (replicate 50 0x61)
   \<and> strip (replicate 50 0x61) = replicate 50 0x61
   \<and> smart_segment_text (replicate 50 0x61) narrative
       = Inr [replicate 16 0x61, replicate 16 0x61, replicate 16 0x61, replicate 2 0x61]
   \<and> smart_segment_text (replicate 50 0x61) narrative \<noteq> Inr [replicate 50 0x61]"
  by code_simp

lemma slices_16_50:
  "length s = 50 \<Longrightarrow>
   slices 16 s = [take 16 s, take 16 (drop 16 s), take 16 (drop 32 s), drop 48 s]"
proof -
  have "[0 ..< 4] = [0, 1, 2, 3::nat]" by (simp add: upt_rec)
  moreover assume "length s = 50"
  ultimately show ?thesis by (simp add: slices_def)
qed

text \<open>
  C8 as amended: for a text of 50 characters that is a single paragraph (no blank line), with
  or without marker keywords, the primary segmentation of the narrative branch yields the
  trimmed input as its only chunk (none when the text is blank), and the Segmenter returns
  instead the non-empty trimmed slices \<open>text[0:16]\<close>, \<open>text[16:32]\<close>, \<open>text[32:48]\<close> and
  \<open>text[48:50]\<close>.
\<close>

theorem single_short_paragraph:
  assumes "length s = 50" and "\<not> str_in nn s"
  shows "primary_segments s narrative = (if strip s \<noteq> [] then [strip s] else [])
    \<and> smart_segment_text s narrative =
        Inr (filter (\<lambda>c. c \<noteq> [])
          (map strip [take 16 s, take 16 (drop 16 s), take 16 (drop 32 s), drop 48 s]))"
proof -
  have p: "primary_segments s narrative = (if strip s \<noteq> [] then [strip s] else [])"
    using assms
    by (simp add: primary_segments_def run_paragraphs_def split_nn_single narrative_step_eq
        join_para_def append_if_nonblank_def)
  have l: "length_split s = Inr (filter (\<lambda>c. c \<noteq> [])
          (map strip [take 16 s, take 16 (drop 16 s), take 16 (drop 32 s), drop 48 s]))"
    using assms(1) by (simp add: length_split_def Let_def slices_16_50)
  have "length (primary_segments s narrative) < 2" by (simp add: p)
  then have "segments_before_cut s narrative = length_split s"
    by (simp add: segments_before_cut_def Let_def)
  then show ?thesis using p l by (simp add: smart_segment_text_def)
qed

theorem single_short_paragraph_witness:
  "length (ascii ''The quick brown fox jumps over the lazy dog today!'') = 50
   \<and> \<not> str_in nn (ascii ''The quick brown fox jumps over the lazy dog today!'')
   \<and> primary_segments (ascii ''The quick brown fox jumps over the lazy dog today!'') narrative
       = [ascii ''The quick brown fox jumps over the lazy dog today!'']
   \<and> smart_segment_text (ascii ''The quick brown fox jumps over the lazy dog today!'') narrative
       = Inr [ascii ''The quick brown'', ascii ''fox jumps over t'', ascii ''he lazy dog toda'',
              ascii ''y!'']"
proof -
  let ?s = "ascii ''The quick brown fox jumps over the lazy dog today!''"
  have 1: "length ?s = 50" by (simp add: ascii_def)
  have 2: "\<not> str_in nn ?s" by code_simp
  have 3: "strip ?s = ?s" by code_simp
  have 4: "filter (\<lambda>c. c \<noteq> [])
          (map strip [take 16 ?s, take 16 (drop 16 ?s), take 16 (drop 32 ?s), drop 48 ?s])
       = [ascii ''The quick brown'', ascii ''fox jumps over t'', ascii ''he lazy dog toda'',
              ascii ''y!'']" by code_simp
  have 5: "?s \<noteq> []" by (simp add: ascii_def)
  from single_short_paragraph[OF 1 2] 1 2 3 4 5 show ?thesis by simp
qed

section \<open>C9: what a flush emits\<close>

text \<open>
  C9 states that whenever a flush is triggered the emitted chunk does not include the
  triggering paragraph, which becomes the start of the next chunk. The marker flush of the
  narrative branch and the length flush of the argumentative and descriptive branches run after
  the paragraph has been added to \<open>current_segment\<close>: the emitted chunk ends with the
  paragraph and the next chunk starts empty.
\<close>

lemma strip_a_run:
  "\<not> is_space z \<Longrightarrow> 0 < k \<Longrightarrow> strip (replicate k 0x61 @ m @ [z]) = replicate k 0x61 @ m @ [z]"
  by (rule strip_id) (simp_all add: hd_append is_space_def)

lemma startswith_append: "startswith (m @ s) m"
  by (induction m) simp_all

lemma str_in_append: "str_in m (m @ s)"
proof (cases "m @ s")
  case Nil
  then show ?thesis by simp
next
  case (Cons a list)
  have "startswith (m @ s) m" by (rule startswith_append)
  then show ?thesis unfolding Cons by simp
qed

lemma any_in_append: "m \<in> set ws \<Longrightarrow> any_in ws (m @ s)"
  unfolding any_in_def list_ex_iff using str_in_append by blast

theorem flush_counterexample:
  "any_in scene_markers [0x7A81, 0x7136] \<and> length (replicate 501 (0x61::int)) > 500
   \<and> narrative_step ([], replicate 501 0x61) [0x7A81, 0x7136]
       = ([replicate 501 0x61 @ [0x0A, 0x0A, 0x7A81, 0x7136]], [])
   \<and> narrative_step ([], replicate 501 0x61) [0x7A81, 0x7136]
       \<noteq> ([strip (replicate 501 0x61)], [0x7A81, 0x7136])
   \<and> marker_step argument_markers 1500 ([], replicate 1500 0x61) [0x61]
       = ([replicate 1500 0x61 @ [0x0A, 0x0A, 0x61]], [])
   \<and> marker_step argument_markers 1500 ([], replicate 1500 0x61) [0x61]
       \<noteq> ([strip (replicate 1500 0x61)], [0x61])"
proof -
  have m: "any_in scene_markers [0x7A81, 0x7136]" by (simp add: any_in_def scene_markers_def)
  have n: "\<not> any_in argument_markers [0x61]" by (simp add: any_in_def argument_markers_def)
  have s1: "strip (replicate 501 0x61 @ [0x0A, 0x0A, 0x7A81, 0x7136])
      = replicate 501 0x61 @ [0x0A, 0x0A, 0x7A81, 0x7136]"
    using strip_a_run[of "0x7136" 501 "[0x0A, 0x0A, 0x7A81]"] by (simp add: is_space_def)
  have s2: "strip (replicate 1500 0x61 @ [0x0A, 0x0A, 0x61])
      = replicate 1500 0x61 @ [0x0A, 0x0A, 0x61]"
    using strip_a_run[of "0x61" 1500 "[0x0A, 0x0A]"] by (simp add: is_space_def)
  have a: "narrative_step ([], replicate 501 0x61) [0x7A81, 0x7136]
       = ([replicate 501 0x61 @ [0x0A, 0x0A, 0x7A81, 0x7136]], [])"
    using m s1 by (simp add: narrative_step_eq join_para_def nn_def)
  have b: "marker_step argument_markers 1500 ([], replicate 1500 0x61) [0x61]
       = ([replicate 1500 0x61 @ [0x0A, 0x0A, 0x61]], [])"
    using n s2 by (simp add: marker_step_eq join_para_def nn_def)
  show ?thesis using m by (simp add: a b)
qed

text \<open>
  C9 as amended. Narrative branch: when the accumulated chunk and the incoming paragraph
  together exceed 1200 characters, the accumulated chunk is emitted (if not blank) without the
  paragraph, which starts the next chunk; but if the paragraph holds a marker and is itself
  longer than 500 characters, the paragraph is emitted right after it as a chunk of its own and
  the next chunk starts empty. Otherwise, when a marker occurs in the paragraph and the chunk
  including the paragraph exceeds 500 characters, the chunk is emitted with the paragraph and
  the next chunk starts empty. Argumentative and descriptive branch: when a marker occurs in
  the paragraph and the accumulated chunk exceeds 600 characters, the accumulated chunk is
  emitted (if not blank) without the paragraph, which starts the next chunk; but if the
  paragraph is itself longer than the maximum (1500 and 1200), it is emitted right after it as
  a chunk of its own and the next chunk starts empty. Otherwise, when the chunk including the
  paragraph exceeds the maximum, it is emitted with the paragraph and the next chunk starts
  empty. In every other case nothing is emitted and the paragraph is added to the chunk.
\<close>

theorem flush_behaviour:
  "(length cur + length para > 1200 \<and> \<not> (any_in scene_markers para \<and> length para > 500)
      \<longrightarrow> narrative_step (segs, cur) para = (append_if_nonblank segs cur, para))
   \<and> (length cur + length para > 1200 \<and> any_in scene_markers para \<and> length para > 500
      \<longrightarrow> narrative_step (segs, cur) para = (append_if_nonblank segs cur @ [strip para], []))
   \<and> (length cur + length para \<le> 1200 \<and> any_in scene_markers para
        \<and> length (join_para cur para) > 500
      \<longrightarrow> narrative_step (segs, cur) para = (segs @ [strip (join_para cur para)], []))
   \<and> (length cur + length para \<le> 1200
        \<and> \<not> (any_in scene_markers para \<and> length (join_para cur para) > 500)
      \<longrightarrow> narrative_step (segs, cur) para = (segs, join_para cur para))
   \<and> (any_in markers para \<and> length cur > 600 \<and> length para \<le> max_len
      \<longrightarrow> marker_step markers max_len (segs, cur) para = (append_if_nonblank segs cur, para))
   \<and> (any_in markers para \<and> length cur > 600 \<and> length para > max_len
      \<longrightarrow> marker_step markers max_len (segs, cur) para
            = (append_if_nonblank segs cur @ [strip para], []))
   \<and> (\<not> (any_in markers para \<and> length cur > 600) \<and> length (join_para cur para) > max_len
      \<longrightarrow> marker_step markers max_len (segs, cur) para
            = (segs @ [strip (join_para cur para)], []))
   \<and> (\<not> (any_in markers para \<and> length cur > 600) \<and> length (join_para cur para) \<le> max_len
      \<longrightarrow> marker_step markers max_len (segs, cur) para = (segs, join_para cur para))"
  by (simp add: narrative_step_eq marker_step_eq)

theorem flush_behaviour_witness:
  "(length (replicate 1200 (0x61::int)) + length [0x61::int] > 1200
      \<and> \<not> (any_in scene_markers [0x61] \<and> length [0x61::int] > 500)
      \<and> narrative_step ([], replicate 1200 0x61) [0x61]
          = (append_if_nonblank [] (replicate 1200 0x61), [0x61]))
   \<and> (length (replicate 700 (0x61::int)) + length ([0x7A81, 0x7136] @ replicate 501 (0x61::int))
          > 1200
      \<and> any_in scene_markers ([0x7A81, 0x7136] @ replicate 501 0x61)
      \<and> length ([0x7A81, 0x7136] @ replicate 501 (0x61::int)) > 500
      \<and> narrative_step ([], replicate 700 0x61) ([0x7A81, 0x7136] @ replicate 501 0x61)
          = (append_if_nonblank [] (replicate 700 0x61)
               @ [strip ([0x7A81, 0x7136] @ replicate 501 0x61)], []))
   \<and> (length (replicate 501 (0x61::int)) + length [0x7A81, 0x7136::int] \<le> 1200
      \<and> any_in scene_markers [0x7A81, 0x7136]
      \<and> length (join_para (replicate 501 0x61) [0x7A81, 0x7136]) > 500
      \<and> narrative_step ([], replicate 501 0x61) [0x7A81, 0x7136]
          = ([] @ [strip (join_para (replicate 501 0x61) [0x7A81, 0x7136])], []))
   \<and> (length [0x61::int] + length [0x7A81, 0x7136::int] \<le> 1200
      \<and> \<not> (any_in scene_markers [0x7A81, 0x7136]
            \<and> length (join_para [0x61] [0x7A81, 0x7136]) > 500)
      \<and> narrative_step ([], [0x61]) [0x7A81, 0x7136] = ([], join_para [0x61] [0x7A81, 0x7136]))
   \<and> (any_in argument_markers [0x9996, 0x5148] \<and> length (replicate 601 (0x61::int)) > 600
      \<and> length [0x9996, 0x5148::int] \<le> 1500
      \<and> marker_step argument_markers 1500 ([], replicate 601 0x61) [0x9996, 0x5148]
          = (append_if_nonblank [] (replicate 601 0x61), [0x9996, 0x5148]))
   \<and> (any_in argument_markers ([0x9996, 0x5148] @ replicate 1500 0x61)
      \<and> length (replicate 601 (0x61::int)) > 600
      \<and> length ([0x9996, 0x5148] @ replicate 1500 (0x61::int)) > 1500
      \<and> marker_step argument_markers 1500 ([], replicate 601 0x61)
            ([0x9996, 0x5148] @ replicate 1500 0x61)
          = (append_if_nonblank [] (replicate 601 0x61)
               @ [strip ([0x9996, 0x5148] @ replicate 1500 0x61)], []))
   \<and> (\<not> (any_in dimension_markers [0x61] \<and> length (replicate 1200 (0x61::int)) > 600)
      \<and> length (join_para (replicate 1200 0x61) [0x61]) > 1200
      \<and> marker_step dimension_markers 1200 ([], replicate 1200 0x61) [0x61]
          = ([] @ [strip (join_para (replicate 1200 0x61) [0x61])], []))
   \<and> (\<not> (any_in dimension_markers [0x61] \<and> length [0x61::int] > 600)
      \<and> length (join_para [0x61] [0x61]) \<le> 1200
      \<and> marker_step dimension_markers 1200 ([], [0x61]) [0x61] = ([], join_para [0x61] [0x61]))"
proof -
  have h1: "length (replicate 1200 (0x61::int)) + length [0x61::int] > 1200
      \<and> \<not> (any_in scene_markers [0x61] \<and> length [0x61::int] > 500)" by simp
  have h2: "length (replicate 700 (0x61::int)) + length ([0x7A81, 0x7136] @ replicate 501 (0x61::int))
          > 1200
      \<and> any_in scene_markers ([0x7A81, 0x7136] @ replicate 501 0x61)
      \<and> length ([0x7A81, 0x7136] @ replicate 501 (0x61::int)) > 500"
    using any_in_append[of "[0x7A81, 0x7136]" scene_markers "replicate 501 0x61"]
    by (simp add: scene_markers_def)
  have h3: "length (replicate 501 (0x61::int)) + length [0x7A81, 0x7136::int] \<le> 1200
      \<and> any_in scene_markers [0x7A81, 0x7136]
      \<and> length (join_para (replicate 501 0x61) [0x7A81, 0x7136]) > 500"
    by (simp add: any_in_def scene_markers_def join_para_def nn_def)
  have h4: "length [0x61::int] + length [0x7A81, 0x7136::int] \<le> 1200
      \<and> \<not> (any_in scene_markers [0x7A81, 0x7136]
            \<and> length (join_para [0x61] [0x7A81, 0x7136]) > 500)"
    by (simp add: join_para_def nn_def)
  have h5: "any_in argument_markers [0x9996, 0x5148] \<and> length (replicate 601 (0x61::int)) > 600
      \<and> length [0x9996, 0x5148::int] \<le> 1500"
    by (simp add: any_in_def argument_markers_def)
  have h6: "any_in argument_markers ([0x9996, 0x5148] @ replicate 1500 0x61)
      \<and> length (replicate 601 (0x61::int)) > 600
      \<and> length ([0x9996, 0x5148] @ replicate 1500 (0x61::int)) > 1500"
    using any_in_append[of "[0x9996, 0x5148]" argument_markers "replicate 1500 0x61"]
    by (simp add: argument_markers_def)
  have h7: "\<not> (any_in dimension_markers [0x61] \<and> length (replicate 1200 (0x61::int)) > 600)
      \<and> length (join_para (replicate 1200 0x61) [0x61]) > 1200"
    by (simp add: any_in_def dimension_markers_def join_para_def nn_def)
  have h8: "\<not> (any_in dimension_markers [0x61] \<and> length [0x61::int] > 600)
      \<and> length (join_para [0x61] [0x61]) \<le> 1200"
    by (simp add: join_para_def nn_def)
  from flush_behaviour[of "replicate 1200 0x61" "[0x61]" "[]"] h1
  have c1: "narrative_step ([], replicate 1200 0x61) [0x61]
          = (append_if_nonblank [] (replicate 1200 0x61), [0x61])" by blast
  from flush_behaviour[of "replicate 700 0x61" "[0x7A81, 0x7136] @ replicate 501 0x61" "[]"] h2
  have c2: "narrative_step ([], replicate 700 0x61) ([0x7A81, 0x7136] @ replicate 501 0x61)
          = (append_if_nonblank [] (replicate 700 0x61)
               @ [strip ([0x7A81, 0x7136] @ replicate 501 0x61)], [])" by blast
  from flush_behaviour[of "replicate 501 0x61" "[0x7A81, 0x7136]" "[]"] h3
  have c3: "narrative_step ([], replicate 501 0x61) [0x7A81, 0x7136]
          = ([] @ [strip (join_para (replicate 501 0x61) [0x7A81, 0x7136])], [])" by blast
  from flush_behaviour[of "[0x61]" "[0x7A81, 0x7136]" "[]"] h4
  have c4: "narrative_step ([], [0x61]) [0x7A81, 0x7136]
          = ([], join_para [0x61] [0x7A81, 0x7136])" by blast
  from flush_behaviour[of "replicate 601 0x61" "[0x9996, 0x5148]" "[]" argument_markers 1500] h5
  have c5: "marker_step argument_markers 1500 ([], replicate 601 0x61) [0x9996, 0x5148]
          = (append_if_nonblank [] (replicate 601 0x61), [0x9996, 0x5148])" by blast
  from flush_behaviour[of "replicate 601 0x61" "[0x9996, 0x5148] @ replicate 1500 0x61" "[]"
      argument_markers 1500] h6
  have c6: "marker_step argument_markers 1500 ([], replicate 601 0x61)
            ([0x9996, 0x5148] @ replicate 1500 0x61)
          = (append_if_nonblank [] (replicate 601 0x61)
               @ [strip ([0x9996, 0x5148] @ replicate 1500 0x61)], [])" by blast
  from flush_behaviour[of "replicate 1200 0x61" "[0x61]" "[]" dimension_markers 1200] h7
  have c7: "marker_step dimension_markers 1200 ([], replicate 1200 0x61) [0x61]
          = ([] @ [strip (join_para (replicate 1200 0x61) [0x61])], [])" by blast
  from flush_behaviour[of "[0x61]" "[0x61]" "[]" dimension_markers 1200] h8
  have c8: "marker_step dimension_markers 1200 ([], [0x61]) [0x61]
          = ([], join_para [0x61] [0x61])" by blast
  from h1 h2 h3 h4 h5 h6 h7 h8 c1 c2 c3 c4 c5 c6 c7 c8 show ?thesis by blast
qed

section \<open>The prompt composer: sections, assembly and printing\<close>

lemma length_prompt_of_sections:
  "length (prompt_of_sections s1 s2 s3 s4 s5)
     = 34 + length s1 + length s2 + length s3 + length s4 + length s5"
  by (simp add: prompt_of_sections_def label_style_def label_core_def label_visual_def
      label_layout_def label_detail_def semicolon_def)

lemma prompt_of_sections_eq:
  "prompt_of_sections s1 s2 s3 s4 s5
     = label_style @ s1 @ semicolon @ label_core @ s2 @ semicolon @ label_visual @ s3
       @ semicolon @ label_layout @ s4 @ semicolon @ label_detail @ s5"
  by (simp add: prompt_of_sections_def)

subsection \<open>Strings that can be printed\<close>

lemma encodable_iff: "encodable s \<longleftrightarrow> (\<forall>c \<in> set s. \<not> is_surrogate c)"
  by (simp add: encodable_def list_ex_iff)

lemma encodable_append: "encodable (a @ b) \<longleftrightarrow> encodable a \<and> encodable b"
  by (auto simp: encodable_iff)

lemma encodable_subset: "set a \<subseteq> set b \<Longrightarrow> encodable b \<Longrightarrow> encodable a"
  by (auto simp: encodable_iff)

lemma encodable_take: "encodable s \<Longrightarrow> encodable (take n s)"
  by (rule encodable_subset[OF set_take_subset])

lemma set_strip: "set (strip s) \<subseteq> set s"
proof -
  have "set (strip s) \<subseteq> set (rev (dropWhile is_space s))"
    unfolding strip_def set_rev by (auto dest: set_dropWhileD)
  also have "\<dots> \<subseteq> set s" by (auto dest: set_dropWhileD)
  finally show ?thesis .
qed

lemma length_strip: "length (strip s) \<le> length s"
proof -
  have "length (strip s) \<le> length (rev (dropWhile is_space s))"
    unfolding strip_def using length_dropWhile_le[of is_space "rev (dropWhile is_space s)"]
    by simp
  also have "\<dots> \<le> length s" using length_dropWhile_le[of is_space s] by simp
  finally show ?thesis .
qed

lemma encodable_strip: "encodable s \<Longrightarrow> encodable (strip s)"
  by (rule encodable_subset[OF set_strip])

lemma set_join_sep: "set (join_sep sep xs) \<subseteq> set sep \<union> \<Union> (set ` set xs)"
  by (induction sep xs rule: join_sep.induct) auto

lemma encodable_join_sep:
  assumes "encodable sep" and "\<forall>x \<in> set xs. encodable x"
  shows "encodable (join_sep sep xs)"
  using set_join_sep[of sep xs] assms unfolding encodable_iff by blast

lemma encodable_str_in: "str_in w s \<Longrightarrow> encodable s \<Longrightarrow> encodable w"
  by (rule encodable_subset[OF str_in_set])

lemma encodable_comma: "encodable comma"
  by (simp add: comma_def encodable_def is_surrogate_def)

subsection \<open>Sentences and the theme\<close>

lemma concat_split_chars:
  "concat (split_chars ds s) = filter (\<lambda>c. \<not> List.member ds c) s"
  by (induction s) (simp_all add: concat_cons_first)

lemma set_split_chars: "p \<in> set (split_chars ds s) \<Longrightarrow> set p \<subseteq> set s"
proof -
  assume "p \<in> set (split_chars ds s)"
  then have "set p \<subseteq> set (concat (split_chars ds s))" by auto
  then show ?thesis unfolding concat_split_chars by auto
qed

lemma sentences_between_props:
  assumes "s \<in> set (sentences_between lo hi t)"
  shows "set s \<subseteq> set t" and "lo \<le> length s" and "hi = Some h \<Longrightarrow> length s \<le> h"
proof -
  from assms obtain p where p: "p \<in> set (split_chars sentence_ends t)" "s = strip p"
    and l: "lo \<le> length s" "(case hi of None \<Rightarrow> True | Some h \<Rightarrow> length s \<le> h)"
    by (auto simp: sentences_between_def)
  from set_split_chars[OF p(1)] set_strip[of p] p(2) show "set s \<subseteq> set t" by blast
  from l show "lo \<le> length s" by simp
  from l show "hi = Some h \<Longrightarrow> length s \<le> h" by simp
qed

lemma first_cjk_run_props:
  "first_cjk_run s = Some kw \<Longrightarrow> set kw \<subseteq> set s \<and> length kw \<le> 6"
proof (induction s)
  case Nil
  then show ?case by simp
next
  case (Cons c cs)
  show ?case
  proof (cases "length (takeWhile is_cjk (c # cs)) \<ge> 2")
    case True
    with Cons.prems have kw: "kw = take 6 (takeWhile is_cjk (c # cs))" by simp
    have "set kw \<subseteq> set (takeWhile is_cjk (c # cs))" unfolding kw by (rule set_take_subset)
    also have "\<dots> \<subseteq> set (c # cs)" by (auto dest: set_takeWhileD)
    finally have "set kw \<subseteq> set (c # cs)" .
    moreover have "length kw \<le> 6" unfolding kw by simp
    ultimately show ?thesis by simp
  next
    case False
    with Cons.prems have "first_cjk_run cs = Some kw" by simp
    from Cons.IH[OF this] show ?thesis by auto
  qed
qed

lemma main_theme_props:
  "set (main_theme (extract_article_core_info t)) \<subseteq> set t"
  "length (main_theme (extract_article_core_info t)) \<le> 6"
proof -
  let ?ss = "sentences_between 6 None t"
  have m: "main_theme (extract_article_core_info t)
      = (case ?ss of [] \<Rightarrow> []
         | first_sentence # _ \<Rightarrow>
             (case first_cjk_run first_sentence of None \<Rightarrow> [] | Some kw \<Rightarrow> kw))"
    by (simp add: extract_article_core_info_def Let_def)
  show "set (main_theme (extract_article_core_info t)) \<subseteq> set t"
  proof (cases ?ss)
    case Nil
    then show ?thesis unfolding m by simp
  next
    case (Cons f rest)
    then have f: "set f \<subseteq> set t" using sentences_between_props(1)[of f 6 None t] by simp
    show ?thesis
    proof (cases "first_cjk_run f")
      case None
      then show ?thesis unfolding m Cons by simp
    next
      case (Some kw)
      with first_cjk_run_props[OF Some] f show ?thesis unfolding m Cons by auto
    qed
  qed
  show "length (main_theme (extract_article_core_info t)) \<le> 6"
  proof (cases ?ss)
    case Nil
    then show ?thesis unfolding m by simp
  next
    case (Cons f rest)
    show ?thesis
    proof (cases "first_cjk_run f")
      case None
      then show ?thesis unfolding m Cons by simp
    next
      case (Some kw)
      with first_cjk_run_props[OF Some] show ?thesis unfolding m Cons by simp
    qed
  qed
qed

lemma encodable_content_focus:
  assumes "encodable t"
  shows "encodable (content_focus (extract_article_core_info t))"
proof -
  let ?ss = "sentences_between 6 None t"
  have c: "content_focus (extract_article_core_info t)
      = join_sep comma
          (take 2 (map (take 25) (filter (\<lambda>sentence. length sentence \<ge> 10) (take 3 ?ss))))"
    by (simp add: extract_article_core_info_def Let_def)
  have "\<forall>x \<in> set (take 2 (map (take 25)
      (filter (\<lambda>sentence. length sentence \<ge> 10) (take 3 ?ss)))). encodable x"
  proof
    fix x
    assume "x \<in> set (take 2 (map (take 25)
      (filter (\<lambda>sentence. length sentence \<ge> 10) (take 3 ?ss))))"
    then have "x \<in> set (map (take 25) (filter (\<lambda>sentence. length sentence \<ge> 10) (take 3 ?ss)))"
      by (rule in_set_takeD)
    then obtain y where y: "y \<in> set (take 3 ?ss)" "x = take 25 y" by auto
    from y(1) have "y \<in> set ?ss" by (rule in_set_takeD)
    then have "set y \<subseteq> set t" by (rule sentences_between_props(1))
    then have "encodable y" using assms by (rule encodable_subset)
    then show "encodable x" unfolding y(2) by (rule encodable_take)
  qed
  then show ?thesis unfolding c by (rule encodable_join_sep[OF encodable_comma])
qed

lemma encodable_atmosphere: "encodable (atmosphere (extract_article_core_info t))"
proof -
  have a: "atmosphere (extract_article_core_info t) = find_atmosphere t"
    by (simp add: extract_article_core_info_def Let_def)
  have w: "\<forall>w \<in> set atmosphere_words. encodable w"
    by (simp add: atmosphere_words_def encodable_def is_surrogate_def)
  show ?thesis
  proof (cases "List.find (\<lambda>word. str_in word t) atmosphere_words")
    case None
    then show ?thesis unfolding a find_atmosphere_def
      by (simp add: encodable_def is_surrogate_def)
  next
    case (Some word)
    then have "word \<in> set atmosphere_words" by (auto simp: find_Some_iff)
    with w Some show ?thesis unfolding a find_atmosphere_def by simp
  qed
qed

lemma encodable_emotions:
  "\<forall>e \<in> set (emotions (extract_article_core_info t)). encodable e"
proof -
  have e: "emotions (extract_article_core_info t) = filter (\<lambda>word. str_in word t) emotion_words"
    by (simp add: extract_article_core_info_def Let_def)
  have "\<forall>w \<in> set emotion_words. encodable w"
    by (simp add: emotion_words_def encodable_def is_surrogate_def)
  then show ?thesis unfolding e by simp
qed

lemma no_details:
  "specific_details (extract_article_core_info t) = []"
  "visual_elements (extract_article_core_info t) = []"
  by (simp_all add: extract_article_core_info_def Let_def)

subsection \<open>The five sections\<close>

lemma encodable_template:
  "encodable (base_style (STYLE_TEMPLATES st))" "encodable (mood (STYLE_TEMPLATES st))"
  "encodable (color_palette (STYLE_TEMPLATES st))" "encodable (lighting (STYLE_TEMPLATES st))"
  "encodable (composition (STYLE_TEMPLATES st))" "encodable (texture (STYLE_TEMPLATES st))"
  by (cases st; simp add: STYLE_TEMPLATES_def encodable_def is_surrogate_def)+

lemma length_template:
  "length (base_style (STYLE_TEMPLATES st)) = 6" "length (mood (STYLE_TEMPLATES st)) \<le> 9"
  "length (color_palette (STYLE_TEMPLATES st)) \<le> 14" "length (lighting (STYLE_TEMPLATES st)) \<le> 10"
  "length (composition (STYLE_TEMPLATES st)) = 9" "length (texture (STYLE_TEMPLATES st)) = 9"
  by (cases st; simp add: STYLE_TEMPLATES_def)+

lemma length_join_sep:
  "length (join_sep sep [x]) = length x"
  "length (join_sep sep [x, y]) = length x + length sep + length y"
  "length (join_sep sep [x, y, z]) = length x + length sep + length y + length sep + length z"
  "length (join_sep sep [x, y, z, u])
     = length x + length sep + length y + length sep + length z + length sep + length u"
  by simp_all

lemma length_comma: "length comma = 1"
  by (simp add: comma_def)

lemma style_positioning_props:
  "length (build_style_positioning ci text_type style_prompt) \<le> 16"
  "encodable (build_style_positioning ci text_type style_prompt)"
proof -
  let ?t = "STYLE_TEMPLATES (determine_unified_style ci text_type style_prompt)"
  have e: "build_style_positioning ci text_type style_prompt
      = join_sep comma [base_style ?t, mood ?t]"
    by (simp add: build_style_positioning_def Let_def)
  show "length (build_style_positioning ci text_type style_prompt) \<le> 16"
    unfolding e length_join_sep length_comma
    using length_template(1,2)[of "determine_unified_style ci text_type style_prompt"] by simp
  show "encodable (build_style_positioning ci text_type style_prompt)"
    unfolding e by (rule encodable_join_sep[OF encodable_comma]) (simp add: encodable_template)
qed

lemma layout_requirements_props:
  "length build_layout_requirements = 28" "encodable build_layout_requirements"
  by (simp_all add: build_layout_requirements_def encodable_def is_surrogate_def)

lemma detail_supplements_props:
  "length (build_detail_supplements ci text_type) = 24"
  "encodable (build_detail_supplements ci text_type)"
proof -
  let ?t = "STYLE_TEMPLATES (determine_unified_style ci text_type [])"
  let ?last = "if text_type = [0x53D9, 0x4E8B, 0x6587] then [0x60C5, 0x611F, 0x8868, 0x8FBE]
            else if text_type = [0x8BF4, 0x660E, 0x6587] then [0x7B80, 0x6D01, 0x660E, 0x4E86]
            else [0x89C6, 0x89C9, 0x7F8E, 0x611F]"
  have e: "build_detail_supplements ci text_type
      = join_sep comma [[0x9AD8, 0x6E05, 0x6444, 0x5F71], [0x4E13, 0x4E1A, 0x6784, 0x56FE],
         texture ?t, ?last]"
    by (simp add: build_detail_supplements_def Let_def)
  have l: "length ?last = 4" by simp
  have el: "encodable ?last" by (simp add: encodable_def is_surrogate_def)
  show "length (build_detail_supplements ci text_type) = 24"
    unfolding e length_join_sep length_comma l
    using length_template(6)[of "determine_unified_style ci text_type []"] by simp
  have "\<forall>x \<in> set [[0x9AD8, 0x6E05, 0x6444, 0x5F71],
     [0x4E13, 0x4E1A, 0x6784, 0x56FE], texture ?t, ?last]. encodable x"
    using el encodable_template(6)[of "determine_unified_style ci text_type []"]
    by (simp add: encodable_def is_surrogate_def)
  then show "encodable (build_detail_supplements ci text_type)"
    unfolding e by (rule encodable_join_sep[OF encodable_comma])
qed

lemma core_content_cases:
  "build_core_content ci t = [0x6E29, 0x99A8, 0x751F, 0x6D3B, 0x573A, 0x666F] \<or> build_core_content ci t = main_theme ci
   \<or> (\<exists>s \<in> set (sentences_between 15 (Some 40) t).
         build_core_content ci t = s \<or> build_core_content ci t = s @ comma @ main_theme ci)"
proof -
  let ?ss = "sentences_between 15 (Some 40) t"
  let ?f = "List.find (\<lambda>sentence. any_in descriptive_words sentence) (take 3 ?ss)"
  show ?thesis
  proof (cases ?f)
    case None
    then show ?thesis by (simp add: build_core_content_def Let_def)
  next
    case (Some s)
    then have "\<exists>i<length (take 3 ?ss). s = take 3 ?ss ! i" unfolding find_Some_iff by blast
    then have "s \<in> set (take 3 ?ss)" by (metis nth_mem)
    then have s: "s \<in> set ?ss" by (rule in_set_takeD)
    have "build_core_content ci t = s \<or> build_core_content ci t = s @ comma @ main_theme ci"
      using Some by (simp add: build_core_content_def Let_def)
    with s show ?thesis by blast
  qed
qed

lemma core_content_props:
  assumes "length (main_theme ci) \<le> 6" and "set (main_theme ci) \<subseteq> set t" and "encodable t"
  shows "length (build_core_content ci t) \<le> 47" and "encodable (build_core_content ci t)"
proof -
  have m: "encodable (main_theme ci)" using assms(2,3) by (rule encodable_subset)
  have d: "encodable [0x6E29, 0x99A8, 0x751F, 0x6D3B, 0x573A, 0x666F]" by (simp add: encodable_def is_surrogate_def)
  have s: "length s \<le> 40 \<and> encodable s" if "s \<in> set (sentences_between 15 (Some 40) t)" for s
  proof
    from that show "length s \<le> 40" by (rule sentences_between_props(3)) simp
    from that have "set s \<subseteq> set t" by (rule sentences_between_props(1))
    then show "encodable s" using assms(3) by (rule encodable_subset)
  qed
  from core_content_cases[of ci t] consider
      (default) "build_core_content ci t = [0x6E29, 0x99A8, 0x751F, 0x6D3B, 0x573A, 0x666F]"
    | (theme) "build_core_content ci t = main_theme ci"
    | (sentence) s where "s \<in> set (sentences_between 15 (Some 40) t)"
        "build_core_content ci t = s"
    | (both) s where "s \<in> set (sentences_between 15 (Some 40) t)"
        "build_core_content ci t = s @ comma @ main_theme ci"
    by blast
  then show "length (build_core_content ci t) \<le> 47"
  proof cases
    case default
    then show ?thesis by simp
  next
    case theme
    then show ?thesis using assms(1) by simp
  next
    case (sentence s)
    then show ?thesis using s[of s] by simp
  next
    case (both s)
    then show ?thesis using s[of s] assms(1) by (simp add: length_comma)
  qed
  from core_content_cases[of ci t] consider
      (default) "build_core_content ci t = [0x6E29, 0x99A8, 0x751F, 0x6D3B, 0x573A, 0x666F]"
    | (theme) "build_core_content ci t = main_theme ci"
    | (sentence) s where "s \<in> set (sentences_between 15 (Some 40) t)"
        "build_core_content ci t = s"
    | (both) s where "s \<in> set (sentences_between 15 (Some 40) t)"
        "build_core_content ci t = s @ comma @ main_theme ci"
    by blast
  then show "encodable (build_core_content ci t)"
  proof cases
    case default
    then show ?thesis using d by simp
  next
    case theme
    then show ?thesis using m by simp
  next
    case (sentence s)
    then show ?thesis using s[of s] by simp
  next
    case (both s)
    then show ?thesis using s[of s] m by (simp add: encodable_append encodable_comma)
  qed
qed

lemma length_visual_description: "length (build_visual_description vis ci) \<le> 62"
proof -
  let ?t = "STYLE_TEMPLATES (determine_unified_style ci [] [])"
  note l = length_template(3,4,5)[of "determine_unified_style ci [] []"]
  show ?thesis
    using l by (simp add: build_visual_description_def Let_def length_comma)
qed

lemma encodable_visual_description:
  assumes "encodable (main_subject vis)" and "encodable (scene_description vis)"
  shows "encodable (build_visual_description vis ci)"
proof -
  let ?t = "STYLE_TEMPLATES (determine_unified_style ci [] [])"
  let ?parts = "(if main_subject vis \<noteq> [] \<and> length (main_subject vis) \<le> 20
             then [main_subject vis] else [])
            @ (if scene_description vis \<noteq> [] \<and> length (scene_description vis) \<le> 15
               then [scene_description vis] else [])
            @ [color_palette ?t, lighting ?t, composition ?t]"
  let ?parts1 = "if length ?parts < 3 then ?parts @ [color_palette ?t, lighting ?t] else ?parts"
  have e: "build_visual_description vis ci = join_sep comma (take 4 ?parts1)"
    by (simp add: build_visual_description_def Let_def)
  have "\<forall>x \<in> set ?parts1. encodable x"
    using assms encodable_template(3,4,5)[of "determine_unified_style ci [] []"] by auto
  then have "\<forall>x \<in> set (take 4 ?parts1). encodable x" by (meson in_set_takeD)
  then show ?thesis unfolding e by (rule encodable_join_sep[OF encodable_comma])
qed

lemma encodable_visual_elements:
  assumes "encodable t"
  shows "encodable (main_subject (build_visual_elements (extract_article_core_info t) tt))"
    and "encodable (scene_description (build_visual_elements (extract_article_core_info t) tt))"
proof -
  let ?ci = "extract_article_core_info t"
  have th: "encodable (main_theme ?ci)"
    using main_theme_props(1) assms by (rule encodable_subset)
  have cf: "encodable (content_focus ?ci)" using assms by (rule encodable_content_focus)
  have k: "encodable [0x573A, 0x666F]" "encodable [0x6C1B, 0x56F4]" "encodable [0x611F]" "encodable [0x6E29, 0x99A8, 0x751F, 0x6D3B, 0x573A, 0x666F]"
    by (simp_all add: encodable_def is_surrogate_def)
  have "main_subject (build_visual_elements ?ci tt)
      = (if content_focus ?ci \<noteq> [] then take 20 (content_focus ?ci)
         else main_theme ?ci @ [0x573A, 0x666F])"
    by (simp add: build_visual_elements_def Let_def no_details)
  then show "encodable (main_subject (build_visual_elements ?ci tt))"
    using th cf k(1) by (simp add: encodable_append encodable_take)
  let ?parts = "(if atmosphere ?ci \<noteq> [] then [atmosphere ?ci @ [0x6C1B, 0x56F4]] else [])
            @ (case emotions ?ci of [] \<Rightarrow> [] | emotion # _ \<Rightarrow> [emotion @ [0x611F]])"
  have sd: "scene_description (build_visual_elements ?ci tt)
      = (if ?parts \<noteq> [] then join_sep comma ?parts else [0x6E29, 0x99A8, 0x751F, 0x6D3B, 0x573A, 0x666F])"
    by (simp add: build_visual_elements_def Let_def no_details)
  have "\<forall>x \<in> set ?parts. encodable x"
    using encodable_atmosphere[of t] encodable_emotions[of t] k(2,3)
    by (cases "emotions ?ci") (auto simp: encodable_append)
  then have "encodable (join_sep comma ?parts)" by (rule encodable_join_sep[OF encodable_comma])
  then show "encodable (scene_description (build_visual_elements ?ci tt))"
    unfolding sd using k(4) by simp
qed

subsection \<open>Non-blank sections\<close>

lemma strip_nonspace_Cons: "\<not> is_space c \<Longrightarrow> strip (c # s) \<noteq> []"
  by (simp add: strip_eq_Nil_iff nonws_def)

lemma layout_requirements_nonblank: "strip build_layout_requirements \<noteq> []"
  unfolding build_layout_requirements_def by (rule strip_nonspace_Cons) (simp add: is_space_def)

lemma detail_supplements_nonblank: "strip (build_detail_supplements ci text_type) \<noteq> []"
  unfolding build_detail_supplements_def Let_def join_sep.simps append_Cons
  by (rule strip_nonspace_Cons) (simp add: is_space_def)

section \<open>C7: one style template per request\<close>

text \<open>
  The style template is resolved by \<open>determine_unified_style\<close> from the core information,
  the text type and the style hint of the user. The text type is never read, and an empty hint
  or the default hint leaves the choice to the content of the article.
\<close>

lemma text_type_ignored:
  "determine_unified_style ci text_type style_prompt = determine_unified_style ci [] style_prompt"
  by (simp add: determine_unified_style_def)

lemma unified_style_default_hint:
  assumes "style_prompt = [] \<or> style_prompt = default_style_prompt"
  shows "determine_unified_style ci text_type style_prompt = determine_unified_style ci [] []"
  using assms by (auto simp: determine_unified_style_def)

text \<open>
  C7 states that within one request every place that needs a style template resolves to the
  same template, in particular that the sections of visual elements and of detail supplements
  use the template of the style positioning section. The style positioning section passes the
  hint of the user to \<open>determine_unified_style\<close>, the visual description passes an empty text
  type and an empty hint, and the detail supplements pass an empty hint. For the text
  \<open>hello\<close>, the narrative type and a hint asking for the warm healing style, the style
  positioning resolves to \<open>WarmHealing\<close> and the two other sections to \<open>FreshNatural\<close>: the
  prompt opens with the warm healing name and keywords and continues with the colours, the
  lighting and the texture of the fresh natural template.
\<close>

theorem unified_style_mismatch:
  "determine_unified_style (extract_article_core_info (ascii ''hello'')) narrative
      [0x6E29, 0x99A8, 0x6CBB, 0x6108, 0x98CE, 0x683C] = WarmHealing
   \<and> determine_unified_style (extract_article_core_info (ascii ''hello'')) [] [] = FreshNatural
   \<and> determine_unified_style (extract_article_core_info (ascii ''hello'')) narrative []
       = FreshNatural
   \<and> generate_xiaohongshu_prompt (ascii ''hello'') [0x6E29, 0x99A8, 0x6CBB, 0x6108, 0x98CE, 0x683C] narrative
       = Inr (label_style @ [0x6E29, 0x99A8, 0x6CBB, 0x6108, 0x98CE, 0x683C, 0xFF0C, 0x6E29, 0x99A8, 0x8212, 0x9002, 0xFF0C, 0x6CBB, 0x6108, 0x611F] @ semicolon
         @ label_core @ [0x6E29, 0x99A8, 0x751F, 0x6D3B, 0x573A, 0x666F] @ semicolon
         @ label_visual @ [0x573A, 0x666F, 0xFF0C, 0x81EA, 0x7136, 0x6C1B, 0x56F4, 0xFF0C, 0x6E05, 0x65B0, 0x8272, 0x8C03, 0xFF0C, 0x7EFF, 0x8272, 0xFF0C, 0x767D, 0x8272, 0xFF0C, 0x6D45, 0x84DD, 0x8272, 0xFF0C, 0x660E, 0x4EAE, 0x81EA, 0x7136, 0x5149, 0xFF0C, 0x6E05, 0x6668, 0x9633, 0x5149] @ semicolon
         @ label_layout @ [0x7AD6, 0x7248, 0x6784, 0x56FE, 0x39, 0x3A, 0x31, 0x36, 0xFF0C, 0x5C0F, 0x7EA2, 0x4E66, 0x98CE, 0x683C, 0x6392, 0x7248, 0xFF0C, 0x6E05, 0x6670, 0x6613, 0x8BFB, 0xFF0C, 0x89C6, 0x89C9, 0x5C42, 0x6B21, 0x5206, 0x660E] @ semicolon
         @ label_detail @ [0x9AD8, 0x6E05, 0x6444, 0x5F71, 0xFF0C, 0x4E13, 0x4E1A, 0x6784, 0x56FE, 0xFF0C, 0x6E05, 0x723D, 0x8D28, 0x611F, 0xFF0C, 0x81EA, 0x7136, 0x6750, 0x8D28, 0xFF0C, 0x89C6, 0x89C9, 0x7F8E, 0x611F])"
  by code_simp

section \<open>C4: the composed prompt\<close>

text \<open>
  C4 states that for every text the prompt composer returns at most 300 characters that
  contain exactly the five section labels in their fixed order, each section non-empty, and
  that a first assembly longer than 300 characters is rebuilt from truncated sections. The core
  content section quotes a sentence of the text and the visual elements section the first 20
  characters of the content focus: a text that itself holds the labels puts them into the
  prompt a second and a third time. And a text with a surrogate code point among its first 50
  characters makes the first \<open>print\<close> raise \<open>UnicodeEncodeError\<close>: no prompt is returned.
\<close>

theorem prompt_composer_counterexample:
  "generate_xiaohongshu_prompt [0x4ECA, 0x5929, 0x7684, 0x7B14, 0x8BB0, 0x6A21, 0x677F, 0x662F, 0x3010, 0x98CE, 0x683C, 0x5B9A, 0x4F4D, 0x3011, 0x52A0, 0x4E0A, 0x3010, 0x6838, 0x5FC3, 0x5185, 0x5BB9, 0x3011, 0x4E24, 0x90E8, 0x5206] [] narrative
     = Inr (label_style @ [0x6E05, 0x65B0, 0x81EA, 0x7136, 0x98CE, 0x683C, 0xFF0C, 0x6E05, 0x65B0, 0x8212, 0x9002, 0xFF0C, 0x81EA, 0x7136, 0x611F] @ semicolon
       @ label_core @ ([0x4ECA, 0x5929, 0x7684, 0x7B14, 0x8BB0, 0x6A21, 0x677F, 0x662F] @ label_style @ [0x52A0, 0x4E0A] @ label_core @ [0x4E24, 0x90E8, 0x5206])
       @ semicolon
       @ label_visual @ ([0x4ECA, 0x5929, 0x7684, 0x7B14, 0x8BB0, 0x6A21, 0x677F, 0x662F] @ label_style @ [0x52A0, 0x4E0A, 0x3010, 0x6838, 0x5FC3, 0x5185, 0xFF0C, 0x81EA, 0x7136, 0x6C1B, 0x56F4, 0xFF0C, 0x6E05, 0x65B0, 0x8272, 0x8C03, 0xFF0C, 0x7EFF, 0x8272, 0xFF0C, 0x767D, 0x8272, 0xFF0C, 0x6D45, 0x84DD, 0x8272, 0xFF0C, 0x660E, 0x4EAE, 0x81EA, 0x7136, 0x5149, 0xFF0C, 0x6E05, 0x6668, 0x9633, 0x5149])
       @ semicolon
       @ label_layout @ [0x7AD6, 0x7248, 0x6784, 0x56FE, 0x39, 0x3A, 0x31, 0x36, 0xFF0C, 0x5C0F, 0x7EA2, 0x4E66, 0x98CE, 0x683C, 0x6392, 0x7248, 0xFF0C, 0x6E05, 0x6670, 0x6613, 0x8BFB, 0xFF0C, 0x89C6, 0x89C9, 0x5C42, 0x6B21, 0x5206, 0x660E] @ semicolon
       @ label_detail @ [0x9AD8, 0x6E05, 0x6444, 0x5F71, 0xFF0C, 0x4E13, 0x4E1A, 0x6784, 0x56FE, 0xFF0C, 0x6E05, 0x723D, 0x8D28, 0x611F, 0xFF0C, 0x81EA, 0x7136, 0x6750, 0x8D28, 0xFF0C, 0x89C6, 0x89C9, 0x7F8E, 0x611F])
   \<and> generate_xiaohongshu_prompt [0xD800] [] narrative = Inl UnicodeEncodeError"
  by code_simp

text \<open>
  C4, amended. For every text without a surrogate code point, every style hint and every text
  type, the prompt composer returns the five labelled sections in their fixed order, joined by
  the full-width semicolon. The sections are the trimmed results of the five builders (a blank
  one of the first three replaced by its default); every section is non-empty; they have at
  most 16, 47, 62, 28 and 24 characters, and the prompt has at most 211. So the first assembly
  never exceeds 300 characters and is the result: the sections are never truncated to the
  budgets 15, 50, 60, 30 and 25.
\<close>

theorem prompt_composer:
  fixes text0 style_prompt text_type :: ustring
  assumes enc: "encodable text0"
  defines "ci \<equiv> extract_article_core_info text0"
  defines "a \<equiv> build_style_positioning ci text_type style_prompt"
    and "b \<equiv> build_core_content ci text0"
    and "c \<equiv> build_visual_description (build_visual_elements ci text_type) ci"
    and "d \<equiv> build_layout_requirements"
    and "e \<equiv> build_detail_supplements ci text_type"
  defines "s1 \<equiv> strip (if strip a = [] then [0x6E05, 0x65B0, 0x81EA, 0x7136, 0x98CE, 0x683C] else a)"
    and "s2 \<equiv> strip (if strip b = [] then [0x6E29, 0x99A8, 0x6545, 0x4E8B, 0x573A, 0x666F] else b)"
    and "s3 \<equiv> strip (if strip c = [] then [0x67D4, 0x548C, 0x5149, 0x7EBF, 0xFF0C, 0x6E29, 0x6696, 0x8272, 0x8C03] else c)"
    and "s4 \<equiv> strip d"
    and "s5 \<equiv> strip e"
  shows
    "generate_xiaohongshu_prompt text0 style_prompt text_type
       = Inr (label_style @ s1 @ semicolon @ label_core @ s2 @ semicolon @ label_visual @ s3
              @ semicolon @ label_layout @ s4 @ semicolon @ label_detail @ s5)
     \<and> s1 \<noteq> [] \<and> s2 \<noteq> [] \<and> s3 \<noteq> [] \<and> s4 \<noteq> [] \<and> s5 \<noteq> []
     \<and> length s1 \<le> 16 \<and> length s2 \<le> 47 \<and> length s3 \<le> 62 \<and> length s4 \<le> 28
     \<and> length s5 \<le> 24
     \<and> length (label_style @ s1 @ semicolon @ label_core @ s2 @ semicolon @ label_visual @ s3
              @ semicolon @ label_layout @ s4 @ semicolon @ label_detail @ s5) \<le> 211"
proof -
  let ?a1 = "if strip a = [] then [0x6E05, 0x65B0, 0x81EA, 0x7136, 0x98CE, 0x683C] else a"
  let ?b1 = "if strip b = [] then [0x6E29, 0x99A8, 0x6545, 0x4E8B, 0x573A, 0x666F] else b"
  let ?c1 = "if strip c = [] then [0x67D4, 0x548C, 0x5149, 0x7EBF, 0xFF0C, 0x6E29, 0x6696, 0x8272, 0x8C03] else c"
  have pa: "length a \<le> 16" "encodable a" unfolding a_def by (rule style_positioning_props)+
  have pb: "length b \<le> 47" "encodable b"
    unfolding b_def ci_def
    by (rule core_content_props[OF main_theme_props(2) main_theme_props(1) enc])+
  have pc: "length c \<le> 62" "encodable c"
    unfolding c_def ci_def
    by (rule length_visual_description,
        rule encodable_visual_description[OF encodable_visual_elements[OF enc]])
  have pd: "length d = 28" "encodable d" unfolding d_def by (rule layout_requirements_props)+
  have pe: "length e = 24" "encodable e" unfolding e_def by (rule detail_supplements_props)+
  have dflt: "encodable [0x6E05, 0x65B0, 0x81EA, 0x7136, 0x98CE, 0x683C]" "encodable [0x6E29, 0x99A8, 0x6545, 0x4E8B, 0x573A, 0x666F]" "encodable [0x67D4, 0x548C, 0x5149, 0x7EBF, 0xFF0C, 0x6E29, 0x6696, 0x8272, 0x8C03]"
    by (simp_all add: encodable_def is_surrogate_def)
  have nb: "strip [0x6E05, 0x65B0, 0x81EA, 0x7136, 0x98CE, 0x683C] \<noteq> []" "strip [0x6E29, 0x99A8, 0x6545, 0x4E8B, 0x573A, 0x666F] \<noteq> []" "strip [0x67D4, 0x548C, 0x5149, 0x7EBF, 0xFF0C, 0x6E29, 0x6696, 0x8272, 0x8C03] \<noteq> []"
    by (rule strip_nonspace_Cons, simp add: is_space_def)+
  have l1: "length s1 \<le> 16"
    using length_strip[of ?a1] pa(1) unfolding s1_def by (cases "strip a = []") simp_all
  have l2: "length s2 \<le> 47"
    using length_strip[of ?b1] pb(1) unfolding s2_def by (cases "strip b = []") simp_all
  have l3: "length s3 \<le> 62"
    using length_strip[of ?c1] pc(1) unfolding s3_def by (cases "strip c = []") simp_all
  have l4: "length s4 \<le> 28" using length_strip[of d] pd(1) unfolding s4_def by simp
  have l5: "length s5 \<le> 24" using length_strip[of e] pe(1) unfolding s5_def by simp
  have e1: "encodable s1"
    unfolding s1_def using pa(2) dflt(1) by (cases "strip a = []") (simp_all add: encodable_strip)
  have e2: "encodable s2"
    unfolding s2_def using pb(2) dflt(2) by (cases "strip b = []") (simp_all add: encodable_strip)
  have e3: "encodable s3"
    unfolding s3_def using pc(2) dflt(3) by (cases "strip c = []") (simp_all add: encodable_strip)
  have e4: "encodable s4" unfolding s4_def using pd(2) by (rule encodable_strip)
  have e5: "encodable s5" unfolding s5_def using pe(2) by (rule encodable_strip)
  have n1: "s1 \<noteq> []" unfolding s1_def using nb(1) by (cases "strip a = []") simp_all
  have n2: "s2 \<noteq> []" unfolding s2_def using nb(2) by (cases "strip b = []") simp_all
  have n3: "s3 \<noteq> []" unfolding s3_def using nb(3) by (cases "strip c = []") simp_all
  have n4: "s4 \<noteq> []" unfolding s4_def d_def by (rule layout_requirements_nonblank)
  have n5: "s5 \<noteq> []" unfolding s5_def e_def by (rule detail_supplements_nonblank)
  let ?first = "prompt_of_sections s1 s2 s3 s4 s5"
  have lf: "length ?first \<le> 211"
    using l1 l2 l3 l4 l5 by (simp add: length_prompt_of_sections)
  have labels: "encodable label_style" "encodable label_core" "encodable label_visual"
      "encodable label_layout" "encodable label_detail" "encodable semicolon"
    by (simp_all add: label_style_def label_core_def label_visual_def label_layout_def
        label_detail_def semicolon_def encodable_def is_surrogate_def)
  have ef: "encodable ?first"
    unfolding prompt_of_sections_eq encodable_append using labels e1 e2 e3 e4 e5 by simp
  have cp: "compose_prompt a b c d e
      = (if 300 < length ?first
         then prompt_of_sections (truncate_text ?a1 15) (truncate_text ?b1 50)
                (truncate_text ?c1 60) (truncate_text d 30) (truncate_text e 25)
         else ?first)"
    unfolding compose_prompt_def Let_def s1_def s2_def s3_def s4_def s5_def by (rule refl)
  have cf: "compose_prompt a b c d e = ?first" unfolding cp using lf by simp
  let ?p1 = "[0x6B63, 0x5728, 0x4E3A, 0x6587, 0x672C, 0x751F, 0x6210, 0x63D0, 0x793A, 0x8BCD, 0x3A, 0x20] @ take 50 text0 @ ascii ''...''"
  let ?p2 = "[0x751F, 0x6210, 0x7684, 0x56FE, 0x7247, 0x63D0, 0x793A, 0x8BCD, 0x3A, 0x20] @ compose_prompt a b c d e"
  have "encodable ?p1"
    unfolding encodable_append using encodable_take[OF enc, of 50]
    by (simp add: encodable_def is_surrogate_def ascii_def)
  then have p1: "py_print ?p1 = Inr ()" by (simp add: py_print_def)
  have "encodable ([0x751F, 0x6210, 0x7684, 0x56FE, 0x7247, 0x63D0, 0x793A, 0x8BCD, 0x3A, 0x20] @ ?first)"
    unfolding encodable_append using ef by (simp add: encodable_def is_surrogate_def)
  then have p2: "py_print ([0x751F, 0x6210, 0x7684, 0x56FE, 0x7247, 0x63D0, 0x793A, 0x8BCD, 0x3A, 0x20] @ ?first) = Inr ()" by (simp add: py_print_def)
  have g: "generate_xiaohongshu_prompt text0 style_prompt text_type
      = (case py_print ?p1 of
           Inl x \<Rightarrow> Inl x
         | Inr _ \<Rightarrow> (case py_print ?p2 of
                       Inl x \<Rightarrow> Inl x
                     | Inr _ \<Rightarrow> Inr (compose_prompt a b c d e)))"
    unfolding generate_xiaohongshu_prompt_def Let_def a_def b_def c_def d_def e_def ci_def
    by (rule refl)
  have r: "generate_xiaohongshu_prompt text0 style_prompt text_type = Inr ?first"
    unfolding g p1 cf p2 by simp
  from r n1 n2 n3 n4 n5 l1 l2 l3 l4 l5 lf show ?thesis
    unfolding prompt_of_sections_eq by (intro conjI)
qed

theorem prompt_composer_witness:
  "encodable (ascii ''hello'')
   \<and> generate_xiaohongshu_prompt (ascii ''hello'') [] narrative
       = Inr (label_style @ [0x6E05, 0x65B0, 0x81EA, 0x7136, 0x98CE, 0x683C, 0xFF0C, 0x6E05, 0x65B0, 0x8212, 0x9002, 0xFF0C, 0x81EA, 0x7136, 0x611F] @ semicolon
              @ label_core @ [0x6E29, 0x99A8, 0x751F, 0x6D3B, 0x573A, 0x666F] @ semicolon
              @ label_visual @ [0x573A, 0x666F, 0xFF0C, 0x81EA, 0x7136, 0x6C1B, 0x56F4, 0xFF0C, 0x6E05, 0x65B0, 0x8272, 0x8C03, 0xFF0C, 0x7EFF, 0x8272, 0xFF0C, 0x767D, 0x8272, 0xFF0C, 0x6D45, 0x84DD, 0x8272, 0xFF0C, 0x660E, 0x4EAE, 0x81EA, 0x7136, 0x5149, 0xFF0C, 0x6E05, 0x6668, 0x9633, 0x5149] @ semicolon
              @ label_layout @ [0x7AD6, 0x7248, 0x6784, 0x56FE, 0x39, 0x3A, 0x31, 0x36, 0xFF0C, 0x5C0F, 0x7EA2, 0x4E66, 0x98CE, 0x683C, 0x6392, 0x7248, 0xFF0C, 0x6E05, 0x6670, 0x6613, 0x8BFB, 0xFF0C, 0x89C6, 0x89C9, 0x5C42, 0x6B21, 0x5206, 0x660E] @ semicolon
              @ label_detail @ [0x9AD8, 0x6E05, 0x6444, 0x5F71, 0xFF0C, 0x4E13, 0x4E1A, 0x6784, 0x56FE, 0xFF0C, 0x6E05, 0x723D, 0x8D28, 0x611F, 0xFF0C, 0x81EA, 0x7136, 0x6750, 0x8D28, 0xFF0C, 0x89C6, 0x89C9, 0x7F8E, 0x611F])
   \<and> length (label_style @ [0x6E05, 0x65B0, 0x81EA, 0x7136, 0x98CE, 0x683C, 0xFF0C, 0x6E05, 0x65B0, 0x8212, 0x9002, 0xFF0C, 0x81EA, 0x7136, 0x611F] @ semicolon
              @ label_core @ [0x6E29, 0x99A8, 0x751F, 0x6D3B, 0x573A, 0x666F] @ semicolon
              @ label_visual @ [0x573A, 0x666F, 0xFF0C, 0x81EA, 0x7136, 0x6C1B, 0x56F4, 0xFF0C, 0x6E05, 0x65B0, 0x8272, 0x8C03, 0xFF0C, 0x7EFF, 0x8272, 0xFF0C, 0x767D, 0x8272, 0xFF0C, 0x6D45, 0x84DD, 0x8272, 0xFF0C, 0x660E, 0x4EAE, 0x81EA, 0x7136, 0x5149, 0xFF0C, 0x6E05, 0x6668, 0x9633, 0x5149] @ semicolon
              @ label_layout @ [0x7AD6, 0x7248, 0x6784, 0x56FE, 0x39, 0x3A, 0x31, 0x36, 0xFF0C, 0x5C0F, 0x7EA2, 0x4E66, 0x98CE, 0x683C, 0x6392, 0x7248, 0xFF0C, 0x6E05, 0x6670, 0x6613, 0x8BFB, 0xFF0C, 0x89C6, 0x89C9, 0x5C42, 0x6B21, 0x5206, 0x660E] @ semicolon
              @ label_detail @ [0x9AD8, 0x6E05, 0x6444, 0x5F71, 0xFF0C, 0x4E13, 0x4E1A, 0x6784, 0x56FE, 0xFF0C, 0x6E05, 0x723D, 0x8D28, 0x611F, 0xFF0C, 0x81EA, 0x7136, 0x6750, 0x8D28, 0xFF0C, 0x89C6, 0x89C9, 0x7F8E, 0x611F]) = 140"
proof -
  let ?ci = "extract_article_core_info (ascii ''hello'')"
  have h: "encodable (ascii ''hello'')" by code_simp
  have s: "strip (if strip (build_style_positioning ?ci narrative []) = []
                  then [0x6E05, 0x65B0, 0x81EA, 0x7136, 0x98CE, 0x683C] else build_style_positioning ?ci narrative [])
             = [0x6E05, 0x65B0, 0x81EA, 0x7136, 0x98CE, 0x683C, 0xFF0C, 0x6E05, 0x65B0, 0x8212, 0x9002, 0xFF0C, 0x81EA, 0x7136, 0x611F]"
      "strip (if strip (build_core_content ?ci (ascii ''hello'')) = []
              then [0x6E29, 0x99A8, 0x6545, 0x4E8B, 0x573A, 0x666F] else build_core_content ?ci (ascii ''hello''))
         = [0x6E29, 0x99A8, 0x751F, 0x6D3B, 0x573A, 0x666F]"
      "strip (if strip (build_visual_description (build_visual_elements ?ci narrative) ?ci) = []
              then [0x67D4, 0x548C, 0x5149, 0x7EBF, 0xFF0C, 0x6E29, 0x6696, 0x8272, 0x8C03]
              else build_visual_description (build_visual_elements ?ci narrative) ?ci)
         = [0x573A, 0x666F, 0xFF0C, 0x81EA, 0x7136, 0x6C1B, 0x56F4, 0xFF0C, 0x6E05, 0x65B0, 0x8272, 0x8C03, 0xFF0C, 0x7EFF, 0x8272, 0xFF0C, 0x767D, 0x8272, 0xFF0C, 0x6D45, 0x84DD, 0x8272, 0xFF0C, 0x660E, 0x4EAE, 0x81EA, 0x7136, 0x5149, 0xFF0C, 0x6E05, 0x6668, 0x9633, 0x5149]"
      "strip build_layout_requirements = [0x7AD6, 0x7248, 0x6784, 0x56FE, 0x39, 0x3A, 0x31, 0x36, 0xFF0C, 0x5C0F, 0x7EA2, 0x4E66, 0x98CE, 0x683C, 0x6392, 0x7248, 0xFF0C, 0x6E05, 0x6670, 0x6613, 0x8BFB, 0xFF0C, 0x89C6, 0x89C9, 0x5C42, 0x6B21, 0x5206, 0x660E]"
      "strip (build_detail_supplements ?ci narrative) = [0x9AD8, 0x6E05, 0x6444, 0x5F71, 0xFF0C, 0x4E13, 0x4E1A, 0x6784, 0x56FE, 0xFF0C, 0x6E05, 0x723D, 0x8D28, 0x611F, 0xFF0C, 0x81EA, 0x7136, 0x6750, 0x8D28, 0xFF0C, 0x89C6, 0x89C9, 0x7F8E, 0x611F]"
    by code_simp+
  have l: "length (label_style @ [0x6E05, 0x65B0, 0x81EA, 0x7136, 0x98CE, 0x683C, 0xFF0C, 0x6E05, 0x65B0, 0x8212, 0x9002, 0xFF0C, 0x81EA, 0x7136, 0x611F] @ semicolon
              @ label_core @ [0x6E29, 0x99A8, 0x751F, 0x6D3B, 0x573A, 0x666F] @ semicolon
              @ label_visual @ [0x573A, 0x666F, 0xFF0C, 0x81EA, 0x7136, 0x6C1B, 0x56F4, 0xFF0C, 0x6E05, 0x65B0, 0x8272, 0x8C03, 0xFF0C, 0x7EFF, 0x8272, 0xFF0C, 0x767D, 0x8272, 0xFF0C, 0x6D45, 0x84DD, 0x8272, 0xFF0C, 0x660E, 0x4EAE, 0x81EA, 0x7136, 0x5149, 0xFF0C, 0x6E05, 0x6668, 0x9633, 0x5149] @ semicolon
              @ label_layout @ [0x7AD6, 0x7248, 0x6784, 0x56FE, 0x39, 0x3A, 0x31, 0x36, 0xFF0C, 0x5C0F, 0x7EA2, 0x4E66, 0x98CE, 0x683C, 0x6392, 0x7248, 0xFF0C, 0x6E05, 0x6670, 0x6613, 0x8BFB, 0xFF0C, 0x89C6, 0x89C9, 0x5C42, 0x6B21, 0x5206, 0x660E] @ semicolon
              @ label_detail @ [0x9AD8, 0x6E05, 0x6444, 0x5F71, 0xFF0C, 0x4E13, 0x4E1A, 0x6784, 0x56FE, 0xFF0C, 0x6E05, 0x723D, 0x8D28, 0x611F, 0xFF0C, 0x81EA, 0x7136, 0x6750, 0x8D28, 0xFF0C, 0x89C6, 0x89C9, 0x7F8E, 0x611F]) = 140"
    by code_simp
  from prompt_composer[OF h, where style_prompt = "[]" and text_type = narrative]
  have "generate_xiaohongshu_prompt (ascii ''hello'') [] narrative
       = Inr (label_style @ [0x6E05, 0x65B0, 0x81EA, 0x7136, 0x98CE, 0x683C, 0xFF0C, 0x6E05, 0x65B0, 0x8212, 0x9002, 0xFF0C, 0x81EA, 0x7136, 0x611F] @ semicolon
              @ label_core @ [0x6E29, 0x99A8, 0x751F, 0x6D3B, 0x573A, 0x666F] @ semicolon
              @ label_visual @ [0x573A, 0x666F, 0xFF0C, 0x81EA, 0x7136, 0x6C1B, 0x56F4, 0xFF0C, 0x6E05, 0x65B0, 0x8272, 0x8C03, 0xFF0C, 0x7EFF, 0x8272, 0xFF0C, 0x767D, 0x8272, 0xFF0C, 0x6D45, 0x84DD, 0x8272, 0xFF0C, 0x660E, 0x4EAE, 0x81EA, 0x7136, 0x5149, 0xFF0C, 0x6E05, 0x6668, 0x9633, 0x5149] @ semicolon
              @ label_layout @ [0x7AD6, 0x7248, 0x6784, 0x56FE, 0x39, 0x3A, 0x31, 0x36, 0xFF0C, 0x5C0F, 0x7EA2, 0x4E66, 0x98CE, 0x683C, 0x6392, 0x7248, 0xFF0C, 0x6E05, 0x6670, 0x6613, 0x8BFB, 0xFF0C, 0x89C6, 0x89C9, 0x5C42, 0x6B21, 0x5206, 0x660E] @ semicolon
              @ label_detail @ [0x9AD8, 0x6E05, 0x6444, 0x5F71, 0xFF0C, 0x4E13, 0x4E1A, 0x6784, 0x56FE, 0xFF0C, 0x6E05, 0x723D, 0x8D28, 0x611F, 0xFF0C, 0x81EA, 0x7136, 0x6750, 0x8D28, 0xFF0C, 0x89C6, 0x89C9, 0x7F8E, 0x611F])"
    unfolding s by (rule conjunct1)
  with h l show ?thesis by (intro conjI)
qed

section \<open>C6: validation errors of the analysis endpoint\<close>

text \<open>
  C6 states that a text that is empty after trimming, or longer than 10000 characters, is
  rejected with a client error (a 4xx status) and that no analysis is performed. The two
  \<open>HTTPException\<close> with status code 400 are raised inside the \<open>try\<close> block, whose
  \<open>except Exception\<close> catches them and raises an \<open>HTTPException\<close> with status code 500 in their
  place. For every such request, whatever the analysis service would do and whatever \<open>str\<close>
  gives for an exception, the reply has status code 500, which is not a client error; the world
  is unchanged, so the analysis service has not been called.
\<close>

theorem validation_error_is_server_error:
  assumes "strip (request_text request) = [] \<or> 10000 < length (request_text request)"
  shows "analyze_text analyze_text_with_doubao exception_str request w
      = (Inl (HTTPException 500
               ([0x6587, 0x672C, 0x5206, 0x6790, 0x5931, 0x8D25, 0x3A, 0x20] @ exception_str
                  (HTTPException 400
                     (if strip (request_text request) = [] then [0x6587, 0x672C, 0x5185, 0x5BB9, 0x4E0D, 0x80FD, 0x4E3A, 0x7A7A]
                      else [0x6587, 0x672C, 0x957F, 0x5EA6, 0x4E0D, 0x80FD, 0x8D85, 0x8FC7, 0x31, 0x30, 0x30, 0x30, 0x30, 0x5B57])))), w)
    \<and> status_code_of (fst (analyze_text analyze_text_with_doubao exception_str request w)) = 500
    \<and> \<not> (400 \<le> status_code_of
               (fst (analyze_text analyze_text_with_doubao exception_str request w))
           \<and> status_code_of
               (fst (analyze_text analyze_text_with_doubao exception_str request w)) \<le> 499)"
  using assms by (auto simp: analyze_text_def analyze_text_body_def status_code_of_def)

theorem validation_error_is_server_error_witness:
  "strip (request_text \<lparr> request_text = ascii ''   '', request_style_prompt = None,
                         request_max_segments = Some 10 \<rparr>) = []
   \<and> analyze_text (\<lambda>t s n. (Inr [t, s], Suc n)) (\<lambda>e. ascii ''error'')
         \<lparr> request_text = ascii ''   '', request_style_prompt = None,
           request_max_segments = Some 10 \<rparr> (0::nat)
       = (Inl (HTTPException 500 ([0x6587, 0x672C, 0x5206, 0x6790, 0x5931, 0x8D25, 0x3A, 0x20] @ ascii ''error'')), 0)
   \<and> 10000 < length (request_text \<lparr> request_text = replicate 10001 0x61,
                         request_style_prompt = None, request_max_segments = Some 10 \<rparr>)
   \<and> analyze_text (\<lambda>t s n. (Inr [t, s], Suc n)) (\<lambda>e. ascii ''error'')
         \<lparr> request_text = replicate 10001 0x61, request_style_prompt = None,
           request_max_segments = Some 10 \<rparr> (0::nat)
       = (Inl (HTTPException 500 ([0x6587, 0x672C, 0x5206, 0x6790, 0x5931, 0x8D25, 0x3A, 0x20] @ ascii ''error'')), 0)"
proof -
  let ?blank = "\<lparr> request_text = ascii ''   '', request_style_prompt = None,
      request_max_segments = Some 10 \<rparr>"
  let ?long = "\<lparr> request_text = replicate 10001 0x61, request_style_prompt = None,
      request_max_segments = Some (10::int) \<rparr>"
  have b: "strip (request_text ?blank) = []" by code_simp
  have l: "10000 < length (request_text ?long)" by simp
  from b have hb: "strip (request_text ?blank) = [] \<or> 10000 < length (request_text ?blank)" ..
  from l have hl: "strip (request_text ?long) = [] \<or> 10000 < length (request_text ?long)" ..
  note tb = validation_error_is_server_error[OF hb, of "\<lambda>t s n. (Inr [t, s], Suc n)"
      "\<lambda>e. ascii ''error''" "0::nat", THEN conjunct1]
  note tl = validation_error_is_server_error[OF hl, of "\<lambda>t s n. (Inr [t, s], Suc n)"
      "\<lambda>e. ascii ''error''" "0::nat", THEN conjunct1]
  from b l tb tl show ?thesis by simp
qed

section \<open>Numbers in printed text\<close>

lemma encodable_digits: "encodable (digits n)"
proof (induction n rule: digits.induct)
  case (1 n)
  show ?case
  proof (cases "n < 10")
    case True
    then show ?thesis by (subst digits.simps) (simp add: encodable_def is_surrogate_def)
  next
    case False
    have "encodable [0x30 + int (n mod 10)]" by (simp add: encodable_def is_surrogate_def)
    with 1[OF False] False show ?thesis by (subst digits.simps) (simp add: encodable_append)
  qed
qed

lemma encodable_str_int: "encodable (str_int k)"
proof (cases "k < 0")
  case True
  have "encodable [0x2D]" by (simp add: encodable_def is_surrogate_def)
  then have "encodable ([0x2D] @ digits (nat (- k)))"
    unfolding encodable_append using encodable_digits by simp
  with True show ?thesis by (simp add: str_int_def)
next
  case False
  then show ?thesis by (simp add: str_int_def encodable_digits)
qed

section \<open>C10: a failing segment and the batch\<close>

lemma GeneratedImage_fields:
  "GeneratedImage sid url thumbnail st = Inr img \<Longrightarrow> segment_id img = sid \<and> status img = st"
  by (auto simp: GeneratedImage_def split: py_value.splits)

lemma failed_image_fields:
  "segment_id (failed_image sid offset) = sid" "status (failed_image sid offset) = failed"
  by (simp_all add: failed_image_def)

lemma image_from_client_fields:
  assumes "image_from_client generate sv style_prompt segment w = (Inr img, w1)"
  shows "segment_id img = ident segment \<and> (status img = completed \<or> status img = failed)"
  using assms unfolding image_from_client_def Let_def
  by (auto split: sum.splits prod.splits option.splits list.splits image_item.splits
      dest: GeneratedImage_fields simp: failed_image_fields)

lemma fallback_image_fields:
  assumes "fallback_image sv image_prompt1 segment e w = (Inr img, w1)"
  shows "segment_id img = ident segment \<and> status img = completed"
  using assms unfolding fallback_image_def
  by (auto split: sum.splits prod.splits dest: GeneratedImage_fields)

lemma image_without_client_fields:
  assumes "image_without_client sv style_prompt segment w = (Inr img, w1)"
  shows "segment_id img = ident segment \<and> status img = completed"
  using assms unfolding image_without_client_def Let_def
  by (auto split: sum.splits prod.splits dest: GeneratedImage_fields fallback_image_fields)

text \<open>When every error can be printed, an iteration always gives an image.\<close>

lemma process_segment_image:
  assumes "\<forall>e. encodable (sv_exception_str sv e)"
  shows "\<exists>img w1. process_segment sv style_prompt segment w = (Inr img, w1)
           \<and> segment_id img = ident segment \<and> (status img = completed \<or> status img = failed)"
proof -
  let ?body = "case sv_client sv of
              Some generate \<Rightarrow> image_from_client generate sv style_prompt segment w
            | None \<Rightarrow> image_without_client sv style_prompt segment w"
  obtain r w1 where b: "?body = (r, w1)" by (cases ?body)
  show ?thesis
  proof (cases r)
    case (Inl e)
    have "encodable ([0x53, 0x65, 0x65, 0x44, 0x72, 0x65, 0x61, 0x6D, 0x20, 0x41, 0x50, 0x49, 0x8C03, 0x7528, 0x5931, 0x8D25, 0x3A, 0x20] @ sv_exception_str sv e)"
      unfolding encodable_append using assms by (simp add: encodable_def is_surrogate_def)
    then have "py_print ([0x53, 0x65, 0x65, 0x44, 0x72, 0x65, 0x61, 0x6D, 0x20, 0x41, 0x50, 0x49, 0x8C03, 0x7528, 0x5931, 0x8D25, 0x3A, 0x20] @ sv_exception_str sv e) = Inr ()"
      by (simp add: py_print_def)
    with b Inl have "process_segment sv style_prompt segment w
        = (Inr (failed_image (ident segment) 200), w1)"
      by (simp add: process_segment_def)
    then show ?thesis by (simp add: failed_image_fields)
  next
    case (Inr img)
    with b have p: "process_segment sv style_prompt segment w = (Inr img, w1)"
      by (simp add: process_segment_def)
    have "segment_id img = ident segment \<and> (status img = completed \<or> status img = failed)"
    proof (cases "sv_client sv")
      case None
      with b Inr have "image_without_client sv style_prompt segment w = (Inr img, w1)" by simp
      from image_without_client_fields[OF this] show ?thesis by simp
    next
      case (Some generate)
      with b Inr have "image_from_client generate sv style_prompt segment w = (Inr img, w1)"
        by simp
      then show ?thesis by (rule image_from_client_fields)
    qed
    with p show ?thesis by blast
  qed
qed

lemma generate_images_loop_images:
  assumes "\<forall>e. encodable (sv_exception_str sv e)"
  shows "\<exists>imgs w1. generate_images_loop sv style_prompt segs acc w = (Inr (acc @ imgs), w1)
           \<and> map segment_id imgs = map ident segs
           \<and> list_all (\<lambda>img. status img = completed \<or> status img = failed) imgs"
proof (induction segs arbitrary: acc w)
  case Nil
  show ?case by simp
next
  case (Cons segment rest)
  from process_segment_image[OF assms, of style_prompt segment w] obtain img w1 where
    p: "process_segment sv style_prompt segment w = (Inr img, w1)"
      "segment_id img = ident segment" "status img = completed \<or> status img = failed"
    by blast
  from Cons.IH[of "acc @ [img]" w1] obtain imgs w2 where
    r: "generate_images_loop sv style_prompt rest (acc @ [img]) w1
          = (Inr ((acc @ [img]) @ imgs), w2)"
      "map segment_id imgs = map ident rest"
      "list_all (\<lambda>img. status img = completed \<or> status img = failed) imgs"
    by blast
  have "generate_images_loop sv style_prompt (segment # rest) acc w
      = (Inr (acc @ (img # imgs)), w2)"
    using p(1) r(1) by simp
  moreover have "map segment_id (img # imgs) = map ident (segment # rest)"
    using p(2) r(2) by simp
  moreover have "list_all (\<lambda>img. status img = completed \<or> status img = failed) (img # imgs)"
    using p(3) r(3) by simp
  ultimately show ?case by blast
qed

text \<open>An error of the client that cannot be printed leaves the handler as an exception.\<close>

lemma process_segment_unprintable:
  assumes "sv_client sv = Some generate"
    and "encodable style_prompt" and "encodable (image_prompt segment)"
    and "generate (style_prompt @ ascii '', '' @ image_prompt segment) w = (Inl e, w1)"
    and "\<not> encodable (sv_exception_str sv e)"
  shows "process_segment sv style_prompt segment w = (Inl UnicodeEncodeError, w1)"
proof -
  have "encodable ([0x751F, 0x6210, 0x56FE, 0x7247, 0x20, 0x2D, 0x20, 0x6BB5, 0x843D] @ str_int (ident segment) @ ascii '': ''
      @ style_prompt @ ascii '', '' @ image_prompt segment)"
    unfolding encodable_append using assms(2,3) encodable_str_int
    by (simp add: encodable_def is_surrogate_def ascii_def)
  then have p: "py_print ([0x751F, 0x6210, 0x56FE, 0x7247, 0x20, 0x2D, 0x20, 0x6BB5, 0x843D] @ str_int (ident segment) @ ascii '': ''
      @ style_prompt @ ascii '', '' @ image_prompt segment) = Inr ()"
    by (simp add: py_print_def)
  have b: "image_from_client generate sv style_prompt segment w = (Inl e, w1)"
    unfolding image_from_client_def Let_def p using assms(4) by simp
  have "\<not> encodable ([0x53, 0x65, 0x65, 0x44, 0x72, 0x65, 0x61, 0x6D, 0x20, 0x41, 0x50, 0x49, 0x8C03, 0x7528, 0x5931, 0x8D25, 0x3A, 0x20] @ sv_exception_str sv e)"
    unfolding encodable_append using assms(5) by simp
  then have "py_print ([0x53, 0x65, 0x65, 0x44, 0x72, 0x65, 0x61, 0x6D, 0x20, 0x41, 0x50, 0x49, 0x8C03, 0x7528, 0x5931, 0x8D25, 0x3A, 0x20] @ sv_exception_str sv e)
      = Inl UnicodeEncodeError"
    by (simp add: py_print_def)
  with b assms(1) show ?thesis by (simp add: process_segment_def)
qed

text \<open>
  C10 states that a failure while generating or compositing the image of one segment never
  fails the batch: the result holds one image for every segment, in the order of the request,
  the failed segment with status \<open>failed\<close> or with status \<open>completed\<close> and a placeholder. The
  handler \<open>except Exception as api_error\<close> prints the error before it appends the image with
  status \<open>failed\<close>. When every error has a text that can be printed, the function returns one
  image for every segment, in order, each with status \<open>completed\<close> or \<open>failed\<close>. But when the
  client raises an error whose text cannot be printed (it holds a surrogate code point), the
  \<open>print\<close> of the handler raises \<open>UnicodeEncodeError\<close> outside any \<open>try\<close> block: the function
  raises, no image is returned, and the segments that follow are not processed.
\<close>

theorem handler_print_fails_batch:
  "((\<forall>e. encodable (sv_exception_str sv e)) \<longrightarrow>
      (\<exists>imgs w1. generate_images_with_seedream sv segments style_prompt w = (Inr imgs, w1)
         \<and> map segment_id imgs = map ident segments
         \<and> list_all (\<lambda>img. status img = completed \<or> status img = failed) imgs))
   \<and> (sv_client sv = Some generate \<and> encodable style_prompt \<and> encodable (image_prompt segment)
        \<and> generate (style_prompt @ ascii '', '' @ image_prompt segment) w = (Inl e, w1)
        \<and> \<not> encodable (sv_exception_str sv e) \<longrightarrow>
      generate_images_with_seedream sv (segment # rest) style_prompt w
        = (Inl UnicodeEncodeError, w1))"
proof (intro conjI impI)
  assume "\<forall>e. encodable (sv_exception_str sv e)"
  from generate_images_loop_images[OF this, of style_prompt segments "[]" w]
  show "\<exists>imgs w1. generate_images_with_seedream sv segments style_prompt w = (Inr imgs, w1)
         \<and> map segment_id imgs = map ident segments
         \<and> list_all (\<lambda>img. status img = completed \<or> status img = failed) imgs"
    by (simp add: generate_images_with_seedream_def)
next
  assume a: "sv_client sv = Some generate \<and> encodable style_prompt
      \<and> encodable (image_prompt segment)
      \<and> generate (style_prompt @ ascii '', '' @ image_prompt segment) w = (Inl e, w1)
      \<and> \<not> encodable (sv_exception_str sv e)"
  then have "process_segment sv style_prompt segment w = (Inl UnicodeEncodeError, w1)"
    using process_segment_unprintable[of sv generate style_prompt segment w e w1] by blast
  then show "generate_images_with_seedream sv (segment # rest) style_prompt w
      = (Inl UnicodeEncodeError, w1)"
    by (simp add: generate_images_with_seedream_def)
qed

theorem handler_print_fails_batch_witness:
  "(\<forall>e. encodable (sv_exception_str
          \<lparr> sv_client = None,
            sv_generate_image = (\<lambda>p k n. (Inl (OtherException (ascii ''down'')), Suc n)),
            sv_compose_image_text = (\<lambda>u t s n. (Inr u, Suc n)),
            sv_generate_demo_image = (\<lambda>p k n. (Inr (Str (ascii ''demo'')), Suc n)),
            sv_exception_str = (\<lambda>e. ascii ''error''),
            sv_response_str = (\<lambda>r. ascii ''response'') \<rparr> e))
   \<and> generate_images_with_seedream
          \<lparr> sv_client = None,
            sv_generate_image = (\<lambda>p k n. (Inl (OtherException (ascii ''down'')), Suc n)),
            sv_compose_image_text = (\<lambda>u t s n. (Inr u, Suc n)),
            sv_generate_demo_image = (\<lambda>p k n. (Inr (Str (ascii ''demo'')), Suc n)),
            sv_exception_str = (\<lambda>e. ascii ''error''),
            sv_response_str = (\<lambda>r. ascii ''response'') \<rparr>
          [\<lparr> ident = 1, content = ascii ''one'', summary = ascii ''s'', image_prompt = ascii ''p'' \<rparr>,
           \<lparr> ident = 2, content = ascii ''two'', summary = ascii ''s'', image_prompt = ascii ''q'' \<rparr>]
          (ascii ''warm'') (0::nat)
       = (Inr [\<lparr> segment_id = 1, image_url = ascii ''demo'', thumbnail_url = ascii ''demo'',
                   status = completed \<rparr>,
                \<lparr> segment_id = 2, image_url = ascii ''demo'', thumbnail_url = ascii ''demo'',
                   status = completed \<rparr>], 4)
   \<and> (\<exists>imgs w1. generate_images_with_seedream
          \<lparr> sv_client = None,
            sv_generate_image = (\<lambda>p k n. (Inl (OtherException (ascii ''down'')), Suc n)),
            sv_compose_image_text = (\<lambda>u t s n. (Inr u, Suc n)),
            sv_generate_demo_image = (\<lambda>p k n. (Inr (Str (ascii ''demo'')), Suc n)),
            sv_exception_str = (\<lambda>e. ascii ''error''),
            sv_response_str = (\<lambda>r. ascii ''response'') \<rparr>
          [\<lparr> ident = 1, content = ascii ''one'', summary = ascii ''s'', image_prompt = ascii ''p'' \<rparr>,
           \<lparr> ident = 2, content = ascii ''two'', summary = ascii ''s'', image_prompt = ascii ''q'' \<rparr>]
          (ascii ''warm'') (0::nat) = (Inr imgs, w1)
        \<and> map segment_id imgs = [1, 2]
        \<and> list_all (\<lambda>img. status img = completed \<or> status img = failed) imgs)
   \<and> encodable (ascii ''warm'') \<and> encodable (ascii ''p'')
   \<and> \<not> encodable [0xD800]
   \<and> generate_images_with_seedream
          \<lparr> sv_client = Some (\<lambda>p n. (Inl (OtherException [0xD800]), Suc n)),
            sv_generate_image = (\<lambda>p k n. (Inl (OtherException (ascii ''down'')), Suc n)),
            sv_compose_image_text = (\<lambda>u t s n. (Inr u, Suc n)),
            sv_generate_demo_image = (\<lambda>p k n. (Inr (Str (ascii ''demo'')), Suc n)),
            sv_exception_str = (\<lambda>e. case e of OtherException m \<Rightarrow> m | _ \<Rightarrow> ascii ''error''),
            sv_response_str = (\<lambda>r. ascii ''response'') \<rparr>
          [\<lparr> ident = 1, content = ascii ''one'', summary = ascii ''s'', image_prompt = ascii ''p'' \<rparr>,
           \<lparr> ident = 2, content = ascii ''two'', summary = ascii ''s'', image_prompt = ascii ''q'' \<rparr>]
          (ascii ''warm'') (0::nat)
       = (Inl UnicodeEncodeError, 1)"
proof -
  let ?a = "\<lparr> sv_client = None,
            sv_generate_image = (\<lambda>p k n. (Inl (OtherException (ascii ''down'')), Suc n)),
            sv_compose_image_text = (\<lambda>u t s n. (Inr u, Suc n)),
            sv_generate_demo_image = (\<lambda>p k n. (Inr (Str (ascii ''demo'')), Suc n)),
            sv_exception_str = (\<lambda>e. ascii ''error''),
            sv_response_str = (\<lambda>r. ascii ''response'') \<rparr>
        :: nat services"
  let ?g = "\<lambda>(p::ustring) (n::nat). (Inl (OtherException [0xD800]) :: py_exception + api_response,
      Suc n)"
  let ?b = "\<lparr> sv_client = Some ?g,
            sv_generate_image = (\<lambda>p k n. (Inl (OtherException (ascii ''down'')), Suc n)),
            sv_compose_image_text = (\<lambda>u t s n. (Inr u, Suc n)),
            sv_generate_demo_image = (\<lambda>p k n. (Inr (Str (ascii ''demo'')), Suc n)),
            sv_exception_str = (\<lambda>e. case e of OtherException m \<Rightarrow> m | _ \<Rightarrow> ascii ''error''),
            sv_response_str = (\<lambda>r. ascii ''response'') \<rparr>
        :: nat services"
  let ?s1 = "\<lparr> ident = 1, content = ascii ''one'', summary = ascii ''s'',
      image_prompt = ascii ''p'' \<rparr>"
  let ?s2 = "\<lparr> ident = 2, content = ascii ''two'', summary = ascii ''s'',
      image_prompt = ascii ''q'' \<rparr>"
  have h1: "\<forall>e. encodable (sv_exception_str ?a e)"
    by (simp add: encodable_def is_surrogate_def ascii_def)
  have v: "generate_images_with_seedream ?a [?s1, ?s2] (ascii ''warm'') (0::nat)
       = (Inr [\<lparr> segment_id = 1, image_url = ascii ''demo'', thumbnail_url = ascii ''demo'',
                   status = completed \<rparr>,
                \<lparr> segment_id = 2, image_url = ascii ''demo'', thumbnail_url = ascii ''demo'',
                   status = completed \<rparr>], 4)"
    by code_simp
  have h2: "encodable (ascii ''warm'')" "encodable (ascii ''p'')" "\<not> encodable [0xD800]"
    by (simp_all add: encodable_def is_surrogate_def ascii_def)
  note t1 = handler_print_fails_batch[where sv = ?a and segments = "[?s1, ?s2]"
      and style_prompt = "ascii ''warm''" and w = "0::nat", THEN conjunct1, THEN mp, OF h1]
  have t1': "\<exists>imgs w1. generate_images_with_seedream ?a [?s1, ?s2] (ascii ''warm'') (0::nat)
          = (Inr imgs, w1)
        \<and> map segment_id imgs = [1, 2]
        \<and> list_all (\<lambda>img. status img = completed \<or> status img = failed) imgs"
    using t1 by simp
  have c: "sv_client ?b = Some ?g \<and> encodable (ascii ''warm'') \<and> encodable (image_prompt ?s1)
        \<and> ?g (ascii ''warm'' @ ascii '', '' @ image_prompt ?s1) 0
            = (Inl (OtherException [0xD800]), 1)
        \<and> \<not> encodable (sv_exception_str ?b (OtherException [0xD800]))"
    using h2 by simp
  note t2 = handler_print_fails_batch[where sv = ?b and generate = ?g and segment = ?s1
      and rest = "[?s2]" and style_prompt = "ascii ''warm''" and w = "0::nat"
      and e = "OtherException [0xD800]" and ?w1.0 = "1::nat", THEN conjunct2, THEN mp, OF c]
  from h1 v t1' h2 t2 show ?thesis by (intro conjI)
qed

section \<open>The demo image matcher: pools, hashing and the selected theme\<close>

lemma pools_checked:
  "list_all (\<lambda>(theme, imgs). length imgs = 5 \<and> list_all encodable imgs) xiaohongshu_images"
  by code_simp

lemma nature_sky_images: "map_of xiaohongshu_images (ascii ''nature_sky'') \<noteq> None"
  by code_simp

lemma theme_images_props:
  "length (theme_images theme) = 5" "\<forall>url \<in> set (theme_images theme). encodable url"
proof -
  have p: "length imgs = 5 \<and> (\<forall>url \<in> set imgs. encodable url)"
    if "map_of xiaohongshu_images t = Some imgs" for t imgs
  proof -
    from that have "(t, imgs) \<in> set xiaohongshu_images" by (rule map_of_SomeD)
    with pools_checked show ?thesis by (auto simp: list_all_iff)
  qed
  from nature_sky_images obtain sky where
    sky: "map_of xiaohongshu_images (ascii ''nature_sky'') = Some sky" by blast
  show "length (theme_images theme) = 5"
    using p[of theme] p[OF sky] sky
    by (cases "map_of xiaohongshu_images theme") (simp_all add: theme_images_def)
  show "\<forall>url \<in> set (theme_images theme). encodable url"
    using p[of theme] p[OF sky] sky
    by (cases "map_of xiaohongshu_images theme") (simp_all add: theme_images_def)
qed

lemma encode_utf8_encodable: "encodable s \<Longrightarrow> encode_utf8 s = Inr (concat (map utf8_char s))"
  by (simp add: encode_utf8_def)

text \<open>The value of \<open>_generate_demo_image\<close> for a prompt that can be printed.\<close>

lemma generate_demo_image_encodable:
  assumes "encodable prompt"
  shows "generate_demo_image lower weighted prompt seg_id
      = Inr (theme_images (selected_theme weighted (lower prompt))
               ! nat (int_of_hex (hexdigest (md5_digest
                   (concat (map utf8_char (prompt @ [0x5F] @ str_int seg_id))))) mod 5))"
proof -
  let ?imgs = "theme_images (selected_theme weighted (lower prompt))"
  let ?h = "int_of_hex (hexdigest (md5_digest
      (concat (map utf8_char (prompt @ [0x5F] @ str_int seg_id)))))"
  have l: "length ?imgs = 5" by (rule theme_images_props)
  then have ne: "?imgs \<noteq> []" by auto
  have i: "nat (?h mod 5) < length ?imgs" using l by simp
  then have "?imgs ! nat (?h mod 5) \<in> set ?imgs" by (rule nth_mem)
  then have eu: "encodable (?imgs ! nat (?h mod 5))" using theme_images_props(2) by blast
  have "encodable ([0x0A] @ [0x3D, 0x3D, 0x3D, 0x20, 0x667A, 0x80FD, 0x56FE, 0x7247, 0x5339, 0x914D, 0x5206, 0x6790, 0x20, 0x6BB5, 0x843D] @ str_int seg_id @ (ascii '' ===''))"
    unfolding encodable_append using encodable_str_int
    by (simp add: encodable_def is_surrogate_def ascii_def)
  then have p1: "py_print ([0x0A] @ [0x3D, 0x3D, 0x3D, 0x20, 0x667A, 0x80FD, 0x56FE, 0x7247, 0x5339, 0x914D, 0x5206, 0x6790, 0x20, 0x6BB5, 0x843D] @ str_int seg_id @ (ascii '' ===''))
      = Inr ()"
    by (simp add: py_print_def)
  have "encodable ([0x41, 0x49, 0x751F, 0x6210, 0x7684, 0x56FE, 0x7247, 0x63D0, 0x793A, 0x8BCD, 0x3A, 0x20] @ prompt)"
    unfolding encodable_append using assms by (simp add: encodable_def is_surrogate_def)
  then have p2: "py_print ([0x41, 0x49, 0x751F, 0x6210, 0x7684, 0x56FE, 0x7247, 0x63D0, 0x793A, 0x8BCD, 0x3A, 0x20] @ prompt) = Inr ()"
    by (simp add: py_print_def)
  have "encodable (prompt @ [0x5F] @ str_int seg_id)"
    unfolding encodable_append using assms encodable_str_int
    by (simp add: encodable_def is_surrogate_def)
  then have en: "encode_utf8 (prompt @ [0x5F] @ str_int seg_id)
      = Inr (concat (map utf8_char (prompt @ [0x5F] @ str_int seg_id)))"
    by (rule encode_utf8_encodable)
  have "encodable ([0x9009, 0x62E9, 0x56FE, 0x7247, 0x3A, 0x20] @ ?imgs ! nat (?h mod 5) @ [0x20, 0x28, 0x7D22, 0x5F15, 0x3A, 0x20]
      @ str_int (?h mod 5) @ ascii '')'')"
    unfolding encodable_append using eu encodable_str_int
    by (simp add: encodable_def is_surrogate_def ascii_def)
  then have p3: "py_print ([0x9009, 0x62E9, 0x56FE, 0x7247, 0x3A, 0x20] @ ?imgs ! nat (?h mod 5) @ [0x20, 0x28, 0x7D22, 0x5F15, 0x3A, 0x20]
      @ str_int (?h mod 5) @ ascii '')'') = Inr ()"
    by (simp add: py_print_def)
  have "encodable [0x3D, 0x3D, 0x3D, 0x20, 0x56FE, 0x7247, 0x5339, 0x914D, 0x5B8C, 0x6210, 0x20, 0x3D, 0x3D, 0x3D]" by (simp add: encodable_def is_surrogate_def ascii_def)
  then have p4: "py_print [0x3D, 0x3D, 0x3D, 0x20, 0x56FE, 0x7247, 0x5339, 0x914D, 0x5B8C, 0x6210, 0x20, 0x3D, 0x3D, 0x3D] = Inr ()" by (simp add: py_print_def)
  show ?thesis
    unfolding generate_demo_image_def Let_def p1 p2 en using ne l p3 p4 by simp
qed

lemma generate_demo_image_unprintable:
  assumes "\<not> encodable prompt"
  shows "generate_demo_image lower weighted prompt seg_id = Inl UnicodeEncodeError"
proof -
  have "encodable ([0x0A] @ [0x3D, 0x3D, 0x3D, 0x20, 0x667A, 0x80FD, 0x56FE, 0x7247, 0x5339, 0x914D, 0x5206, 0x6790, 0x20, 0x6BB5, 0x843D] @ str_int seg_id @ (ascii '' ===''))"
    unfolding encodable_append using encodable_str_int
    by (simp add: encodable_def is_surrogate_def ascii_def)
  then have p1: "py_print ([0x0A] @ [0x3D, 0x3D, 0x3D, 0x20, 0x667A, 0x80FD, 0x56FE, 0x7247, 0x5339, 0x914D, 0x5206, 0x6790, 0x20, 0x6BB5, 0x843D] @ str_int seg_id @ (ascii '' ===''))
      = Inr ()"
    by (simp add: py_print_def)
  have "\<not> encodable ([0x41, 0x49, 0x751F, 0x6210, 0x7684, 0x56FE, 0x7247, 0x63D0, 0x793A, 0x8BCD, 0x3A, 0x20] @ prompt)"
    unfolding encodable_append using assms by simp
  then have p2: "py_print ([0x41, 0x49, 0x751F, 0x6210, 0x7684, 0x56FE, 0x7247, 0x63D0, 0x793A, 0x8BCD, 0x3A, 0x20] @ prompt) = Inl UnicodeEncodeError"
    by (simp add: py_print_def)
  show ?thesis unfolding generate_demo_image_def p1 p2 by simp
qed

text \<open>When all items have the score of the first one, the first one is the best.\<close>

lemma max_by_score_all_equal:
  "\<forall>x \<in> set xs. snd x = snd best \<Longrightarrow> max_by_score best xs = best"
  by (induction xs arbitrary: best) simp_all

lemma theme_scores_nonempty: "theme_scores weighted prompt_text an \<noteq> []"
  by (simp add: theme_scores_def enhanced_theme_mapping_def)

lemma first_theme: "fst (hd enhanced_theme_mapping) = ascii ''nature_mountain''"
  by (simp add: enhanced_theme_mapping_def)

lemma selected_theme_all_zero:
  assumes "list_all (\<lambda>(theme, theme_data).
        theme_keyword_score prompt_text (theme_keywords theme_data) = 0
        \<and> semantic_score prompt_text theme_data = 0
        \<and> emotion_score prompt_text (theme_emotions theme_data) = 0
        \<and> ai_analysis_score theme theme_data (analyze_ai_description prompt_text) = 0)
      enhanced_theme_mapping"
  shows "selected_theme weighted prompt_text = ascii ''nature_mountain''"
proof -
  let ?an = "analyze_ai_description prompt_text"
  have ts: "theme_scores weighted prompt_text ?an
      = map (\<lambda>(theme, theme_data). (theme, weighted 0 0 0 0)) enhanced_theme_mapping"
    unfolding theme_scores_def using assms by (auto simp: list_all_iff)
  obtain p rest where m: "enhanced_theme_mapping = p # rest"
    using theme_scores_nonempty[of weighted prompt_text ?an]
    by (cases enhanced_theme_mapping) (auto simp: theme_scores_def)
  have fp: "fst p = ascii ''nature_mountain''" using first_theme unfolding m by simp
  obtain t d where p: "p = (t, d)" by (cases p)
  have "theme_scores weighted prompt_text ?an
      = (t, weighted 0 0 0 0) # map (\<lambda>(theme, theme_data). (theme, weighted 0 0 0 0)) rest"
    unfolding ts m p by simp
  moreover have "max_by_score (t, weighted 0 0 0 0)
      (map (\<lambda>(theme, theme_data). (theme, weighted 0 0 0 0)) rest) = (t, weighted 0 0 0 0)"
    by (rule max_by_score_all_equal) auto
  ultimately have "selected_theme weighted prompt_text = t"
    by (simp add: selected_theme_def)
  with fp p show ?thesis by simp
qed

lemma nature_mountain_images:
  "theme_images (ascii ''nature_mountain'')
     = [ascii ''https://images.unsplash.com/photo-1506905925346-21bda4d32df4?w=400&h=600&fit=crop'',
        ascii ''https://images.unsplash.com/photo-1464822759844-d150baec0494?w=400&h=600&fit=crop'',
        ascii ''https://images.unsplash.com/photo-1519904981063-b0cf448d479e?w=400&h=600&fit=crop'',
        ascii ''https://images.unsplash.com/photo-1551632811-561732d1e306?w=400&h=600&fit=crop'',
        ascii ''https://images.unsplash.com/photo-1506197603052-3cc9c3a201bd?w=400&h=600&fit=crop'']"
  by code_simp

lemma not_a_nature_sky_image:
  "\<not> List.member (theme_images (ascii ''nature_sky''))
      (ascii ''https://images.unsplash.com/photo-1551632811-561732d1e306?w=400&h=600&fit=crop'')"
  by code_simp

section \<open>C3: the image is a function of the prompt and the segment\<close>

text \<open>
  C3 states that for every prompt and every segment id the demo image matcher returns an image
  URL that depends on these two arguments only, the image at the index
  \<open>int(md5(prompt + "_" + segment_id).hexdigest(), 16) mod 5\<close> in the pool of five images of
  the winning theme. For every prompt that can be printed this is what the function returns,
  whatever \<open>str.lower\<close> and the floating point weighting do. A prompt with a surrogate code
  point has no UTF-8 encoding: the second \<open>print\<close> raises \<open>UnicodeEncodeError\<close> (and so would
  \<open>encode('utf-8')\<close> further down), and no URL is returned.
\<close>

theorem demo_image_index:
  "(encodable prompt \<longrightarrow>
      length (theme_images (selected_theme weighted (lower prompt))) = 5
      \<and> encode_utf8 (prompt @ [0x5F] @ str_int seg_id)
          = Inr (concat (map utf8_char (prompt @ [0x5F] @ str_int seg_id)))
      \<and> generate_demo_image lower weighted prompt seg_id
          = Inr (theme_images (selected_theme weighted (lower prompt))
                   ! nat (int_of_hex (hexdigest (md5_digest
                       (concat (map utf8_char (prompt @ [0x5F] @ str_int seg_id))))) mod 5)))
   \<and> (\<not> encodable prompt \<longrightarrow>
      generate_demo_image lower weighted prompt seg_id = Inl UnicodeEncodeError)"
proof (intro conjI impI)
  assume e: "encodable prompt"
  show "length (theme_images (selected_theme weighted (lower prompt))) = 5"
    by (rule theme_images_props)
  have "encodable (prompt @ [0x5F] @ str_int seg_id)"
    unfolding encodable_append using e encodable_str_int
    by (simp add: encodable_def is_surrogate_def)
  then show "encode_utf8 (prompt @ [0x5F] @ str_int seg_id)
      = Inr (concat (map utf8_char (prompt @ [0x5F] @ str_int seg_id)))"
    by (rule encode_utf8_encodable)
  from e show "generate_demo_image lower weighted prompt seg_id
      = Inr (theme_images (selected_theme weighted (lower prompt))
               ! nat (int_of_hex (hexdigest (md5_digest
                   (concat (map utf8_char (prompt @ [0x5F] @ str_int seg_id))))) mod 5))"
    by (rule generate_demo_image_encodable)
next
  assume "\<not> encodable prompt"
  then show "generate_demo_image lower weighted prompt seg_id = Inl UnicodeEncodeError"
    by (rule generate_demo_image_unprintable)
qed

theorem demo_image_index_witness:
  "encodable (ascii ''hello'')
   \<and> hexdigest (md5_digest (concat (map utf8_char (ascii ''hello'' @ [0x5F] @ str_int 2))))
       = ascii ''05319f3823d92d858d932bb9649e6dc9''
   \<and> int_of_hex (ascii ''05319f3823d92d858d932bb9649e6dc9'') mod 5 = 3
   \<and> generate_demo_image (\<lambda>s. s) (\<lambda>k s e a. 4 * k + 3 * s + 2 * e + a :: nat)
        (ascii ''hello'') 2
       = Inr (ascii ''https://images.unsplash.com/photo-1551632811-561732d1e306?w=400&h=600&fit=crop'')
   \<and> \<not> encodable [0xD800]
   \<and> generate_demo_image (\<lambda>s. s) (\<lambda>k s e a. 4 * k + 3 * s + 2 * e + a :: nat) [0xD800] 1
       = Inl UnicodeEncodeError"
proof -
  let ?w = "\<lambda>k s e a. 4 * k + 3 * s + 2 * e + a :: nat"
  have h: "encodable (ascii ''hello'')" by code_simp
  have d: "hexdigest (md5_digest (concat (map utf8_char (ascii ''hello'' @ [0x5F] @ str_int 2))))
       = ascii ''05319f3823d92d858d932bb9649e6dc9''"
    by code_simp
  have m: "int_of_hex (ascii ''05319f3823d92d858d932bb9649e6dc9'') mod 5 = 3" by code_simp
  have t: "theme_images (selected_theme ?w (ascii ''hello'')) ! nat 3
      = ascii ''https://images.unsplash.com/photo-1551632811-561732d1e306?w=400&h=600&fit=crop''"
    by code_simp
  have n: "\<not> encodable [0xD800]" by (simp add: encodable_def is_surrogate_def)
  note a = demo_image_index[where prompt = "ascii ''hello''" and lower = "\<lambda>s. s"
      and weighted = ?w and seg_id = 2, THEN conjunct1, THEN mp, OF h, THEN conjunct2,
      THEN conjunct2]
  note b = demo_image_index[where prompt = "[0xD800]" and lower = "\<lambda>s. s"
      and weighted = ?w and seg_id = 1, THEN conjunct2, THEN mp, OF n]
  have g: "generate_demo_image (\<lambda>s. s) ?w (ascii ''hello'') 2
       = Inr (ascii ''https://images.unsplash.com/photo-1551632811-561732d1e306?w=400&h=600&fit=crop'')"
    using a unfolding d m t .
  from h d m g n b show ?thesis by (intro conjI)
qed

section \<open>C5: the theme when every score is zero\<close>

text \<open>
  C5 states that when every theme has the score 0 the theme is chosen by the default rules,
  which end in the theme \<open>nature_sky\<close>, so that the image comes from the pool of
  \<open>nature_sky\<close>. The dictionary \<open>theme_scores\<close> has an entry for each of the 36 themes, so
  \<open>if theme_scores:\<close> always holds and \<open>_get_intelligent_default_theme\<close> is never called.
  When the four scores of every theme are 0, whatever the weighting, all total scores are equal
  and \<open>max\<close> returns the first item: the theme is \<open>nature_mountain\<close> and the image is one of
  its five images. The fourth of them is not an image of \<open>nature_sky\<close>.
\<close>

theorem all_zero_selects_first_theme:
  assumes "list_all (\<lambda>(theme, theme_data).
        theme_keyword_score (lower prompt) (theme_keywords theme_data) = 0
        \<and> semantic_score (lower prompt) theme_data = 0
        \<and> emotion_score (lower prompt) (theme_emotions theme_data) = 0
        \<and> ai_analysis_score theme theme_data (analyze_ai_description (lower prompt)) = 0)
      enhanced_theme_mapping"
    and "encodable prompt"
  shows "theme_scores weighted (lower prompt) (analyze_ai_description (lower prompt)) \<noteq> []
    \<and> selected_theme weighted (lower prompt) = ascii ''nature_mountain''
    \<and> generate_demo_image lower weighted prompt seg_id
        = Inr ([ascii ''https://images.unsplash.com/photo-1506905925346-21bda4d32df4?w=400&h=600&fit=crop'',
                ascii ''https://images.unsplash.com/photo-1464822759844-d150baec0494?w=400&h=600&fit=crop'',
                ascii ''https://images.unsplash.com/photo-1519904981063-b0cf448d479e?w=400&h=600&fit=crop'',
                ascii ''https://images.unsplash.com/photo-1551632811-561732d1e306?w=400&h=600&fit=crop'',
                ascii ''https://images.unsplash.com/photo-1506197603052-3cc9c3a201bd?w=400&h=600&fit=crop'']
               ! nat (int_of_hex (hexdigest (md5_digest
                   (concat (map utf8_char (prompt @ [0x5F] @ str_int seg_id))))) mod 5))
    \<and> \<not> List.member (theme_images (ascii ''nature_sky''))
          (ascii ''https://images.unsplash.com/photo-1551632811-561732d1e306?w=400&h=600&fit=crop'')"
proof -
  have s: "selected_theme weighted (lower prompt) = ascii ''nature_mountain''"
    using assms(1) by (rule selected_theme_all_zero)
  have g: "generate_demo_image lower weighted prompt seg_id
      = Inr (theme_images (ascii ''nature_mountain'')
               ! nat (int_of_hex (hexdigest (md5_digest
                   (concat (map utf8_char (prompt @ [0x5F] @ str_int seg_id))))) mod 5))"
    using generate_demo_image_encodable[OF assms(2), of lower weighted seg_id] unfolding s .
  from theme_scores_nonempty s g[unfolded nature_mountain_images] not_a_nature_sky_image
  show ?thesis by (intro conjI)
qed

theorem all_zero_selects_first_theme_witness:
  "list_all (\<lambda>(theme, theme_data).
        theme_keyword_score (ascii ''hello'') (theme_keywords theme_data) = 0
        \<and> semantic_score (ascii ''hello'') theme_data = 0
        \<and> emotion_score (ascii ''hello'') (theme_emotions theme_data) = 0
        \<and> ai_analysis_score theme theme_data (analyze_ai_description (ascii ''hello'')) = 0)
      enhanced_theme_mapping
   \<and> encodable (ascii ''hello'')
   \<and> get_intelligent_default_theme (ascii ''hello'') = ascii ''nature_sky''
   \<and> selected_theme (\<lambda>k s e a. 4 * k + 3 * s + 2 * e + a :: nat) (ascii ''hello'')
       = ascii ''nature_mountain''
   \<and> generate_demo_image (\<lambda>s. s) (\<lambda>k s e a. 4 * k + 3 * s + 2 * e + a :: nat)
        (ascii ''hello'') 2
       = Inr (ascii ''https://images.unsplash.com/photo-1551632811-561732d1e306?w=400&h=600&fit=crop'')
   \<and> \<not> List.member (theme_images (ascii ''nature_sky''))
          (ascii ''https://images.unsplash.com/photo-1551632811-561732d1e306?w=400&h=600&fit=crop'')"
proof -
  let ?w = "\<lambda>k s e a. 4 * k + 3 * s + 2 * e + a :: nat"
  have z: "list_all (\<lambda>(theme, theme_data).
        theme_keyword_score ((\<lambda>s. s) (ascii ''hello'')) (theme_keywords theme_data) = 0
        \<and> semantic_score ((\<lambda>s. s) (ascii ''hello'')) theme_data = 0
        \<and> emotion_score ((\<lambda>s. s) (ascii ''hello'')) (theme_emotions theme_data) = 0
        \<and> ai_analysis_score theme theme_data
            (analyze_ai_description ((\<lambda>s. s) (ascii ''hello''))) = 0)
      enhanced_theme_mapping"
    by code_simp
  have h: "encodable (ascii ''hello'')" by code_simp
  have d: "get_intelligent_default_theme (ascii ''hello'') = ascii ''nature_sky''" by code_simp
  have i: "nat (int_of_hex (hexdigest (md5_digest
      (concat (map utf8_char (ascii ''hello'' @ [0x5F] @ str_int 2))))) mod 5) = 3"
    by code_simp
  note t = all_zero_selects_first_theme[where lower = "\<lambda>s. s" and prompt = "ascii ''hello''"
      and weighted = ?w and seg_id = 2, OF z h]
  from t have s: "selected_theme ?w (ascii ''hello'') = ascii ''nature_mountain''" by simp
  from t have g: "generate_demo_image (\<lambda>s. s) ?w (ascii ''hello'') 2
       = Inr (ascii ''https://images.unsplash.com/photo-1551632811-561732d1e306?w=400&h=600&fit=crop'')"
    unfolding i by simp
  from t have n: "\<not> List.member (theme_images (ascii ''nature_sky''))
          (ascii ''https://images.unsplash.com/photo-1551632811-561732d1e306?w=400&h=600&fit=crop'')"
    by (elim conjE)
  from z h d s g n show ?thesis by simp
qed

end
